theory Spec2Isabelle
  imports Complex_Main "HOL-Library.Monad_Syntax"
begin

section \<open>Python containers and numeric helpers\<close>

text \<open>
  Python floats are modelled as exact reals, Python ints as \<open>int\<close>, and a
  \<open>collections.deque(maxlen=n)\<close> as a list whose oldest entry is the head.
  A computation that can raise is an \<open>option\<close>: \<open>None\<close> is "an exception was raised"
  (every handler of the source catches \<open>Exception\<close> without looking at its kind).
\<close>

definition deque_append :: "nat \<Rightarrow> 'a list \<Rightarrow> 'a \<Rightarrow> 'a list" where
  \<comment> \<open>\<open>d.append(x)\<close> on a \<open>deque(maxlen=n)\<close>: the oldest entries are evicted.\<close>
  "deque_append maxlen xs x = drop (Suc (length xs) - maxlen) (xs @ [x])"

definition last_n :: "nat \<Rightarrow> 'a list \<Rightarrow> 'a list" where
  \<comment> \<open>\<open>list(d)[-n:]\<close> for a literal \<open>n > 0\<close>.\<close>
  "last_n n xs = drop (length xs - n) xs"

definition slice_from_neg :: "int \<Rightarrow> 'a list \<Rightarrow> 'a list" where
  \<comment> \<open>\<open>xs[-k:]\<close> for a variable int \<open>k\<close>: the last \<open>k\<close> entries when \<open>k > 0\<close>,
      the whole list when \<open>k = 0\<close>, and \<open>xs[|k|:]\<close> when \<open>k < 0\<close>.\<close>
  "slice_from_neg k xs =
     (if 0 < k then drop (length xs - nat k) xs else drop (nat (- k)) xs)"

definition nth_opt :: "'a list \<Rightarrow> nat \<Rightarrow> 'a option" where
  \<comment> \<open>\<open>xs[i]\<close> for \<open>i \<ge> 0\<close>; IndexError out of range.\<close>
  "nth_opt xs i = (if i < length xs then Some (xs ! i) else None)"

fun list_max :: "real list \<Rightarrow> real option" where
  \<comment> \<open>\<open>max(xs)\<close>; ValueError on an empty list.\<close>
  "list_max [] = None"
| "list_max (x # xs) = Some (fold max xs x)"

fun list_min :: "real list \<Rightarrow> real option" where
  \<comment> \<open>\<open>min(xs)\<close>; ValueError on an empty list.\<close>
  "list_min [] = None"
| "list_min (x # xs) = Some (fold min xs x)"

definition argmax_first :: "real list \<Rightarrow> nat" where
  \<comment> \<open>\<open>np.argmax(xs) if xs else 0\<close>: the index of the first maximal entry.\<close>
  "argmax_first xs =
     (case list_max xs of None \<Rightarrow> 0 | Some m \<Rightarrow> length (takeWhile (\<lambda>x. x \<noteq> m) xs))"

definition np_mean :: "real list \<Rightarrow> real" where
  "np_mean xs = sum_list xs / real (length xs)"

definition np_std :: "real list \<Rightarrow> real" where
  \<comment> \<open>\<open>np.std\<close>: the population standard deviation.\<close>
  "np_std xs = sqrt (sum_list (map (\<lambda>x. (x - np_mean xs)\<^sup>2) xs) / real (length xs))"

section \<open>The comprehensive engine (comprehensive\_pose\_corrector.py)\<close>

subsection \<open>Data model\<close>

datatype phase = Start | Quarter | Peak | Return | End

text \<open>
  A thresholds dict. The per-category dicts of \<open>load_exercise_thresholds\<close> hold only
  three of the five keys; a missing key is \<open>None\<close> and reading it raises KeyError.
\<close>

record thresholds =
  min_angle_range :: real
  phase_stability :: "int option"
  rep_cooldown :: real
  confidence_threshold :: "real option"
  velocity_threshold :: real

definition default_thresholds :: thresholds where
  "default_thresholds =
     \<lparr>min_angle_range = 25, phase_stability = Some 3, rep_cooldown = 20,
      confidence_threshold = Some 0.7, velocity_threshold = 1.5\<rparr>"

definition category_specific :: "string \<Rightarrow> thresholds option" where
  "category_specific c =
     (if c = ''upper_body'' then
        Some \<lparr>min_angle_range = 30, phase_stability = None, rep_cooldown = 15,
              confidence_threshold = None, velocity_threshold = 2\<rparr>
      else if c = ''lower_body'' then
        Some \<lparr>min_angle_range = 35, phase_stability = None, rep_cooldown = 25,
              confidence_threshold = None, velocity_threshold = 1.2\<rparr>
      else if c = ''core'' then
        Some \<lparr>min_angle_range = 20, phase_stability = None, rep_cooldown = 18,
              confidence_threshold = None, velocity_threshold = 1.8\<rparr>
      else if c = ''cardio'' then
        Some \<lparr>min_angle_range = 15, phase_stability = None, rep_cooldown = 10,
              confidence_threshold = None, velocity_threshold = 2.5\<rparr>
      else None)"

definition category_thresholds_of :: "string \<Rightarrow> thresholds" where
  \<comment> \<open>\<open>exercise_thresholds['category_specific'].get(category, exercise_thresholds['default'])\<close>\<close>
  "category_thresholds_of c =
     (case category_specific c of Some th \<Rightarrow> th | None \<Rightarrow> default_thresholds)"

record cstate =
  angle_buffer :: "real list list"
  phase_buffer :: "phase list"
  phase_history_buffer :: "phase list"
  rep_count :: int
  current_phase :: phase
  last_rep_time :: real
  movement_quality_history :: "real list"
  current_exercise_name :: string
  current_category :: string
  exercise_confidence :: real
  total_reps :: int
  exercise_changes :: int

definition fresh_session :: cstate where
  \<comment> \<open>\<open>ComprehensivePoseCorrector.__init__\<close>\<close>
  "fresh_session =
     \<lparr>angle_buffer = [], phase_buffer = [], phase_history_buffer = [], rep_count = 0,
      current_phase = Start, last_rep_time = 0, movement_quality_history = [],
      current_exercise_name = ''unknown'', current_category = ''general'',
      exercise_confidence = 0, total_reps = 0, exercise_changes = 0\<rparr>"

subsection \<open>Movement metrics over the trailing window\<close>

definition get_primary_angles_for_exercise :: "real list list \<Rightarrow> string \<Rightarrow> nat list" where
  "get_primary_angles_for_exercise recent_angles category =
     (if category = ''upper_body'' then [0, 1, 2, 3]
      else if category = ''lower_body'' then [4, 5, 6, 7]
      else if category = ''core'' then [2, 3, 4, 5]
      else if category = ''cardio'' then [0, 1, 6, 7]
      else if category = ''general'' then [0, 1, 2, 3]
      else [0, 1, 2, 3])"

definition channel_values :: "nat \<Rightarrow> real list list \<Rightarrow> real list option" where
  \<comment> \<open>\<open>[frame[angle_idx] for frame in recent_angles]\<close>\<close>
  "channel_values angle_idx frames = those (map (\<lambda>frame. nth_opt frame angle_idx) frames)"

definition channel_range :: "real list \<Rightarrow> real option" where
  \<comment> \<open>\<open>max(values) - min(values)\<close>\<close>
  "channel_range vals = do { mx \<leftarrow> list_max vals; mn \<leftarrow> list_min vals; Some (mx - mn) }"

definition channel_velocity :: "real list \<Rightarrow> real" where
  \<comment> \<open>\<open>abs(values[-1] - values[-5]) / 4\<close> when five values exist, else 0.\<close>
  "channel_velocity vals =
     (if 5 \<le> length vals then \<bar>last vals - vals ! (length vals - 5)\<bar> / 4 else 0)"

fun scan_channels :: "nat list \<Rightarrow> real list list \<Rightarrow> (real list \<times> real list) option" where
  \<comment> \<open>The loop over \<open>primary_angles\<close>: the ranges and the velocities, channel by channel.\<close>
  "scan_channels [] recent_angles = Some ([], [])"
| "scan_channels (angle_idx # rest) recent_angles =
     do { vals \<leftarrow> channel_values angle_idx recent_angles;
          angle_range \<leftarrow> channel_range vals;
          (angle_ranges, angle_velocities) \<leftarrow> scan_channels rest recent_angles;
          Some (angle_range # angle_ranges, channel_velocity vals # angle_velocities) }"

subsection \<open>Phase classifier\<close>

definition phase_position :: "real \<Rightarrow> real list \<Rightarrow> real option" where
  \<comment> \<open>Lines 624-625: the position of the primary angle within the window.\<close>
  "phase_position primary_angle recent_vals =
     do { min_val \<leftarrow> list_min recent_vals;
          max_val \<leftarrow> list_max recent_vals;
          Some (if max_val > min_val then (primary_angle - min_val) / (max_val - min_val)
                else 0.5) }"

definition phase_state_machine :: "phase \<Rightarrow> real \<Rightarrow> real \<Rightarrow> real \<Rightarrow> phase" where
  \<comment> \<open>Lines 628-651: the if/elif chain on \<open>self.current_phase\<close>.\<close>
  "phase_state_machine cur position velocity vt =
     (case cur of
        Start \<Rightarrow> if position > 0.25 \<and> velocity > vt then Quarter else cur
      | Quarter \<Rightarrow>
          if position > 0.7 \<and> velocity > vt * 0.8 then Peak
          else if position < 0.15 then Start else cur
      | Peak \<Rightarrow> if position < 0.6 \<and> velocity > vt * 0.6 then Return else cur
      | Return \<Rightarrow>
          if position < 0.2 \<and> velocity < vt * 0.5 then End
          else if position > 0.7 then Peak else cur
      | End \<Rightarrow>
          if velocity < 1.0 \<and> position < 0.15 then End
          else if velocity > vt \<and> position > 0.2 then Start else cur)"

definition determine_exercise_phase ::
  "real \<Rightarrow> real \<Rightarrow> real \<Rightarrow> thresholds \<Rightarrow> real list list \<Rightarrow> nat \<Rightarrow> cstate \<Rightarrow> phase option" where
  "determine_exercise_phase primary_angle velocity angle_range th recent_angles angle_idx s =
     (if angle_range < min_angle_range th then Some (current_phase s)
      else do { recent_vals \<leftarrow> channel_values angle_idx recent_angles;
                position \<leftarrow> phase_position primary_angle recent_vals;
                Some (phase_state_machine (current_phase s) position velocity
                        (velocity_threshold th)) })"

subsection \<open>Consensus stabiliser\<close>

definition valid_transitions :: "phase \<Rightarrow> phase list" where
  "valid_transitions p =
     (case p of Start \<Rightarrow> [Quarter] | Quarter \<Rightarrow> [Peak, Start] | Peak \<Rightarrow> [Return]
      | Return \<Rightarrow> [End, Peak] | End \<Rightarrow> [Start])"

definition commit_phase :: "phase \<Rightarrow> cstate \<Rightarrow> cstate" where
  \<comment> \<open>Lines 670-671: the candidate replaces the current phase and joins the history.\<close>
  "commit_phase new_phase s =
     s\<lparr>current_phase := new_phase,
       phase_history_buffer := deque_append 10 (phase_history_buffer s) new_phase\<rparr>"

definition validate_and_update_phase :: "phase \<Rightarrow> thresholds \<Rightarrow> cstate \<Rightarrow> cstate option" where
  "validate_and_update_phase new_phase th s =
     (case phase_stability th of
        None \<Rightarrow> None
      | Some k \<Rightarrow>
          let recent_phases = slice_from_neg k (phase_buffer s) in
          Some (if 2 \<le> count_list recent_phases new_phase \<and>
                   new_phase \<in> set (valid_transitions (current_phase s))
                then commit_phase new_phase s else s))"

subsection \<open>Repetition detector and quality scorer\<close>

definition check_rep_completion :: "real \<Rightarrow> real \<Rightarrow> thresholds \<Rightarrow> cstate \<Rightarrow> bool" where
  "check_rep_completion timestamp max_range th s \<longleftrightarrow>
     current_phase s = End \<and>
     timestamp - last_rep_time s > rep_cooldown th / 30 \<and>
     max_range > min_angle_range th \<and>
     3 \<le> length (phase_history_buffer s)"

definition expected_sequence :: "phase list" where
  "expected_sequence = [Start, Quarter, Peak, Return, End]"

definition range_quality :: "real list \<Rightarrow> real" where
  \<comment> \<open>\<open>min(max(angle_ranges) / 60.0, 1.0) if angle_ranges else 0.5\<close>\<close>
  "range_quality angle_ranges =
     (case list_max angle_ranges of None \<Rightarrow> 0.5 | Some m \<Rightarrow> min (m / 60) 1)"

definition velocity_consistency :: "real list \<Rightarrow> real" where
  \<comment> \<open>Lines 690-694. numpy's float division does not raise. When the divisor
      \<open>mean + 1e-6\<close> is 0.0, a positive standard deviation gives \<open>inf\<close>, and the clamp of
      \<open>1.0 - inf\<close> is 0.0; a standard deviation of 0.0 gives \<open>nan\<close>, which
      \<open>min(1.0, nan)\<close> replaces by 1.0.\<close>
  "velocity_consistency velocities =
     (if 1 < length velocities
      then (let sd = np_std velocities; divisor = np_mean velocities + 1 / 10 ^ 6
            in if divisor = 0 then (if sd = 0 then 1 else 0)
               else max 0 (min 1 (1 - sd / divisor)))
      else 0.5)"

definition sequence_quality :: "phase list \<Rightarrow> real" where
  \<comment> \<open>Lines 697-703: positional matches of the last five committed phases.\<close>
  "sequence_quality history =
     (if 5 \<le> length history
      then real (length (filter (\<lambda>(p, e). p = e) (zip (last_n 5 history) expected_sequence))) / 5
      else 0.5)"

definition calculate_movement_quality ::
  "real list \<Rightarrow> real list \<Rightarrow> thresholds \<Rightarrow> cstate \<Rightarrow> real \<times> cstate" where
  "calculate_movement_quality angle_ranges velocities th s =
     (let overall_quality =
            range_quality angle_ranges * 0.4 + velocity_consistency velocities * 0.3 +
            sequence_quality (phase_history_buffer s) * 0.3
      in (overall_quality,
          s\<lparr>movement_quality_history :=
              deque_append 30 (movement_quality_history s) overall_quality\<rparr>))"

subsection \<open>Per-frame repetition detection\<close>

definition movement_metrics ::
  "real list \<Rightarrow> thresholds \<Rightarrow> cstate \<Rightarrow> (real list \<times> real list \<times> phase) option" where
  \<comment> \<open>Lines 551-581: the ranges, the velocities and the classifier's candidate;
      \<open>None\<close> when an index is out of range.\<close>
  "movement_metrics current_angles th s =
     (let recent_angles = last_n 15 (angle_buffer s);
          primary_angles = get_primary_angles_for_exercise recent_angles (current_category s)
      in do { (angle_ranges, angle_velocities) \<leftarrow> scan_channels primary_angles recent_angles;
              let max_range_idx = argmax_first angle_ranges;
              actual_angle_idx \<leftarrow> nth_opt primary_angles max_range_idx;
              primary_angle_val \<leftarrow> nth_opt current_angles actual_angle_idx;
              let max_velocity =
                    (case list_max angle_velocities of None \<Rightarrow> 0 | Some v \<Rightarrow> v);
              angle_range \<leftarrow> nth_opt angle_ranges max_range_idx;
              new_phase \<leftarrow> determine_exercise_phase primary_angle_val max_velocity angle_range
                             th recent_angles actual_angle_idx s;
              Some (angle_ranges, angle_velocities, new_phase) })"

definition stabilise :: "phase \<Rightarrow> thresholds \<Rightarrow> cstate \<Rightarrow> bool \<times> cstate" where
  \<comment> \<open>Lines 584-586: the vote is buffered, then the gate on the number of votes and the
      validation. The flag is False when \<open>thresholds['phase_stability']\<close> raised KeyError
      (the vote is already buffered then).\<close>
  "stabilise new_phase th s =
     (let s1 = s\<lparr>phase_buffer := deque_append 20 (phase_buffer s) new_phase\<rparr> in
      case phase_stability th of
        None \<Rightarrow> (False, s1)
      | Some k \<Rightarrow>
          if k \<le> int (length (phase_buffer s1))
          then (case validate_and_update_phase new_phase th s1 of
                  None \<Rightarrow> (False, s1) | Some s2 \<Rightarrow> (True, s2))
          else (True, s1))"

definition count_rep :: "real \<Rightarrow> cstate \<Rightarrow> cstate" where
  \<comment> \<open>Lines 590-592.\<close>
  "count_rep timestamp s =
     s\<lparr>rep_count := rep_count s + 1, total_reps := total_reps s + 1,
       last_rep_time := timestamp\<rparr>"

definition rep_detection_body ::
  "real list \<Rightarrow> real \<Rightarrow> thresholds \<Rightarrow> cstate \<Rightarrow> real option \<times> cstate" where
  \<comment> \<open>Lines 551-598, the block under \<open>if len(self.angle_buffer) >= 15\<close>: the movement
      quality and the new state, or \<open>None\<close> with the state as mutated so far when an
      exception was raised.\<close>
  "rep_detection_body current_angles timestamp th s =
     (case movement_metrics current_angles th s of
        None \<Rightarrow> (None, s)
      | Some (angle_ranges, angle_velocities, new_phase) \<Rightarrow>
          (case stabilise new_phase th s of
             (False, s1) \<Rightarrow> (None, s1)
           | (True, s2) \<Rightarrow>
               (case list_max angle_ranges of
                  None \<Rightarrow> (None, s2)
                | Some max_range \<Rightarrow>
                    let s3 = (if check_rep_completion timestamp max_range th s2
                              then count_rep timestamp s2 else s2);
                        (movement_quality, s4) =
                          calculate_movement_quality angle_ranges angle_velocities th s3
                    in (Some movement_quality, s4))))"

type_synonym detection = "int \<times> phase \<times> real \<times> real"

definition advanced_rep_detection ::
  "real list \<Rightarrow> real \<Rightarrow> cstate \<Rightarrow> detection option \<times> cstate" where
  \<comment> \<open>\<open>current_angles = []\<close> stands for a missing or empty feature list. The result is
      \<open>None\<close> where the source falls off the end of the function.\<close>
  "advanced_rep_detection current_angles timestamp s =
     (if current_angles = [] \<or> length (angle_buffer s) < 15
      then (Some (rep_count s, Start, 0.5, 0.5), s)
      else
        let s1 = s\<lparr>angle_buffer := deque_append 60 (angle_buffer s) current_angles\<rparr>;
            category_thresholds = category_thresholds_of (current_category s1)
        in if 15 \<le> length (angle_buffer s1)
           then (case rep_detection_body current_angles timestamp category_thresholds s1 of
                   (None, s') \<Rightarrow> (Some (rep_count s', current_phase s', 0.5, 0.5), s')
                 | (Some movement_quality, s') \<Rightarrow>
                     (Some (rep_count s', current_phase s', 0.8, movement_quality), s'))
           else (None, s1))"

subsection \<open>Frame processing\<close>

text \<open>
  What \<open>process_frame\<close> gets from its collaborators for one video frame: the feature
  vector of the pose estimator (empty when no pose was found), the answer of
  \<open>identify_exercise\<close>, and the clock.
\<close>

record frame_obs =
  pose_features :: "real list"
  exercise_match :: string
  similarity :: real
  category :: string
  clock :: real

definition update_exercise_context :: "frame_obs \<Rightarrow> cstate \<Rightarrow> cstate" where
  \<comment> \<open>Lines 899-905.\<close>
  "update_exercise_context ob s =
     (if similarity ob > 0.7 \<and> exercise_match ob \<noteq> current_exercise_name s
      then s\<lparr>current_exercise_name := exercise_match ob, current_category := category ob,
             exercise_confidence := similarity ob, exercise_changes := exercise_changes s + 1\<rparr>
      else s)"

definition process_frame :: "frame_obs \<Rightarrow> cstate \<Rightarrow> detection option \<times> cstate" where
  \<comment> \<open>The rep-counting part of \<open>process_frame\<close>; \<open>None\<close> is "no analysis".\<close>
  "process_frame ob s =
     (if pose_features ob = [] then (None, s)
      else advanced_rep_detection (pose_features ob) (clock ob) (update_exercise_context ob s))"

fun run_session :: "frame_obs list \<Rightarrow> cstate \<Rightarrow> detection option list \<times> cstate" where
  "run_session [] s = ([], s)"
| "run_session (ob # obs) s =
     (let (r, s1) = process_frame ob s; (rs, s2) = run_session obs s1 in (r # rs, s2))"

section \<open>The professional engine (professional\_pose\_corrector.py)\<close>

subsection \<open>Strings and dicts\<close>

definition lower_char :: "char \<Rightarrow> char" where
  \<comment> \<open>\<open>str.lower\<close> on one character (ASCII letters).\<close>
  "lower_char c =
     (case map_of (zip ''ABCDEFGHIJKLMNOPQRSTUVWXYZ'' ''abcdefghijklmnopqrstuvwxyz'') c of
        Some l \<Rightarrow> l | None \<Rightarrow> c)"

definition lower :: "string \<Rightarrow> string" where
  "lower name = map lower_char name"

fun py_in :: "string \<Rightarrow> string \<Rightarrow> bool" where
  \<comment> \<open>\<open>sub in text\<close> on strings.\<close>
  "py_in sub [] = (sub = [])"
| "py_in sub (c # cs) = (take (length sub) (c # cs) = sub \<or> py_in sub cs)"

definition dict_get :: "(string \<rightharpoonup> real) \<Rightarrow> string \<Rightarrow> real \<Rightarrow> real" where
  \<comment> \<open>\<open>d.get(key, default)\<close>\<close>
  "dict_get d k dflt = (case d k of Some v \<Rightarrow> v | None \<Rightarrow> dflt)"

subsection \<open>Data model\<close>

record pattern =
  pattern_mean :: "real list"
  pattern_range :: "real list"
  pattern_phases :: nat

record pstate =
  exercise_mapping :: "string \<rightharpoonup> string"
  exercise_patterns :: "string \<rightharpoonup> pattern"
  current_exercise_id :: "string option"
  pro_exercise_name :: string
  target_exercise_pattern :: "pattern option"
  pro_angle_buffer :: "real list"
  pro_phase_buffer :: "phase list"
  phase_history :: "phase list"
  pro_rep_count :: int
  pro_phase :: phase
  pro_last_rep_time :: real
  phase_transition_count :: int
  form_scores :: "real list"
  confidence_scores :: "real list"
  session_start_time :: "real option"
  rep_flash_timer :: real

definition pro_init :: "(string \<rightharpoonup> string) \<Rightarrow> (string \<rightharpoonup> pattern) \<Rightarrow> real \<Rightarrow> pstate" where
  \<comment> \<open>\<open>ProfessionalPoseCorrector.__init__\<close> with the loaded database and the clock.\<close>
  "pro_init mapping patterns now =
     \<lparr>exercise_mapping = mapping, exercise_patterns = patterns, current_exercise_id = None,
      pro_exercise_name = ''No exercise selected'', target_exercise_pattern = None,
      pro_angle_buffer = [], pro_phase_buffer = [], phase_history = [], pro_rep_count = 0,
      pro_phase = Start, pro_last_rep_time = 0, phase_transition_count = 0,
      form_scores = [], confidence_scores = [], session_start_time = Some now,
      rep_flash_timer = 0\<rparr>"

record angle_thresholds =
  th_extended :: real
  th_quarter :: real
  th_peak :: real
  th_return :: real

subsection \<open>Session control\<close>

definition set_target_exercise :: "string \<Rightarrow> pstate \<Rightarrow> bool \<times> pstate" where
  "set_target_exercise exercise_id s =
     (case exercise_mapping s exercise_id of
        Some name \<Rightarrow>
          (True,
           s\<lparr>current_exercise_id := Some exercise_id, pro_exercise_name := name,
             target_exercise_pattern := exercise_patterns s exercise_id,
             pro_rep_count := 0, pro_phase := Start, pro_phase_buffer := [],
             phase_history := [], form_scores := [], confidence_scores := [],
             pro_last_rep_time := 0\<rparr>)
      | None \<Rightarrow> (False, s))"

datatype api_reply =
  ExerciseResponse string string string string
| HTTPException nat string
| Ack string string

definition start_exercise :: "string \<Rightarrow> pstate \<Rightarrow> api_reply \<times> pstate" where
  \<comment> \<open>pose\_corrector\_api.py, \<open>POST /api/start-exercise\<close>: the answer of
      \<open>set_target_exercise\<close> is dropped.\<close>
  "start_exercise exercise_id s =
     (let (found, s') = set_target_exercise exercise_id s in
      (ExerciseResponse ''started'' exercise_id (pro_exercise_name s')
         (''Exercise session started: '' @ pro_exercise_name s'), s'))"

definition reset_session :: "pstate \<Rightarrow> api_reply \<times> pstate" where
  \<comment> \<open>pose\_corrector\_api.py, \<open>POST /api/reset\<close>.\<close>
  "reset_session s =
     (Ack ''reset'' ''Session reset successfully'',
      s\<lparr>pro_rep_count := 0, phase_history := [], pro_phase := Start,
        session_start_time := None\<rparr>)"

subsection \<open>Universal repetition detection\<close>

definition elbow_angle :: "(string \<rightharpoonup> real) \<Rightarrow> real" where
  "elbow_angle angles = min (dict_get angles ''left_elbow'' 90) (dict_get angles ''right_elbow'' 90)"

definition knee_angle :: "(string \<rightharpoonup> real) \<Rightarrow> real" where
  "knee_angle angles = min (dict_get angles ''left_knee'' 90) (dict_get angles ''right_knee'' 90)"

definition shoulder_angle :: "(string \<rightharpoonup> real) \<Rightarrow> real" where
  "shoulder_angle angles =
     max (dict_get angles ''left_shoulder'' 90) (dict_get angles ''right_shoulder'' 90)"

fun tuple_max :: "(real \<times> nat) list \<Rightarrow> (real \<times> nat) option" where
  \<comment> \<open>\<open>max\<close> of a list of \<open>(range, index)\<close> tuples, compared lexicographically.\<close>
  "tuple_max [] = None"
| "tuple_max (x # xs) =
     Some (fold (\<lambda>y best. if fst best < fst y \<or> (fst best = fst y \<and> snd best < snd y)
                           then y else best) xs x)"

definition generic_primary_angle :: "(string \<rightharpoonup> real) \<Rightarrow> pstate \<Rightarrow> real" where
  \<comment> \<open>Lines 368-394. The buffer holds one number per frame, so \<open>joint_values\<close> is the
      same list for every joint.\<close>
  "generic_primary_angle angles s =
     (let all_angles =
            [dict_get angles ''left_elbow'' 90, dict_get angles ''right_elbow'' 90,
             dict_get angles ''left_shoulder'' 90, dict_get angles ''right_shoulder'' 90,
             dict_get angles ''left_knee'' 90, dict_get angles ''right_knee'' 90]
      in if 10 \<le> length (pro_angle_buffer s) then
           (let joint_values = last_n 10 (pro_angle_buffer s);
                angle_ranges =
                  concat (map (\<lambda>i. if 1 < length joint_values
                                      then (case channel_range joint_values of
                                              Some r \<Rightarrow> [(r, i)] | None \<Rightarrow> [])
                                      else []) [0..<length all_angles])
            in case tuple_max angle_ranges of
                 Some (max_range, best_joint) \<Rightarrow> all_angles ! best_joint
               | None \<Rightarrow> elbow_angle angles)
         else elbow_angle angles)"

definition primary_movement :: "(string \<rightharpoonup> real) \<Rightarrow> pstate \<Rightarrow> real \<times> angle_thresholds" where
  \<comment> \<open>Lines 329-397: the primary angle and the angle thresholds chosen from the name.\<close>
  "primary_movement angles s =
     (let exercise_name = lower (pro_exercise_name s) in
      if py_in ''curl'' exercise_name then
        (elbow_angle angles,
         \<lparr>th_extended = 150, th_quarter = 120, th_peak = 70, th_return = 110\<rparr>)
      else if py_in ''squat'' exercise_name \<or> py_in ''lunge'' exercise_name then
        (knee_angle angles,
         \<lparr>th_extended = 170, th_quarter = 140, th_peak = 90, th_return = 120\<rparr>)
      else if py_in ''press'' exercise_name \<and>
              (py_in ''bench'' exercise_name \<or> py_in ''chest'' exercise_name) then
        (elbow_angle angles,
         \<lparr>th_extended = 170, th_quarter = 120, th_peak = 70, th_return = 100\<rparr>)
      else if py_in ''press'' exercise_name \<and>
              (py_in ''shoulder'' exercise_name \<or> py_in ''overhead'' exercise_name) then
        (elbow_angle angles,
         \<lparr>th_extended = 170, th_quarter = 130, th_peak = 60, th_return = 100\<rparr>)
      else if py_in ''raise'' exercise_name \<or>
              (py_in ''lateral'' exercise_name \<and> py_in ''raise'' exercise_name) then
        (shoulder_angle angles,
         \<lparr>th_extended = 30, th_quarter = 60, th_peak = 120, th_return = 90\<rparr>)
      else if py_in ''row'' exercise_name \<or>
              (py_in ''pull'' exercise_name \<and> \<not> py_in ''down'' exercise_name) then
        (elbow_angle angles,
         \<lparr>th_extended = 170, th_quarter = 120, th_peak = 70, th_return = 100\<rparr>)
      else if py_in ''pulldown'' exercise_name \<or>
              (py_in ''pull'' exercise_name \<and> py_in ''down'' exercise_name) then
        (elbow_angle angles,
         \<lparr>th_extended = 170, th_quarter = 120, th_peak = 60, th_return = 100\<rparr>)
      else
        (generic_primary_angle angles s,
         \<lparr>th_extended = 160, th_quarter = 120, th_peak = 70, th_return = 100\<rparr>))"

definition classify_angle :: "real \<Rightarrow> angle_thresholds \<Rightarrow> phase" where
  \<comment> \<open>Lines 415-424.\<close>
  "classify_angle primary_angle th =
     (if primary_angle > th_extended th then Start
      else if primary_angle > th_quarter th then Quarter
      else if primary_angle < th_peak th then Peak
      else if primary_angle < th_return th then Return
      else End)"

definition most_common :: "(phase list \<Rightarrow> phase list) \<Rightarrow> phase list \<Rightarrow> phase option" where
  \<comment> \<open>\<open>max(set(buf), key=list(buf).count)\<close>. The order in which a set is iterated is
      not fixed by Python: \<open>set_iter buf\<close> is that order, and \<open>max\<close> keeps the first of
      the entries with the greatest count. ValueError on an empty iteration.\<close>
  "most_common set_iter buf =
     (case set_iter buf of
        [] \<Rightarrow> None
      | x # xs \<Rightarrow>
          Some (fold (\<lambda>y best. if count_list buf best < count_list buf y then y else best)
                  xs x))"

definition deque_slice_last :: "nat \<Rightarrow> 'a list \<Rightarrow> 'a list option" where
  \<comment> \<open>\<open>d[-n:]\<close> on a \<open>collections.deque\<close>: a deque takes integer subscripts only, a
      slice raises TypeError.\<close>
  "deque_slice_last n d = None"

definition cycle_complete :: "pstate \<Rightarrow> bool option" where
  \<comment> \<open>Lines 442-446, with the short-circuit of \<open>and\<close>.\<close>
  "cycle_complete s =
     (if 3 \<le> length (phase_history s)
      then (case deque_slice_last 5 (phase_history s) of
              None \<Rightarrow> None
            | Some recent \<Rightarrow> Some (Peak \<in> set recent \<and> pro_phase s = Start))
      else Some False)"

definition vote_phase :: "(phase list \<Rightarrow> phase list) \<Rightarrow> phase \<Rightarrow> pstate \<Rightarrow> pstate option" where
  \<comment> \<open>Lines 431-438: the vote is buffered and the most common vote becomes the phase.\<close>
  "vote_phase set_iter new_phase s =
     (let s1 = s\<lparr>pro_phase_buffer := deque_append 10 (pro_phase_buffer s) new_phase\<rparr> in
      if 3 \<le> length (pro_phase_buffer s1)
      then (case most_common set_iter (pro_phase_buffer s1) of
              None \<Rightarrow> None
            | Some mc \<Rightarrow>
                Some (if mc \<noteq> pro_phase s1
                      then s1\<lparr>pro_phase := mc,
                              phase_history := deque_append 20 (phase_history s1) mc\<rparr>
                      else s1))
      else Some s1)"

type_synonym pro_detection = "int \<times> phase \<times> real"

definition universal_rep_detection ::
  "(phase list \<Rightarrow> phase list) \<Rightarrow> real list \<Rightarrow> (string \<rightharpoonup> real) \<Rightarrow> real \<Rightarrow> pstate
     \<Rightarrow> pro_detection option \<times> pstate" where
  \<comment> \<open>The result is \<open>None\<close> when an exception leaves the function, with the state as
      mutated until then.\<close>
  "universal_rep_detection set_iter features angles timestamp s =
     (if features = [] \<or> angles = Map.empty
      then (Some (pro_rep_count s, pro_phase s, 0.5), s)
      else
        let (primary_angle, thresholds) = primary_movement angles s;
            s1 = s\<lparr>pro_angle_buffer := deque_append 45 (pro_angle_buffer s) primary_angle\<rparr>
        in if length (pro_angle_buffer s1) < 10
           then (Some (pro_rep_count s1, pro_phase s1, 0.5), s1)
           else
             (case channel_range (last_n 10 (pro_angle_buffer s1)) of
                None \<Rightarrow> (None, s1)
              | Some angle_range \<Rightarrow>
                  (case vote_phase set_iter (classify_angle primary_angle thresholds) s1 of
                     None \<Rightarrow> (None, s1\<lparr>pro_phase_buffer :=
                                deque_append 10 (pro_phase_buffer s1)
                                  (classify_angle primary_angle thresholds)\<rparr>)
                   | Some s2 \<Rightarrow>
                       (case cycle_complete s2 of
                          None \<Rightarrow> (None, s2)
                        | Some cycle \<Rightarrow>
                            let is_good_rep =
                                  (cycle \<and> timestamp - pro_last_rep_time s2 > 0.8 \<and>
                                   angle_range > 35);
                                s3 = (if is_good_rep
                                      then s2\<lparr>pro_rep_count := pro_rep_count s2 + 1,
                                              pro_last_rep_time := timestamp,
                                              rep_flash_timer := timestamp,
                                              phase_history := []\<rparr>
                                      else s2);
                                confidence =
                                  (if angle_range > 0 then min 1 (angle_range / 80) else 0.5);
                                s4 = s3\<lparr>confidence_scores :=
                                          deque_append 30 (confidence_scores s3) confidence\<rparr>
                            in (Some (pro_rep_count s4, pro_phase s4, confidence), s4)))))"

fun pro_run :: "(phase list \<Rightarrow> phase list) \<Rightarrow> ((string \<rightharpoonup> real) \<times> real) list \<Rightarrow> pstate \<Rightarrow> pstate" where
  \<comment> \<open>Successive frames, each with its angles dict and its clock. An exception of one
      frame is caught by \<open>process_frame\<close>; the next frame goes on from the state it left.\<close>
  "pro_run set_iter [] s = s"
| "pro_run set_iter ((angles, timestamp) # rest) s =
     pro_run set_iter rest
       (snd (universal_rep_detection set_iter (map (\<lambda>k. dict_get angles k 90)
               [''left_elbow'', ''right_elbow'', ''left_shoulder'', ''right_shoulder'',
                ''left_hip'', ''right_hip'', ''left_knee'', ''right_knee''])
             angles timestamp s))"

subsection \<open>The older detector of the professional engine\<close>

record pro_thresholds =
  pro_min_angle_range :: real
  phase_stability_frames :: nat
  rep_cooldown_seconds :: real
  pro_confidence_threshold :: real
  pro_velocity_threshold :: real

definition pro_thresholds_init :: pro_thresholds where
  "pro_thresholds_init =
     \<lparr>pro_min_angle_range = 25, phase_stability_frames = 3, rep_cooldown_seconds = 1,
      pro_confidence_threshold = 0.5, pro_velocity_threshold = 1.5\<rparr>"

definition pro_advanced_rep_detection_entry ::
  "real list \<Rightarrow> real \<Rightarrow> pstate \<Rightarrow> (pro_detection \<times> pstate) option" where
  \<comment> \<open>Lines 473-483 of \<open>advanced_rep_detection\<close>: the two early returns. \<open>None\<close> is
      "neither returns": control goes on to the try block of lines 485-548.\<close>
  "pro_advanced_rep_detection_entry current_features timestamp s =
     (if current_features = [] \<or> length (pro_angle_buffer s) < 15
      then Some ((pro_rep_count s, Start, 0.5), s)
      else if pro_exercise_name s \<noteq> [] \<and>
              (py_in ''curl'' (lower (pro_exercise_name s)) \<or>
               current_exercise_id s = Some ''xiA6lRr'')
      then Some ((pro_rep_count s, pro_phase s, 0.5), s)
      else None)"

definition determine_movement_phase ::
  "real \<Rightarrow> real \<Rightarrow> real \<Rightarrow> real list \<Rightarrow> pro_thresholds \<Rightarrow> phase \<Rightarrow> phase option" where
  \<comment> \<open>Lines 550-590; the last two arguments are \<open>self.thresholds\<close> and
      \<open>self.current_phase\<close>.\<close>
  "determine_movement_phase current_angle angle_range velocity recent_values th cur =
     (if angle_range < pro_min_angle_range th then Some cur
      else do {
        min_angle \<leftarrow> list_min recent_values;
        max_angle \<leftarrow> list_max recent_values;
        if max_angle \<le> min_angle then Some cur
        else
          let position = (current_angle - min_angle) / (max_angle - min_angle) in
          Some (case cur of
                  Start \<Rightarrow>
                    if position > 0.25 \<and> velocity > pro_velocity_threshold th
                    then Quarter else cur
                | Quarter \<Rightarrow>
                    if position > 0.75 \<and> velocity > 1.5 then Peak
                    else if position < 0.2 \<and> velocity < 2.0 then Start else cur
                | Peak \<Rightarrow> if position < 0.7 \<and> velocity > 1.0 then Return else cur
                | Return \<Rightarrow>
                    if position < 0.25 \<and> velocity < 1.5 then End
                    else if position > 0.6 then Peak else cur
                | End \<Rightarrow>
                    if velocity < 1.0 \<and> position < 0.2 then End
                    else if velocity > pro_velocity_threshold th \<and> position > 0.3
                    then Start else cur) })"

section \<open>Notions used in the statements\<close>

definition allowed_step :: "phase \<Rightarrow> phase \<Rightarrow> bool" where
  \<comment> \<open>The committed phase stays, or moves along an edge of the transition table.\<close>
  "allowed_step p q \<longleftrightarrow> q = p \<or> q \<in> set (valid_transitions p)"

fun phase_trace :: "frame_obs list \<Rightarrow> cstate \<Rightarrow> phase list" where
  \<comment> \<open>The committed phase before the first frame and after each frame.\<close>
  "phase_trace [] s = [current_phase s]"
| "phase_trace (ob # obs) s = current_phase s # phase_trace obs (snd (process_frame ob s))"

definition idle :: "cstate \<Rightarrow> bool" where
  \<comment> \<open>Nothing of the engine's own state has moved since \<open>__init__\<close>.\<close>
  "idle s \<longleftrightarrow>
     angle_buffer s = [] \<and> phase_buffer s = [] \<and> phase_history_buffer s = [] \<and>
     rep_count s = 0 \<and> current_phase s = Start \<and> last_rep_time s = 0 \<and> total_reps s = 0 \<and>
     movement_quality_history s = []"

definition not_ready_result :: "frame_obs \<Rightarrow> detection option" where
  \<comment> \<open>What \<open>process_frame\<close> reports while the angle buffer is short.\<close>
  "not_ready_result ob = (if pose_features ob = [] then None else Some (0, Start, 0.5, 0.5))"

definition rep_completion_detected :: "real list \<Rightarrow> real \<Rightarrow> cstate \<Rightarrow> bool" where
  \<comment> \<open>The call of \<open>advanced_rep_detection\<close> reaches line 589 and \<open>check_rep_completion\<close>
      answers True there.\<close>
  "rep_completion_detected current_angles timestamp s \<longleftrightarrow>
     current_angles \<noteq> [] \<and> 15 \<le> length (angle_buffer s) \<and>
     (let s1 = s\<lparr>angle_buffer := deque_append 60 (angle_buffer s) current_angles\<rparr>;
          th = category_thresholds_of (current_category s1)
      in case movement_metrics current_angles th s1 of
           None \<Rightarrow> False
         | Some (angle_ranges, angle_velocities, new_phase) \<Rightarrow>
             (case stabilise new_phase th s1 of
                (False, s2) \<Rightarrow> False
              | (True, s2) \<Rightarrow>
                  (case list_max angle_ranges of
                     None \<Rightarrow> False
                   | Some max_range \<Rightarrow> check_rep_completion timestamp max_range th s2)))"

fun completions :: "frame_obs list \<Rightarrow> cstate \<Rightarrow> nat" where
  \<comment> \<open>The number of frames of a run at which a completion is detected.\<close>
  "completions [] s = 0"
| "completions (ob # obs) s =
     (if rep_completion_detected (pose_features ob) (clock ob) (update_exercise_context ob s)
      then 1 else 0) + completions obs (snd (process_frame ob s))"

subsection \<open>Concrete sessions and frames\<close>

definition frame_with :: "real \<Rightarrow> real list" where
  \<comment> \<open>A feature vector: the left elbow at \<open>x\<close> degrees, every other joint at 90.\<close>
  "frame_with x = [x, 90, 90, 90, 90, 90, 90, 90]"

definition observe :: "real \<Rightarrow> real \<Rightarrow> frame_obs" where
  \<comment> \<open>A frame with the left elbow at \<open>x\<close> seen at time \<open>t\<close>; no exercise is recognised.\<close>
  "observe x t =
     \<lparr>pose_features = frame_with x, exercise_match = ''unknown'', similarity = 0,
      category = ''general'', clock = t\<rparr>"

definition curl_session :: pstate where
  \<comment> \<open>A professional session with one exercise in its database, after
      \<open>set_target_exercise\<close> selected it.\<close>
  "curl_session =
     snd (set_target_exercise ''xiA6lRr''
            (pro_init [''xiA6lRr'' \<mapsto> ''Bicep Curl''] Map.empty 0))"

definition flexed :: "string \<rightharpoonup> real" where
  \<comment> \<open>The angles dict of a frame with both elbows bent to 60 degrees.\<close>
  "flexed =
     [''left_elbow'' \<mapsto> 60, ''right_elbow'' \<mapsto> 60, ''left_shoulder'' \<mapsto> 20,
      ''right_shoulder'' \<mapsto> 20, ''left_hip'' \<mapsto> 170, ''right_hip'' \<mapsto> 170,
      ''left_knee'' \<mapsto> 175, ''right_knee'' \<mapsto> 175]"

definition flexed_frames :: "nat \<Rightarrow> ((string \<rightharpoonup> real) \<times> real) list" where
  \<comment> \<open>\<open>n\<close> such frames, one second apart.\<close>
  "flexed_frames n = map (\<lambda>i. (flexed, real i)) [1..<Suc n]"

definition curl_angles :: "real \<Rightarrow> string \<rightharpoonup> real" where
  \<comment> \<open>The angles dict of a frame with both elbows at \<open>x\<close> degrees.\<close>
  "curl_angles x =
     [''left_elbow'' \<mapsto> x, ''right_elbow'' \<mapsto> x, ''left_shoulder'' \<mapsto> 20,
      ''right_shoulder'' \<mapsto> 20, ''left_hip'' \<mapsto> 170, ''right_hip'' \<mapsto> 170,
      ''left_knee'' \<mapsto> 175, ''right_knee'' \<mapsto> 175]"

fun curl_frames :: "real \<Rightarrow> real list \<Rightarrow> ((string \<rightharpoonup> real) \<times> real) list" where
  \<comment> \<open>Frames a thirtieth of a second apart from time \<open>t\<close> on, with both elbows at the
      given angles.\<close>
  "curl_frames t [] = []"
| "curl_frames t (x # xs) = (curl_angles x, t) # curl_frames (t + 1 / 30) xs"

definition session_at ::
  "real list \<Rightarrow> phase list \<Rightarrow> phase list \<Rightarrow> int \<Rightarrow> phase \<Rightarrow> real \<Rightarrow> real list \<Rightarrow> cstate" where
  \<comment> \<open>A comprehensive session, no exercise recognised, whose angle buffer holds the frames
      with the left elbow at \<open>xs\<close>, with the given votes, committed history, count, phase,
      time of the last rep and quality history.\<close>
  "session_at xs votes history reps ph last_rep quality =
     \<lparr>angle_buffer = map frame_with xs, phase_buffer = votes, phase_history_buffer = history,
      rep_count = reps, current_phase = ph, last_rep_time = last_rep,
      movement_quality_history = quality, current_exercise_name = ''unknown'',
      current_category = ''general'', exercise_confidence = 0, total_reps = reps,
      exercise_changes = 0\<rparr>"

subsection \<open>The specification's words, for comparison\<close>

text \<open>
  The guard table of the specification's phase classifier, row by row: the committed
  phase the row applies to, its guard on position and velocity, and the candidate.
\<close>

definition spec_guard_table :: "real \<Rightarrow> (phase \<times> (real \<Rightarrow> real \<Rightarrow> bool) \<times> phase) list" where
  "spec_guard_table vThresh =
     [(Start, \<lambda>position velocity. position > 0.25 \<and> velocity > vThresh, Quarter),
      (Quarter, \<lambda>position velocity. position > 0.70 \<and> velocity > 0.8 * vThresh, Peak),
      (Quarter, \<lambda>position velocity. position < 0.15, Start),
      (Peak, \<lambda>position velocity. position < 0.60 \<and> velocity > 0.6 * vThresh, Return),
      (Return, \<lambda>position velocity. position < 0.20 \<and> velocity < 0.5 * vThresh, End),
      (Return, \<lambda>position velocity. position > 0.70, Peak),
      (End, \<lambda>position velocity. velocity < 1.0 \<and> position < 0.15, End),
      (End, \<lambda>position velocity. velocity > vThresh \<and> position > 0.20, Start)]"

definition spec_candidate :: "phase \<Rightarrow> real \<Rightarrow> real \<Rightarrow> real \<Rightarrow> phase" where
  "spec_candidate cur position velocity vThresh =
     (case find (\<lambda>(src, guard, cand). src = cur \<and> guard position velocity)
             (spec_guard_table vThresh) of
        Some (src, guard, cand) \<Rightarrow> cand
      | None \<Rightarrow> cur)"

definition spec_position :: "real \<Rightarrow> real \<Rightarrow> real \<Rightarrow> real" where
  \<comment> \<open>The position within the window; 0.5 on a window of zero width.\<close>
  "spec_position primaryAngleValue windowMin windowMax =
     (if windowMax = windowMin then 0.5
      else (primaryAngleValue - windowMin) / (windowMax - windowMin))"

text \<open>
  The quality score as the specification writes it: the velocity term divides the
  standard deviation by the mean.
\<close>

definition spec_quality :: "real \<Rightarrow> real list \<Rightarrow> phase list \<Rightarrow> real" where
  "spec_quality observedRange recentVelocities history =
     0.4 * min (observedRange / 60) 1 +
     0.3 * (if length recentVelocities < 2 then 0.5
            else max 0 (min 1 (1 - np_std recentVelocities / np_mean recentVelocities))) +
     0.3 * (if length history < 5 then 0.5
            else real (card {i. i < 5 \<and> last_n 5 history ! i = expected_sequence ! i}) / 5)"

definition primed_session :: cstate where
  \<comment> \<open>A session at rest whose angle buffer already holds fifteen frames.\<close>
  "primed_session =
     session_at [100, 100, 100, 100, 100, 100, 100, 100, 100, 100, 100, 100, 100, 100, 100]
       [] [] 0 Start 0 []"

fun obs_from :: "real \<Rightarrow> real list \<Rightarrow> frame_obs list" where
  \<comment> \<open>Frames a fifth of a second apart from time \<open>t\<close> on (five frames per second), with
      the left elbow at the given angles.\<close>
  "obs_from t [] = []"
| "obs_from t (x # xs) = observe x t # obs_from (t + 1 / 5) xs"

section \<open>Properties of the engines\<close>

subsection \<open>The angle buffer of the comprehensive engine never fills\<close>

lemma advanced_rep_detection_not_ready:
  "length (angle_buffer s) < 15 \<Longrightarrow>
   advanced_rep_detection a t s = (Some (rep_count s, Start, 0.5, 0.5), s)"
  by (simp add: advanced_rep_detection_def)

lemma process_frame_idle:
  "idle s \<Longrightarrow> \<exists>s'. process_frame ob s = (not_ready_result ob, s') \<and> idle s'"
  by (simp add: process_frame_def advanced_rep_detection_def idle_def not_ready_result_def
      update_exercise_context_def)

lemma run_session_idle:
  "idle s \<Longrightarrow> \<exists>s'. run_session obs s = (map not_ready_result obs, s') \<and> idle s'"
proof (induction obs arbitrary: s)
  case Nil
  then show ?case by simp
next
  case (Cons ob obs)
  from process_frame_idle[OF Cons.prems] obtain s1
    where p: "process_frame ob s = (not_ready_result ob, s1)" and i1: "idle s1" by blast
  from Cons.IH[OF i1] obtain s2
    where r: "run_session obs s1 = (map not_ready_result obs, s2)" and i2: "idle s2" by blast
  show ?case using p r i2 by simp
qed

lemma idle_fresh: "idle fresh_session"
  by (simp add: idle_def fresh_session_def)

text \<open>
  C10. \<open>advanced_rep_detection\<close> returns early whenever its angle buffer holds fewer than
  15 frames, and it appends to the buffer only after that return. So a call on a short
  buffer leaves the whole state as it was and reports the unchanged rep count with phase
  start, confidence 0.5 and quality 0.5; and a session run from \<open>__init__\<close> over any frames
  keeps the buffer empty, the phase at start and the count at 0, reporting that same result
  for every frame with features: no phase is committed and no repetition is counted.
\<close>

theorem comprehensive_buffer_never_fills:
  "(length (angle_buffer s) < 15 \<longrightarrow>
      advanced_rep_detection a t s = (Some (rep_count s, Start, 0.5, 0.5), s)) \<and>
   fst (run_session obs fresh_session) = map not_ready_result obs \<and>
   idle (snd (run_session obs fresh_session))"
  using run_session_idle[OF idle_fresh, of obs] advanced_rep_detection_not_ready[of s a t]
  by auto

theorem comprehensive_buffer_never_fills_witness:
  "length (angle_buffer fresh_session) < 15 \<and>
   advanced_rep_detection (frame_with 130) 1 fresh_session =
     (Some (0, Start, 0.5, 0.5), fresh_session) \<and>
   fst (run_session (map (observe 130) [1, 2, 3]) fresh_session) =
     [Some (0, Start, 0.5, 0.5), Some (0, Start, 0.5, 0.5), Some (0, Start, 0.5, 0.5)] \<and>
   angle_buffer (snd (run_session (map (observe 130) [1, 2, 3]) fresh_session)) = [] \<and>
   rep_count (snd (run_session (map (observe 130) [1, 2, 3]) fresh_session)) = 0 \<and>
   current_phase (snd (run_session (map (observe 130) [1, 2, 3]) fresh_session)) = Start"
  using comprehensive_buffer_never_fills
          [of fresh_session "frame_with 130" 1 "map (observe 130) [1, 2, 3]"]
  by (simp add: fresh_session_def not_ready_result_def observe_def frame_with_def idle_def)

subsection \<open>The repetition count\<close>

lemma validate_rep_count:
  "validate_and_update_phase c th s = Some s' \<Longrightarrow> rep_count s' = rep_count s"
  by (auto simp: validate_and_update_phase_def commit_phase_def Let_def split: option.splits if_splits)

lemma stabilise_rep_count: "rep_count (snd (stabilise c th s)) = rep_count s"
  using validate_rep_count[of c th "s\<lparr>phase_buffer := deque_append 20 (phase_buffer s) c\<rparr>"]
  by (auto simp: stabilise_def Let_def split: option.splits)

lemma run_session_snd:
  "snd (run_session (ob # obs) s) = snd (run_session obs (snd (process_frame ob s)))"
  by (simp add: split_def Let_def)

lemma calculate_movement_quality_rep_count:
  "rep_count (snd (calculate_movement_quality rs vs th s)) = rep_count s"
  by (simp add: calculate_movement_quality_def Let_def)

lemma rep_detection_body_count:
  assumes "movement_metrics a th s = Some (rs, vs, c)" "stabilise c th s = (True, s2)"
    "list_max rs = Some m"
  shows "rep_count (snd (rep_detection_body a t th s)) =
     rep_count s + (if check_rep_completion t m th s2 then 1 else 0)"
proof -
  have r2: "rep_count s2 = rep_count s" using stabilise_rep_count[of c th s] assms(2) by simp
  show ?thesis
    using assms r2
    by (simp add: rep_detection_body_def count_rep_def calculate_movement_quality_def Let_def)
qed

lemma rep_detection_body_no_count:
  "movement_metrics a th s = None \<Longrightarrow> rep_count (snd (rep_detection_body a t th s)) = rep_count s"
  "movement_metrics a th s = Some (rs, vs, c) \<Longrightarrow> stabilise c th s = (False, s2) \<Longrightarrow>
     rep_count (snd (rep_detection_body a t th s)) = rep_count s"
  "movement_metrics a th s = Some (rs, vs, c) \<Longrightarrow> stabilise c th s = (True, s2) \<Longrightarrow>
     list_max rs = None \<Longrightarrow> rep_count (snd (rep_detection_body a t th s)) = rep_count s"
proof -
  show "movement_metrics a th s = None \<Longrightarrow>
      rep_count (snd (rep_detection_body a t th s)) = rep_count s"
    by (simp add: rep_detection_body_def)
next
  assume a: "movement_metrics a th s = Some (rs, vs, c)" "stabilise c th s = (False, s2)"
  have "rep_count s2 = rep_count s" using stabilise_rep_count[of c th s] a(2) by simp
  then show "rep_count (snd (rep_detection_body a t th s)) = rep_count s"
    using a by (simp add: rep_detection_body_def)
next
  assume a: "movement_metrics a th s = Some (rs, vs, c)" "stabilise c th s = (True, s2)"
    "list_max rs = None"
  have "rep_count s2 = rep_count s" using stabilise_rep_count[of c th s] a(2) by simp
  then show "rep_count (snd (rep_detection_body a t th s)) = rep_count s"
    using a by (simp add: rep_detection_body_def)
qed

lemma advanced_rep_detection_count:
  "rep_count (snd (advanced_rep_detection a t s)) =
     rep_count s + (if rep_completion_detected a t s then 1 else 0)"
proof (cases "a = [] \<or> length (angle_buffer s) < 15")
  case True
  then show ?thesis by (auto simp: advanced_rep_detection_def rep_completion_detected_def)
next
  case False
  define s1 where "s1 = s\<lparr>angle_buffer := deque_append 60 (angle_buffer s) a\<rparr>"
  define th where "th = category_thresholds_of (current_category s1)"
  have ready: "15 \<le> length (angle_buffer s)" using False by simp
  then have long: "15 \<le> length (angle_buffer s1)"
    by (simp add: s1_def deque_append_def)
  have r1: "rep_count s1 = rep_count s" by (simp add: s1_def)
  have u: "snd (advanced_rep_detection a t s) = snd (rep_detection_body a t th s1)"
    using False long unfolding advanced_rep_detection_def s1_def th_def Let_def
    by (simp split: prod.splits option.splits)
  have d: "rep_completion_detected a t s =
     (case movement_metrics a th s1 of
        None \<Rightarrow> False
      | Some (angle_ranges, angle_velocities, new_phase) \<Rightarrow>
          (case stabilise new_phase th s1 of
             (False, s2) \<Rightarrow> False
           | (True, s2) \<Rightarrow>
               (case list_max angle_ranges of
                  None \<Rightarrow> False
                | Some max_range \<Rightarrow> check_rep_completion t max_range th s2)))"
    using False unfolding rep_completion_detected_def s1_def th_def Let_def by simp
  show ?thesis
  proof (cases "movement_metrics a th s1")
    case None
    then show ?thesis using rep_detection_body_no_count(1)[OF None, of t] by (simp add: u d r1)
  next
    case (Some metrics)
    obtain rs vs c where m: "movement_metrics a th s1 = Some (rs, vs, c)"
      using Some by (cases metrics) auto
    obtain ok s2 where st: "stabilise c th s1 = (ok, s2)" by (cases "stabilise c th s1") auto
    show ?thesis
    proof (cases ok)
      case False
      then show ?thesis
        using rep_detection_body_no_count(2)[OF m, of s2 t] st by (simp add: u d r1 m)
    next
      case True
      show ?thesis
      proof (cases "list_max rs")
        case None
        then show ?thesis
          using rep_detection_body_no_count(3)[OF m, of s2 t] st True by (simp add: u d r1 m)
      next
        case (Some mx)
        then show ?thesis
          using rep_detection_body_count[OF m, of s2 mx t] st True by (simp add: u d r1 m)
      qed
    qed
  qed
qed

lemma process_frame_count:
  "rep_count (snd (process_frame ob s)) =
     rep_count s +
     (if rep_completion_detected (pose_features ob) (clock ob) (update_exercise_context ob s)
      then 1 else 0)"
proof -
  have r: "rep_count (update_exercise_context ob s) = rep_count s"
    by (simp add: update_exercise_context_def)
  have e: "pose_features ob = [] \<Longrightarrow>
      \<not> rep_completion_detected (pose_features ob) (clock ob) (update_exercise_context ob s)"
    by (simp add: rep_completion_detected_def)
  show ?thesis
  proof (cases "pose_features ob = []")
    case True
    then show ?thesis using e by (simp add: process_frame_def)
  next
    case False
    then show ?thesis
      using advanced_rep_detection_count
              [of "pose_features ob" "clock ob" "update_exercise_context ob s"] r
      by (simp add: process_frame_def)
  qed
qed

lemma run_session_count:
  "rep_count (snd (run_session obs s)) = rep_count s + int (completions obs s)"
proof (induction obs arbitrary: s)
  case Nil
  then show ?case by simp
next
  case (Cons ob obs)
  have e: "snd (run_session (ob # obs) s) = snd (run_session obs (snd (process_frame ob s)))"
    by (rule run_session_snd)
  show ?case
    unfolding e Cons.IH[of "snd (process_frame ob s)"] process_frame_count[of ob s]
    by simp
qed

lemma completions_le: "completions obs s \<le> length obs"
proof (induction obs arbitrary: s)
  case Nil
  then show ?case by simp
next
  case (Cons ob obs)
  show ?case using Cons.IH[of "snd (process_frame ob s)"] by simp
qed

lemma vote_phase_rep_count:
  "vote_phase ord c s = Some s' \<Longrightarrow> pro_rep_count s' = pro_rep_count s"
  by (auto simp: vote_phase_def Let_def split: option.splits if_splits)

lemma cycle_complete_never: "cycle_complete s \<noteq> Some True"
  by (simp add: cycle_complete_def deque_slice_last_def)

lemma universal_rep_count:
  "pro_rep_count (snd (universal_rep_detection ord f angles t s)) = pro_rep_count s"
proof (cases "f = [] \<or> angles = Map.empty")
  case True
  then show ?thesis by (auto simp: universal_rep_detection_def)
next
  case ready: False
  obtain pa th where pm: "primary_movement angles s = (pa, th)"
    by (cases "primary_movement angles s") auto
  define s1 where "s1 = s\<lparr>pro_angle_buffer := deque_append 45 (pro_angle_buffer s) pa\<rparr>"
  have r1: "pro_rep_count s1 = pro_rep_count s" by (simp add: s1_def)
  have unfold: "universal_rep_detection ord f angles t s =
     (if length (pro_angle_buffer s1) < 10 then (Some (pro_rep_count s1, pro_phase s1, 0.5), s1)
      else (case channel_range (last_n 10 (pro_angle_buffer s1)) of
              None \<Rightarrow> (None, s1)
            | Some angle_range \<Rightarrow>
                (case vote_phase ord (classify_angle pa th) s1 of
                   None \<Rightarrow> (None, s1\<lparr>pro_phase_buffer :=
                              deque_append 10 (pro_phase_buffer s1) (classify_angle pa th)\<rparr>)
                 | Some s2 \<Rightarrow>
                     (case cycle_complete s2 of
                        None \<Rightarrow> (None, s2)
                      | Some cycle \<Rightarrow>
                          let is_good_rep =
                                (cycle \<and> t - pro_last_rep_time s2 > 0.8 \<and> angle_range > 35);
                              s3 = (if is_good_rep
                                    then s2\<lparr>pro_rep_count := pro_rep_count s2 + 1,
                                            pro_last_rep_time := t,
                                            rep_flash_timer := t,
                                            phase_history := []\<rparr>
                                    else s2);
                              confidence =
                                (if angle_range > 0 then min 1 (angle_range / 80) else 0.5);
                              s4 = s3\<lparr>confidence_scores :=
                                        deque_append 30 (confidence_scores s3) confidence\<rparr>
                          in (Some (pro_rep_count s4, pro_phase s4, confidence), s4)))))"
    unfolding universal_rep_detection_def s1_def Let_def using ready pm by simp
  show ?thesis
  proof (cases "length (pro_angle_buffer s1) < 10")
    case True
    then show ?thesis by (simp add: unfold r1)
  next
    case long: False
    show ?thesis
    proof (cases "channel_range (last_n 10 (pro_angle_buffer s1))")
      case None
      then show ?thesis using long by (simp add: unfold r1)
    next
      case (Some angle_range)
      show ?thesis
      proof (cases "vote_phase ord (classify_angle pa th) s1")
        case None
        then show ?thesis using long Some by (simp add: unfold r1)
      next
        case voted: (Some s2)
        have r2: "pro_rep_count s2 = pro_rep_count s"
          using vote_phase_rep_count[OF voted] r1 by simp
        show ?thesis
        proof (cases "cycle_complete s2")
          case None
          then show ?thesis using long Some voted by (simp add: unfold r2)
        next
          case cc: (Some cycle)
          have "\<not> cycle" using cc cycle_complete_never[of s2] by auto
          then show ?thesis using long Some voted cc by (simp add: unfold r2 Let_def)
        qed
      qed
    qed
  qed
qed

lemma pro_run_rep_count: "pro_rep_count (pro_run ord frames s) = pro_rep_count s"
  by (induction ord frames s rule: pro_run.induct) (auto simp: universal_rep_count)

text \<open>
  C3. A frame detects a completion when \<open>advanced_rep_detection\<close> reaches line 589 and
  \<open>check_rep_completion\<close> answers True there. Such a frame increases the repetition count
  by exactly 1 and every other frame leaves it as it is, from every session state, for
  \<open>advanced_rep_detection\<close> and for \<open>process_frame\<close>. So over any sequence of frames, with
  no reset in between, the count grows by the number of frames that detected a completion,
  which is at most the number of frames: it never decreases and one frame counts at most
  once. In the professional engine the completion test of \<open>universal_rep_detection\<close> never
  answers True, and the count stays as it is over every call and every sequence of frames.
\<close>

theorem rep_count_increments:
  "rep_count (snd (advanced_rep_detection a t s)) =
     rep_count s + (if rep_completion_detected a t s then 1 else 0) \<and>
   (movement_metrics a th s = Some (angle_ranges, angle_velocities, new_phase) \<and>
    stabilise new_phase th s = (True, s2) \<and> list_max angle_ranges = Some max_range \<longrightarrow>
      rep_count (snd (rep_detection_body a t th s)) =
        rep_count s + (if check_rep_completion t max_range th s2 then 1 else 0)) \<and>
   rep_count (snd (process_frame ob s)) =
     rep_count s +
     (if rep_completion_detected (pose_features ob) (clock ob) (update_exercise_context ob s)
      then 1 else 0) \<and>
   rep_count (snd (run_session obs s)) = rep_count s + int (completions obs s) \<and>
   completions obs s \<le> length obs \<and>
   cycle_complete p \<noteq> Some True \<and>
   pro_rep_count (snd (universal_rep_detection ord f angles t p)) = pro_rep_count p \<and>
   pro_rep_count (pro_run ord frames p) = pro_rep_count p"
  using advanced_rep_detection_count[of a t s]
    rep_detection_body_count[of a th s angle_ranges angle_velocities new_phase s2 max_range t]
    process_frame_count[of ob s] run_session_count[of obs s] completions_le[of obs s]
    cycle_complete_never[of p] universal_rep_count[of ord f angles t p]
    pro_run_rep_count[of ord frames p]
  by simp

lemma observe_simps:
  "pose_features (observe x t) = frame_with x" "clock (observe x t) = t"
  "update_exercise_context (observe x t) s = s"
  by (simp_all add: observe_def update_exercise_context_def)

theorem rep_count_increments_witness:
  "rep_completion_detected (frame_with 105) (11 / 5)
     (session_at [100, 100, 100, 100, 100, 100, 100, 100, 100, 100, 100, 100, 100, 100, 100, 130, 135, 140, 150, 150, 110, 105, 105, 105, 108]
       [Quarter, Quarter, Quarter, Peak, Peak, Return, Return, Return, Return, End] [Quarter, Peak, Return] 0 Return 0 []) \<and>
   rep_count (snd (advanced_rep_detection (frame_with 105) (11 / 5)
     (session_at [100, 100, 100, 100, 100, 100, 100, 100, 100, 100, 100, 100, 100, 100, 100, 130, 135, 140, 150, 150, 110, 105, 105, 105, 108]
       [Quarter, Quarter, Quarter, Peak, Peak, Return, Return, Return, Return, End] [Quarter, Peak, Return] 0 Return 0 []))) = 1 \<and>
   \<not> rep_completion_detected (frame_with 108) 2
     (session_at [100, 100, 100, 100, 100, 100, 100, 100, 100, 100, 100, 100, 100, 100, 100, 130, 135, 140, 150, 150, 110, 105, 105, 105]
       [Quarter, Quarter, Quarter, Peak, Peak, Return, Return, Return, Return] [Quarter, Peak, Return] 0 Return 0 []) \<and>
   rep_count (snd (advanced_rep_detection (frame_with 108) 2
     (session_at [100, 100, 100, 100, 100, 100, 100, 100, 100, 100, 100, 100, 100, 100, 100, 130, 135, 140, 150, 150, 110, 105, 105, 105]
       [Quarter, Quarter, Quarter, Peak, Peak, Return, Return, Return, Return] [Quarter, Peak, Return] 0 Return 0 []))) = 0 \<and>
   check_rep_completion (11 / 5) 50 default_thresholds
     (session_at [100, 100, 100, 100, 100, 100, 100, 100, 100, 100, 100, 100, 100, 100, 100, 130, 135, 140, 150, 150, 110, 105, 105, 105, 108, 105]
       [Quarter, Quarter, Quarter, Peak, Peak, Return, Return, Return, Return, End, End] [Quarter, Peak, Return, End] 0 End 0 []) \<and>
   rep_count (snd (rep_detection_body (frame_with 105) (11 / 5) default_thresholds
     (session_at [100, 100, 100, 100, 100, 100, 100, 100, 100, 100, 100, 100, 100, 100, 100, 130, 135, 140, 150, 150, 110, 105, 105, 105, 108, 105]
       [Quarter, Quarter, Quarter, Peak, Peak, Return, Return, Return, Return, End] [Quarter, Peak, Return] 0 Return 0 []))) = 1 \<and>
   completions [observe 105 (11 / 5)]
     (session_at [100, 100, 100, 100, 100, 100, 100, 100, 100, 100, 100, 100, 100, 100, 100, 130, 135, 140, 150, 150, 110, 105, 105, 105, 108]
       [Quarter, Quarter, Quarter, Peak, Peak, Return, Return, Return, Return, End] [Quarter, Peak, Return] 0 Return 0 []) = 1 \<and>
   rep_count (snd (run_session [observe 105 (11 / 5)]
     (session_at [100, 100, 100, 100, 100, 100, 100, 100, 100, 100, 100, 100, 100, 100, 100, 130, 135, 140, 150, 150, 110, 105, 105, 105, 108]
       [Quarter, Quarter, Quarter, Peak, Peak, Return, Return, Return, Return, End] [Quarter, Peak, Return] 0 Return 0 []))) = 1 \<and>
   pro_rep_count (pro_run remdups (flexed_frames 12) curl_session) = 0"
proof -
  let ?s9 = "session_at [100, 100, 100, 100, 100, 100, 100, 100, 100, 100, 100, 100, 100, 100, 100, 130, 135, 140, 150, 150, 110, 105, 105, 105]
       [Quarter, Quarter, Quarter, Peak, Peak, Return, Return, Return, Return] [Quarter, Peak, Return] 0 Return 0 []"
  let ?s10 = "session_at [100, 100, 100, 100, 100, 100, 100, 100, 100, 100, 100, 100, 100, 100, 100, 130, 135, 140, 150, 150, 110, 105, 105, 105, 108]
       [Quarter, Quarter, Quarter, Peak, Peak, Return, Return, Return, Return, End] [Quarter, Peak, Return] 0 Return 0 []"
  let ?mid = "session_at [100, 100, 100, 100, 100, 100, 100, 100, 100, 100, 100, 100, 100, 100, 100, 130, 135, 140, 150, 150, 110, 105, 105, 105, 108, 105]
       [Quarter, Quarter, Quarter, Peak, Peak, Return, Return, Return, Return, End] [Quarter, Peak, Return] 0 Return 0 []"
  let ?aft = "session_at [100, 100, 100, 100, 100, 100, 100, 100, 100, 100, 100, 100, 100, 100, 100, 130, 135, 140, 150, 150, 110, 105, 105, 105, 108, 105]
       [Quarter, Quarter, Quarter, Peak, Peak, Return, Return, Return, Return, End, End] [Quarter, Peak, Return, End] 0 End 0 []"
  have d11: "rep_completion_detected (frame_with 105) (11 / 5) ?s10" by code_simp
  have d10: "\<not> rep_completion_detected (frame_with 108) 2 ?s9" by code_simp
  have mm: "movement_metrics (frame_with 105) default_thresholds ?mid =
      Some ([50, 0, 0, 0], [0, 0, 0, 0], End)" by code_simp
  have st: "stabilise End default_thresholds ?mid = (True, ?aft)" by code_simp
  have mx: "list_max [50, 0, 0, 0] = Some 50" by simp
  have chk: "check_rep_completion (11 / 5) 50 default_thresholds ?aft" by code_simp
  have r: "rep_count ?s9 = 0" "rep_count ?s10 = 0" "rep_count ?mid = 0"
    by (simp_all add: session_at_def)
  have c: "completions [observe 105 (11 / 5)] ?s10 = 1"
    using d11 by (simp add: observe_simps)
  have p: "pro_rep_count curl_session = 0"
    by (simp add: curl_session_def set_target_exercise_def pro_init_def)
  show ?thesis
    using rep_count_increments
            [where a = "frame_with 105" and t = "11 / 5" and s = ?s10
               and obs = "[observe 105 (11 / 5)]" and p = curl_session and ord = remdups
               and frames = "flexed_frames 12"]
          rep_count_increments [where a = "frame_with 108" and t = 2 and s = ?s9]
          rep_count_increments
            [where a = "frame_with 105" and t = "11 / 5" and s = ?mid
               and th = default_thresholds and angle_ranges = "[50, 0, 0, 0]"
               and angle_velocities = "[0, 0, 0, 0]" and new_phase = End and ?s2.0 = ?aft
               and max_range = 50]
          d11 d10 mm st mx chk r c p
    by simp
qed

subsection \<open>Session control of the professional engine\<close>

lemmas pro_eval = universal_rep_detection_def primary_movement_def elbow_angle_def dict_get_def
  deque_append_def last_n_def channel_range_def classify_angle_def vote_phase_def most_common_def
  cycle_complete_def deque_slice_last_def lower_def lower_char_def curl_session_def
  set_target_exercise_def pro_init_def flexed_def flexed_frames_def Let_def

lemma curl_after_11:
  "pro_run remdups (flexed_frames 11) curl_session =
     curl_session\<lparr>pro_angle_buffer := replicate 11 60, pro_phase_buffer := [Peak, Peak],
       confidence_scores := [0.5, 0.5]\<rparr>"
  by (simp add: pro_eval upt_rec numeral_eq_Suc)

lemma curl_after_12:
  "pro_run remdups (flexed_frames 12) curl_session =
     curl_session\<lparr>pro_angle_buffer := replicate 12 60, pro_phase_buffer := [Peak, Peak, Peak],
       phase_history := [Peak], pro_phase := Peak, confidence_scores := [0.5, 0.5, 0.5]\<rparr>"
  by (simp add: pro_eval upt_rec numeral_eq_Suc)

lemma curl_session_phase: "pro_phase curl_session = Start \<and> pro_rep_count curl_session = 0"
  by (simp add: curl_session_def set_target_exercise_def pro_init_def)

text \<open>
  C7, as the code has it. \<open>reset_session\<close> zeroes the rep count, sets the phase to start,
  empties the committed-phase history and unsets the session start time; the angle buffer,
  the vote buffer, the score buffers and the time of the last rep keep their contents.
  It is idempotent: a second reset changes nothing and answers the same.
\<close>

theorem reset_session_effect:
  "pro_rep_count (snd (reset_session s)) = 0 \<and> pro_phase (snd (reset_session s)) = Start \<and>
   phase_history (snd (reset_session s)) = [] \<and>
   session_start_time (snd (reset_session s)) = None \<and>
   pro_angle_buffer (snd (reset_session s)) = pro_angle_buffer s \<and>
   pro_phase_buffer (snd (reset_session s)) = pro_phase_buffer s \<and>
   form_scores (snd (reset_session s)) = form_scores s \<and>
   confidence_scores (snd (reset_session s)) = confidence_scores s \<and>
   pro_last_rep_time (snd (reset_session s)) = pro_last_rep_time s \<and>
   snd (reset_session (snd (reset_session s))) = snd (reset_session s) \<and>
   fst (reset_session (snd (reset_session s))) = fst (reset_session s)"
  by (simp add: reset_session_def)

text \<open>
  C7 as stated fails: after twelve frames of a curl session a reset leaves twelve angles
  in the angle buffer, three votes in the vote buffer and three confidence scores.
\<close>

theorem reset_session_keeps_buffers:
  "pro_angle_buffer (snd (reset_session (pro_run remdups (flexed_frames 12) curl_session))) =
     replicate 12 60 \<and>
   pro_phase_buffer (snd (reset_session (pro_run remdups (flexed_frames 12) curl_session))) =
     [Peak, Peak, Peak] \<and>
   confidence_scores (snd (reset_session (pro_run remdups (flexed_frames 12) curl_session))) =
     [0.5, 0.5, 0.5]"
  unfolding curl_after_12 by (simp add: reset_session_def)

lemma set_target_exercise_unknown:
  "exercise_mapping s exercise_id = None \<Longrightarrow> set_target_exercise exercise_id s = (False, s)"
  by (simp add: set_target_exercise_def)

text \<open>
  C9. For an exercise id that is not in the database \<open>set_target_exercise\<close> answers False
  and leaves the session as it was (the lemma above), but \<open>start_exercise\<close> of the API drops
  that answer and reports the status "started" with the name of the exercise bound before.
\<close>

theorem start_exercise_unknown_reports_started:
  "exercise_mapping s exercise_id = None \<Longrightarrow>
   start_exercise exercise_id s =
     (ExerciseResponse ''started'' exercise_id (pro_exercise_name s)
        (''Exercise session started: '' @ pro_exercise_name s), s)"
  by (simp add: start_exercise_def set_target_exercise_def)

theorem start_exercise_unknown_reports_started_witness:
  "exercise_mapping curl_session ''squat-01'' = None \<and>
   start_exercise ''squat-01'' curl_session =
     (ExerciseResponse ''started'' ''squat-01'' ''Bicep Curl''
        ''Exercise session started: Bicep Curl'', curl_session)"
proof -
  have unknown: "exercise_mapping curl_session ''squat-01'' = None"
    by (simp add: curl_session_def set_target_exercise_def pro_init_def)
  have name: "pro_exercise_name curl_session = ''Bicep Curl''"
    by (simp add: curl_session_def set_target_exercise_def pro_init_def)
  show ?thesis
    using start_exercise_unknown_reports_started[OF unknown] unknown name by simp
qed

subsection \<open>Too few buffered frames\<close>

lemma not_ready_holds_state:
  "a = [] \<or> length (angle_buffer s) < 15 \<Longrightarrow> snd (advanced_rep_detection a t s) = s"
  "f = [] \<or> length (pro_angle_buffer p) < 15 \<Longrightarrow>
     map_option snd (pro_advanced_rep_detection_entry f t p) = Some p"
  by (auto simp: advanced_rep_detection_def pro_advanced_rep_detection_entry_def)

text \<open>
  C8. With fewer than 15 buffered frames \<open>advanced_rep_detection\<close> leaves the session as
  it was, but the phase it reports is the literal start, not the committed phase: after
  twelve frames with bent elbows the professional session has committed peak and holds
  twelve angles, and the call reports start.
\<close>

theorem not_ready_reports_start:
  "pro_advanced_rep_detection_entry [60, 60, 20, 20, 170, 170, 175, 175] 13
     (pro_run remdups (flexed_frames 12) curl_session) =
     Some ((0, Start, 0.5), pro_run remdups (flexed_frames 12) curl_session) \<and>
   pro_phase (pro_run remdups (flexed_frames 12) curl_session) = Peak \<and>
   length (pro_angle_buffer (pro_run remdups (flexed_frames 12) curl_session)) = 12"
  unfolding curl_after_12
  by (simp add: pro_advanced_rep_detection_entry_def curl_session_def set_target_exercise_def
      pro_init_def)

subsection \<open>The phase classifier\<close>

lemma phase_state_machine_spec:
  "phase_state_machine cur p v vt = spec_candidate cur p v vt"
  by (cases cur) (auto simp: phase_state_machine_def spec_candidate_def spec_guard_table_def)

lemma list_min_Min: "list_min vals = Some lo \<Longrightarrow> vals \<noteq> [] \<and> lo = Min (set vals)"
proof (cases vals)
  case Nil
  assume "list_min vals = Some lo"
  then show ?thesis using Nil by simp
next
  case (Cons a rest)
  assume "list_min vals = Some lo"
  then show ?thesis using Cons Min.set_eq_fold[of a rest] by simp
qed

lemma list_max_Max: "list_max vals = Some hi \<Longrightarrow> vals \<noteq> [] \<and> hi = Max (set vals)"
proof (cases vals)
  case Nil
  assume "list_max vals = Some hi"
  then show ?thesis using Nil by simp
next
  case (Cons a rest)
  assume "list_max vals = Some hi"
  then show ?thesis using Cons Max.set_eq_fold[of a rest] by simp
qed

lemma window_bounds:
  assumes "list_min vals = Some lo" "list_max vals = Some hi" "x \<in> set vals"
  shows "lo \<le> x \<and> x \<le> hi"
  using assms list_min_Min[of vals lo] list_max_Max[of vals hi] by auto

lemma window_ordered:
  assumes "list_min vals = Some lo" "list_max vals = Some hi"
  shows "lo \<le> hi"
proof -
  from assms(1) have "vals \<noteq> []" by (cases vals) auto
  then obtain x where "x \<in> set vals" by (cases vals) auto
  then show ?thesis using window_bounds[OF assms] by fastforce
qed

lemma phase_position_spec:
  assumes "list_min vals = Some lo" "list_max vals = Some hi"
  shows "phase_position pa vals = Some (spec_position pa lo hi)"
  using assms window_ordered[OF assms] by (auto simp: phase_position_def spec_position_def)

lemma spec_position_unit:
  assumes "list_min vals = Some lo" "list_max vals = Some hi" "pa \<in> set vals"
  shows "0 \<le> spec_position pa lo hi \<and> spec_position pa lo hi \<le> 1"
proof (cases "hi = lo")
  case True
  then show ?thesis by (simp add: spec_position_def)
next
  case False
  have b: "lo \<le> pa" "pa \<le> hi" using window_bounds[OF assms] by auto
  then have "lo < hi" using False by simp
  then show ?thesis using b False by (simp add: spec_position_def)
qed

lemma spec_candidate_unmatched:
  "list_all (\<lambda>(src, guard, cand). \<not> (src = cur \<and> guard p v)) (spec_guard_table vt) \<Longrightarrow>
   spec_candidate cur p v vt = cur"
  by (cases cur) (auto simp: spec_candidate_def spec_guard_table_def)

lemma primary_angle_in_window:
  assumes "angle_buffer s \<noteq> []" "last (angle_buffer s) = a" "nth_opt a idx = Some pa"
      "channel_values idx (last_n 15 (angle_buffer s)) = Some vals"
  shows "pa \<in> set vals"
proof -
  define w where "w = last_n 15 (angle_buffer s)"
  have "length (angle_buffer s) - 15 < length (angle_buffer s)"
    using assms(1) by (cases "angle_buffer s") auto
  then have ne: "w \<noteq> []" by (simp add: w_def last_n_def)
  have la: "last w = a" using assms(1,2) by (simp add: w_def last_n_def)
  have "\<And>vs. those (map (\<lambda>frame. nth_opt frame idx) w) = Some vs \<Longrightarrow> w \<noteq> [] \<Longrightarrow>
         nth_opt (last w) idx = Some (last vs) \<and> vs \<noteq> []"
  proof (induction w)
    case Nil
    then show ?case by simp
  next
    case (Cons f fs)
    then show ?case by (cases fs) (auto split: option.splits)
  qed
  then have "nth_opt a idx = Some (last vals) \<and> vals \<noteq> []"
    using assms(4) ne la by (simp add: channel_values_def w_def)
  then show ?thesis using assms(3) by auto
qed

text \<open>
  C5, for the classifier of the comprehensive engine. \<open>determine_exercise_phase\<close> returns
  the current phase when the observed range is below \<open>min_angle_range\<close>; otherwise its
  candidate is the one of the specification's guard table at the position
  \<open>(primary - windowMin) / (windowMax - windowMin)\<close>, taken as 0.5 on a window of zero
  width. The position lies in [0,1] whenever the primary angle is a value of the window,
  which it is for the frame just buffered; and a phase with no matching guard is kept.
\<close>

theorem classifier_follows_guard_table:
  "(angle_range < min_angle_range th \<longrightarrow>
      determine_exercise_phase pa v angle_range th recent idx s = Some (current_phase s)) \<and>
   (\<not> angle_range < min_angle_range th \<and> channel_values idx recent = Some vals \<and>
    list_min vals = Some lo \<and> list_max vals = Some hi \<longrightarrow>
      determine_exercise_phase pa v angle_range th recent idx s =
        Some (spec_candidate (current_phase s) (spec_position pa lo hi) v (velocity_threshold th))) \<and>
   (list_min vals = Some lo \<and> list_max vals = Some hi \<and> pa \<in> set vals \<longrightarrow>
      0 \<le> spec_position pa lo hi \<and> spec_position pa lo hi \<le> 1) \<and>
   (angle_buffer s \<noteq> [] \<and> nth_opt (last (angle_buffer s)) idx = Some pa \<and>
    channel_values idx (last_n 15 (angle_buffer s)) = Some vals \<longrightarrow> pa \<in> set vals) \<and>
   spec_position pa lo lo = 0.5 \<and>
   (list_all (\<lambda>(src, guard, cand). \<not> (src = cur \<and> guard p v)) (spec_guard_table vt) \<longrightarrow>
      spec_candidate cur p v vt = cur)"
  using phase_position_spec[of vals lo hi pa] spec_position_unit[of vals lo hi pa]
    primary_angle_in_window[of s "last (angle_buffer s)" idx pa vals]
    spec_candidate_unmatched[of cur p v vt]
  by (auto simp: determine_exercise_phase_def phase_state_machine_spec spec_position_def)

theorem classifier_follows_guard_table_witness:
  "\<not> (30::real) < min_angle_range default_thresholds \<and>
   (10::real) < min_angle_range default_thresholds \<and>
   channel_values 0 (map frame_with [100, 110, 120, 130]) = Some [100, 110, 120, 130] \<and>
   list_min [100, 110, 120, 130] = Some 100 \<and> list_max [100, 110, 120, 130] = Some 130 \<and>
   determine_exercise_phase 130 7.5 30 default_thresholds (map frame_with [100, 110, 120, 130]) 0
     (session_at [100, 110, 120, 130] [] [] 0 Start 0 []) = Some Quarter \<and>
   determine_exercise_phase 130 7.5 10 default_thresholds (map frame_with [100, 110, 120, 130]) 0
     (session_at [100, 110, 120, 130] [] [] 0 Start 0 []) = Some Start \<and>
   spec_position 130 100 130 = 1 \<and> spec_position 120 100 130 = 2 / 3 \<and>
   spec_position 130 100 100 = 0.5 \<and>
   nth_opt (last (angle_buffer (session_at [100, 110, 120, 130] [] [] 0 Start 0 []))) 0 =
     Some 130 \<and>
   list_all (\<lambda>(src, guard, cand). \<not> (src = Peak \<and> guard 0.8 7.5)) (spec_guard_table 1.5) \<and>
   spec_candidate Peak 0.8 7.5 1.5 = Peak"
proof -
  let ?w = "map frame_with [100, 110, 120, 130]"
  let ?s = "session_at [100, 110, 120, 130] [] [] 0 Start 0 []"
  have cv: "channel_values 0 ?w = Some [100, 110, 120, 130]"
    by (simp add: channel_values_def nth_opt_def frame_with_def)
  have mm: "list_min [100, 110, 120, 130] = Some 100" "list_max [100, 110, 120, 130] = Some 130"
    by simp_all
  have th: "\<not> (30::real) < min_angle_range default_thresholds"
    "(10::real) < min_angle_range default_thresholds"
    "velocity_threshold default_thresholds = 1.5"
    by (simp_all add: default_thresholds_def)
  have nomatch:
    "list_all (\<lambda>(src, guard, cand). \<not> (src = Peak \<and> guard 0.8 7.5)) (spec_guard_table 1.5)"
    by (simp add: spec_guard_table_def)
  have cand: "spec_candidate Start 1 7.5 1.5 = Quarter"
    by (simp add: spec_candidate_def spec_guard_table_def)
  have pos: "spec_position 130 100 130 = 1" "spec_position 120 100 130 = 2 / 3"
    "spec_position 130 100 100 = 0.5"
    by (simp_all add: spec_position_def)
  have la: "nth_opt (last (angle_buffer ?s)) 0 = Some 130" "current_phase ?s = Start"
    by (simp_all add: session_at_def nth_opt_def frame_with_def)
  show ?thesis
    using classifier_follows_guard_table
            [where angle_range = 30 and th = default_thresholds and pa = 130 and v = "7.5"
               and recent = ?w and idx = 0 and s = ?s and vals = "[100, 110, 120, 130]"
               and lo = 100 and hi = 130 and cur = Peak and p = "0.8" and vt = "1.5"]
          classifier_follows_guard_table
            [where angle_range = 10 and th = default_thresholds and pa = 130 and v = "7.5"
               and recent = ?w and idx = 0 and s = ?s and vals = "[100, 110, 120, 130]"
               and lo = 100 and hi = 130 and cur = Peak and p = "0.8" and vt = "1.5"]
          cv mm th nomatch cand pos la
    by simp
qed

text \<open>
  C5 as stated fails for the classifier of the professional engine, whose guards have
  other constants: in quarter, at position 0.72 with velocity 2, the guard table gives
  peak (position above 0.70), and \<open>determine_movement_phase\<close> keeps quarter (it asks for a
  position above 0.75).
\<close>

theorem professional_classifier_differs:
  "determine_movement_phase 72 100 2 [0, 100, 72, 72] pro_thresholds_init Quarter =
     Some Quarter \<and>
   spec_candidate Quarter (spec_position 72 0 100) 2
     (pro_velocity_threshold pro_thresholds_init) = Peak"
  by (simp add: determine_movement_phase_def pro_thresholds_init_def spec_candidate_def
      spec_guard_table_def spec_position_def)

subsection \<open>The quality score\<close>

lemma positional_matches:
  assumes "5 \<le> length history"
  shows "length (filter (\<lambda>(p, e). p = e) (zip (last_n 5 history) expected_sequence)) =
         card {i. i < 5 \<and> last_n 5 history ! i = expected_sequence ! i}"
proof -
  have len: "length (last_n 5 history) = 5" using assms by (simp add: last_n_def)
  have lz: "length (zip (last_n 5 history) expected_sequence) = 5"
    using len by (simp add: expected_sequence_def)
  have "{i. i < length (zip (last_n 5 history) expected_sequence) \<and>
            (case zip (last_n 5 history) expected_sequence ! i of (p, e) \<Rightarrow> p = e)} =
        {i. i < 5 \<and> last_n 5 history ! i = expected_sequence ! i}"
    using len lz by (auto simp: expected_sequence_def)
  then show ?thesis by (simp add: length_filter_conv_card)
qed

lemma sequence_quality_unit: "0 \<le> sequence_quality history \<and> sequence_quality history \<le> 1"
proof -
  have "length (filter (\<lambda>(p, e). p = e) (zip (last_n 5 history) expected_sequence)) \<le>
        length (zip (last_n 5 history) expected_sequence)"
    by (rule length_filter_le)
  also have "\<dots> \<le> 5" by (simp add: expected_sequence_def)
  finally show ?thesis by (simp add: sequence_quality_def)
qed

lemma velocity_consistency_unit:
  "0 \<le> velocity_consistency velocities \<and> velocity_consistency velocities \<le> 1"
  by (simp add: velocity_consistency_def Let_def)

lemma range_quality_unit:
  assumes "list_all (\<lambda>r. 0 \<le> r) angle_ranges"
  shows "0 \<le> range_quality angle_ranges \<and> range_quality angle_ranges \<le> 1"
proof (cases angle_ranges)
  case Nil
  then show ?thesis by (simp add: range_quality_def)
next
  case (Cons r rest)
  have "fold max rest r = Max (set (r # rest))" by (rule Max.set_eq_fold[symmetric])
  then have "fold max rest r \<in> set (r # rest)" using Max_in[of "set (r # rest)"] by simp
  then have "0 \<le> fold max rest r" using assms Cons by (auto simp: list_all_iff)
  then show ?thesis using Cons by (simp add: range_quality_def)
qed

text \<open>
  C6, with the velocity term the code computes. The movement quality is
  0.4 times the range term \<open>min(observedRange / 60, 1)\<close>, plus 0.3 times the velocity term,
  plus 0.3 times the share of the last five committed phases that match start, quarter,
  peak, return, end position by position. The velocity term is
  \<open>clamp(1 - std / (mean + 0.000001), 0, 1)\<close>; where \<open>mean + 0.000001\<close> is zero it is 0 for a
  positive standard deviation and 1 for a standard deviation of zero. The velocity term is
  0.5 with fewer than two velocities, the sequence term is 0.5 with fewer than five
  committed phases (and the range term is 0.5 without any range). The score lies in [0,1]
  when no range is negative, as is the case for every range the engine computes (a maximum
  minus a minimum).
\<close>

theorem movement_quality_formula:
  "fst (calculate_movement_quality angle_ranges velocities th s) =
     0.4 * (case list_max angle_ranges of None \<Rightarrow> 0.5 | Some observed \<Rightarrow> min (observed / 60) 1) +
     0.3 * (if length velocities < 2 then 0.5
            else if np_mean velocities + 1 / 10 ^ 6 = 0
            then (if np_std velocities = 0 then 1 else 0)
            else max 0 (min 1 (1 - np_std velocities / (np_mean velocities + 1 / 10 ^ 6)))) +
     0.3 * (if length (phase_history_buffer s) < 5 then 0.5
            else real (card {i. i < 5 \<and>
                   last_n 5 (phase_history_buffer s) ! i = expected_sequence ! i}) / 5) \<and>
   (list_all (\<lambda>r. 0 \<le> r) angle_ranges \<longrightarrow>
      0 \<le> fst (calculate_movement_quality angle_ranges velocities th s) \<and>
      fst (calculate_movement_quality angle_ranges velocities th s) \<le> 1)"
proof -
  have q: "fst (calculate_movement_quality angle_ranges velocities th s) =
      range_quality angle_ranges * 0.4 + velocity_consistency velocities * 0.3 +
      sequence_quality (phase_history_buffer s) * 0.3"
    by (simp add: calculate_movement_quality_def Let_def)
  have sq: "sequence_quality (phase_history_buffer s) =
      (if length (phase_history_buffer s) < 5 then 0.5
       else real (card {i. i < 5 \<and>
              last_n 5 (phase_history_buffer s) ! i = expected_sequence ! i}) / 5)"
    using positional_matches[of "phase_history_buffer s"] by (simp add: sequence_quality_def)
  have vq: "velocity_consistency velocities =
      (if length velocities < 2 then 0.5
       else if np_mean velocities + 1 / 10 ^ 6 = 0
       then (if np_std velocities = 0 then 1 else 0)
       else max 0 (min 1 (1 - np_std velocities / (np_mean velocities + 1 / 10 ^ 6))))"
    by (auto simp: velocity_consistency_def Let_def)
  have rq: "range_quality angle_ranges =
      (case list_max angle_ranges of None \<Rightarrow> 0.5 | Some observed \<Rightarrow> min (observed / 60) 1)"
    by (simp add: range_quality_def)
  have eq: "fst (calculate_movement_quality angle_ranges velocities th s) =
     0.4 * (case list_max angle_ranges of None \<Rightarrow> 0.5 | Some observed \<Rightarrow> min (observed / 60) 1) +
     0.3 * (if length velocities < 2 then 0.5
            else if np_mean velocities + 1 / 10 ^ 6 = 0
            then (if np_std velocities = 0 then 1 else 0)
            else max 0 (min 1 (1 - np_std velocities / (np_mean velocities + 1 / 10 ^ 6)))) +
     0.3 * (if length (phase_history_buffer s) < 5 then 0.5
            else real (card {i. i < 5 \<and>
                   last_n 5 (phase_history_buffer s) ! i = expected_sequence ! i}) / 5)"
    unfolding q sq[symmetric] vq[symmetric] rq[symmetric] by simp
  have bounds: "list_all (\<lambda>r. 0 \<le> r) angle_ranges \<Longrightarrow>
      0 \<le> fst (calculate_movement_quality angle_ranges velocities th s) \<and>
      fst (calculate_movement_quality angle_ranges velocities th s) \<le> 1"
  proof -
    assume "list_all (\<lambda>r. 0 \<le> r) angle_ranges"
    from range_quality_unit[OF this] velocity_consistency_unit[of velocities]
      sequence_quality_unit[of "phase_history_buffer s"]
    show ?thesis unfolding q by linarith
  qed
  show ?thesis using eq bounds by blast
qed

lemma std_of_steady_velocities: "np_mean [2, 2, 2, 2] = 2 \<and> np_std [2, 2, 2, 2] = 0"
  by (simp add: np_mean_def np_std_def)

lemma std_of_cancelling_velocities:
  "np_mean [- 2 / 10 ^ 6, 0] + 1 / 10 ^ 6 = 0 \<and> np_std [- 2 / 10 ^ 6, 0] \<noteq> 0"
  by (simp add: np_mean_def np_std_def)

theorem movement_quality_formula_witness:
  "list_all (\<lambda>r. 0 \<le> r) [45, 0, 0, 0 :: real] \<and>
   fst (calculate_movement_quality [45, 0, 0, 0] [2, 2, 2, 2] default_thresholds
          (session_at [] [] [Quarter, Peak, Return, End, Start, Quarter, Peak, Return, End]
             1 End 0 [])) = 9 / 10 \<and>
   0 \<le> fst (calculate_movement_quality [45, 0, 0, 0] [2, 2, 2, 2] default_thresholds
          (session_at [] [] [Quarter, Peak, Return, End, Start, Quarter, Peak, Return, End]
             1 End 0 [])) \<and>
   fst (calculate_movement_quality [45, 0, 0, 0] [2, 2, 2, 2] default_thresholds
          (session_at [] [] [Quarter, Peak, Return, End, Start, Quarter, Peak, Return, End]
             1 End 0 [])) \<le> 1 \<and>
   list_all (\<lambda>r. 0 \<le> r) [60, 0, 0, 0 :: real] \<and>
   fst (calculate_movement_quality [60, 0, 0, 0] [- 2 / 10 ^ 6, 0] default_thresholds
          fresh_session) = 11 / 20"
proof -
  have nonneg: "list_all (\<lambda>r. 0 \<le> r) [45, 0, 0, 0 :: real]"
    "list_all (\<lambda>r. 0 \<le> r) [60, 0, 0, 0 :: real]" by simp_all
  have v: "fst (calculate_movement_quality [45, 0, 0, 0] [2, 2, 2, 2] default_thresholds
          (session_at [] [] [Quarter, Peak, Return, End, Start, Quarter, Peak, Return, End]
             1 End 0 [])) = 9 / 10"
    using std_of_steady_velocities
    by (simp add: calculate_movement_quality_def range_quality_def velocity_consistency_def
        sequence_quality_def session_at_def expected_sequence_def last_n_def Let_def)
  have z: "fst (calculate_movement_quality [60, 0, 0, 0] [- 2 / 10 ^ 6, 0] default_thresholds
          fresh_session) = 11 / 20"
    using movement_quality_formula
            [of "[60, 0, 0, 0]" "[- 2 / 10 ^ 6, 0]" default_thresholds fresh_session]
          std_of_cancelling_velocities
    by (simp add: fresh_session_def)
  show ?thesis
    using movement_quality_formula
            [of "[45, 0, 0, 0]" "[2, 2, 2, 2]" default_thresholds
                "session_at [] [] [Quarter, Peak, Return, End, Start, Quarter, Peak, Return, End]
                   1 End 0 []"]
          nonneg v z
    by simp
qed

lemma std_of_uneven_velocities: "np_mean [1, 3, 1, 3] = 2 \<and> np_std [1, 3, 1, 3] = 1"
  by (simp add: np_mean_def np_std_def)

text \<open>
  C6 as stated fails: with the velocities 1, 3, 1, 3 (mean 2, standard deviation 1), a
  range of 60 and no committed phase yet, the specification's formula gives 0.7, and the
  code, which adds 0.000001 to the mean before dividing, gives a little more.
\<close>

theorem movement_quality_differs:
  "fst (calculate_movement_quality [60, 0, 0, 0] [1, 3, 1, 3] default_thresholds fresh_session) =
     9333339 / 13333340 \<and>
   spec_quality 60 [1, 3, 1, 3] (phase_history_buffer fresh_session) = 7 / 10"
  using std_of_uneven_velocities
  by (simp add: calculate_movement_quality_def range_quality_def velocity_consistency_def
      sequence_quality_def spec_quality_def fresh_session_def Let_def)

subsection \<open>One movement cycle on a primed session\<close>

text \<open>
  The frames of one curl at five frames per second on \<open>primed_session\<close>: the elbow angle
  rises from 100 to 150 degrees, comes back and rests at 105. Each lemma \<open>cycle_frame_k\<close>
  gives the session after the \<open>k\<close>-th frame from the session before it; the quality history
  is left open.

  A session run from \<open>__init__\<close> never fills its angle buffer (see
  \<open>run_session_idle\<close>), so every statement about committed phases is made for all session
  states, and is exercised here on a session whose buffer is already filled.
\<close>

lemma process_frame_session_at:
  assumes mm: "movement_metrics (frame_with x) default_thresholds
               (session_at xs1 V H r p l h) = Some (rs, vs, c)"
    and st: "stabilise c default_thresholds (session_at xs1 V H r p l h) =
               (True, session_at xs1 V' H' r p' l h)"
    and mr: "list_max rs = Some m"
    and xs1: "xs1 = xs @ [x]"
    and len: "15 \<le> length xs" "length xs < 60"
  shows "\<exists>h'. snd (process_frame (observe x t) (session_at xs V H r p l h)) =
     (if check_rep_completion t m default_thresholds (session_at xs1 V' H' r p' l h)
      then session_at xs1 V' H' (r + 1) p' t h'
      else session_at xs1 V' H' r p' l h')"
proof -
  let ?s = "session_at xs V H r p l h"
  have ctx: "update_exercise_context (observe x t) ?s = ?s"
    by (simp add: update_exercise_context_def observe_def)
  have s1: "?s\<lparr>angle_buffer := deque_append 60 (angle_buffer ?s) (frame_with x)\<rparr> =
            session_at xs1 V H r p l h"
    using len xs1 by (simp add: session_at_def deque_append_def)
  have th: "category_thresholds_of (current_category (session_at xs1 V H r p l h)) =
            default_thresholds"
    by (simp add: session_at_def category_thresholds_of_def category_specific_def)
  have ne: "frame_with x \<noteq> []" by (simp add: frame_with_def)
  have body: "\<exists>h'. snd (rep_detection_body (frame_with x) t default_thresholds
                      (session_at xs1 V H r p l h)) =
     (if check_rep_completion t m default_thresholds (session_at xs1 V' H' r p' l h)
      then session_at xs1 V' H' (r + 1) p' t h'
      else session_at xs1 V' H' r p' l h')"
    using mm st mr
    by (simp add: rep_detection_body_def count_rep_def calculate_movement_quality_def Let_def
        session_at_def)
  have long: "15 \<le> length (angle_buffer (session_at xs1 V H r p l h))"
    using len xs1 by (simp add: session_at_def)
  have short: "\<not> length (angle_buffer ?s) < 15"
    using len by (simp add: session_at_def)
  have adv: "snd (advanced_rep_detection (frame_with x) t ?s) =
     snd (rep_detection_body (frame_with x) t default_thresholds (session_at xs1 V H r p l h))"
    unfolding advanced_rep_detection_def Let_def s1 th
    using ne long short by (simp split: prod.splits option.splits)
  show ?thesis using body adv ctx ne by (simp add: process_frame_def observe_def)
qed


lemma cycle_frame_1:
  "\<exists>h'. snd (process_frame (observe 130 (1 / 5))
     (session_at [100, 100, 100, 100, 100, 100, 100, 100, 100, 100, 100, 100, 100, 100, 100]
       [] [] 0 Start 0 h)) =
     (session_at [100, 100, 100, 100, 100, 100, 100, 100, 100, 100, 100, 100, 100, 100, 100, 130]
       [Quarter] [] 0 Start 0 h')"
proof -
  have mm: "movement_metrics (frame_with 130) default_thresholds
     (session_at [100, 100, 100, 100, 100, 100, 100, 100, 100, 100, 100, 100, 100, 100, 100, 130]
       [] [] 0 Start 0 h) =
     Some ([30, 0, 0, 0], [15 / 2, 0, 0, 0], Quarter)"
    by code_simp
  have st: "stabilise Quarter default_thresholds
     (session_at [100, 100, 100, 100, 100, 100, 100, 100, 100, 100, 100, 100, 100, 100, 100, 130]
       [] [] 0 Start 0 h) =
     (True, (session_at [100, 100, 100, 100, 100, 100, 100, 100, 100, 100, 100, 100, 100, 100, 100, 130]
       [Quarter] [] 0 Start 0 h))"
    by code_simp
  have mr: "list_max [30, 0, 0, 0] = Some 30"
    by simp
  have chk: "check_rep_completion (1 / 5) 30 default_thresholds
     (session_at [100, 100, 100, 100, 100, 100, 100, 100, 100, 100, 100, 100, 100, 100, 100, 130]
       [Quarter] [] 0 Start 0 h) = False"
    by code_simp
  show ?thesis
    using process_frame_session_at
            [OF mm st mr, where xs = "[100, 100, 100, 100, 100, 100, 100, 100, 100, 100, 100, 100, 100, 100, 100]" and t = "1 / 5"] chk
    by simp
qed

lemma cycle_frame_2:
  "\<exists>h'. snd (process_frame (observe 135 (2 / 5))
     (session_at [100, 100, 100, 100, 100, 100, 100, 100, 100, 100, 100, 100, 100, 100, 100, 130]
       [Quarter] [] 0 Start 0 h)) =
     (session_at [100, 100, 100, 100, 100, 100, 100, 100, 100, 100, 100, 100, 100, 100, 100, 130, 135]
       [Quarter, Quarter] [] 0 Start 0 h')"
proof -
  have mm: "movement_metrics (frame_with 135) default_thresholds
     (session_at [100, 100, 100, 100, 100, 100, 100, 100, 100, 100, 100, 100, 100, 100, 100, 130, 135]
       [Quarter] [] 0 Start 0 h) =
     Some ([35, 0, 0, 0], [35 / 4, 0, 0, 0], Quarter)"
    by code_simp
  have st: "stabilise Quarter default_thresholds
     (session_at [100, 100, 100, 100, 100, 100, 100, 100, 100, 100, 100, 100, 100, 100, 100, 130, 135]
       [Quarter] [] 0 Start 0 h) =
     (True, (session_at [100, 100, 100, 100, 100, 100, 100, 100, 100, 100, 100, 100, 100, 100, 100, 130, 135]
       [Quarter, Quarter] [] 0 Start 0 h))"
    by code_simp
  have mr: "list_max [35, 0, 0, 0] = Some 35"
    by simp
  have chk: "check_rep_completion (2 / 5) 35 default_thresholds
     (session_at [100, 100, 100, 100, 100, 100, 100, 100, 100, 100, 100, 100, 100, 100, 100, 130, 135]
       [Quarter, Quarter] [] 0 Start 0 h) = False"
    by code_simp
  show ?thesis
    using process_frame_session_at
            [OF mm st mr, where xs = "[100, 100, 100, 100, 100, 100, 100, 100, 100, 100, 100, 100, 100, 100, 100, 130]" and t = "2 / 5"] chk
    by simp
qed

lemma cycle_frame_3:
  "\<exists>h'. snd (process_frame (observe 140 (3 / 5))
     (session_at [100, 100, 100, 100, 100, 100, 100, 100, 100, 100, 100, 100, 100, 100, 100, 130, 135]
       [Quarter, Quarter] [] 0 Start 0 h)) =
     (session_at [100, 100, 100, 100, 100, 100, 100, 100, 100, 100, 100, 100, 100, 100, 100, 130, 135, 140]
       [Quarter, Quarter, Quarter] [Quarter] 0 Quarter 0 h')"
proof -
  have mm: "movement_metrics (frame_with 140) default_thresholds
     (session_at [100, 100, 100, 100, 100, 100, 100, 100, 100, 100, 100, 100, 100, 100, 100, 130, 135, 140]
       [Quarter, Quarter] [] 0 Start 0 h) =
     Some ([40, 0, 0, 0], [10, 0, 0, 0], Quarter)"
    by code_simp
  have st: "stabilise Quarter default_thresholds
     (session_at [100, 100, 100, 100, 100, 100, 100, 100, 100, 100, 100, 100, 100, 100, 100, 130, 135, 140]
       [Quarter, Quarter] [] 0 Start 0 h) =
     (True, (session_at [100, 100, 100, 100, 100, 100, 100, 100, 100, 100, 100, 100, 100, 100, 100, 130, 135, 140]
       [Quarter, Quarter, Quarter] [Quarter] 0 Quarter 0 h))"
    by code_simp
  have mr: "list_max [40, 0, 0, 0] = Some 40"
    by simp
  have chk: "check_rep_completion (3 / 5) 40 default_thresholds
     (session_at [100, 100, 100, 100, 100, 100, 100, 100, 100, 100, 100, 100, 100, 100, 100, 130, 135, 140]
       [Quarter, Quarter, Quarter] [Quarter] 0 Quarter 0 h) = False"
    by code_simp
  show ?thesis
    using process_frame_session_at
            [OF mm st mr, where xs = "[100, 100, 100, 100, 100, 100, 100, 100, 100, 100, 100, 100, 100, 100, 100, 130, 135]" and t = "3 / 5"] chk
    by simp
qed

lemma cycle_frame_4:
  "\<exists>h'. snd (process_frame (observe 150 (4 / 5))
     (session_at [100, 100, 100, 100, 100, 100, 100, 100, 100, 100, 100, 100, 100, 100, 100, 130, 135, 140]
       [Quarter, Quarter, Quarter] [Quarter] 0 Quarter 0 h)) =
     (session_at [100, 100, 100, 100, 100, 100, 100, 100, 100, 100, 100, 100, 100, 100, 100, 130, 135, 140, 150]
       [Quarter, Quarter, Quarter, Peak] [Quarter] 0 Quarter 0 h')"
proof -
  have mm: "movement_metrics (frame_with 150) default_thresholds
     (session_at [100, 100, 100, 100, 100, 100, 100, 100, 100, 100, 100, 100, 100, 100, 100, 130, 135, 140, 150]
       [Quarter, Quarter, Quarter] [Quarter] 0 Quarter 0 h) =
     Some ([50, 0, 0, 0], [25 / 2, 0, 0, 0], Peak)"
    by code_simp
  have st: "stabilise Peak default_thresholds
     (session_at [100, 100, 100, 100, 100, 100, 100, 100, 100, 100, 100, 100, 100, 100, 100, 130, 135, 140, 150]
       [Quarter, Quarter, Quarter] [Quarter] 0 Quarter 0 h) =
     (True, (session_at [100, 100, 100, 100, 100, 100, 100, 100, 100, 100, 100, 100, 100, 100, 100, 130, 135, 140, 150]
       [Quarter, Quarter, Quarter, Peak] [Quarter] 0 Quarter 0 h))"
    by code_simp
  have mr: "list_max [50, 0, 0, 0] = Some 50"
    by simp
  have chk: "check_rep_completion (4 / 5) 50 default_thresholds
     (session_at [100, 100, 100, 100, 100, 100, 100, 100, 100, 100, 100, 100, 100, 100, 100, 130, 135, 140, 150]
       [Quarter, Quarter, Quarter, Peak] [Quarter] 0 Quarter 0 h) = False"
    by code_simp
  show ?thesis
    using process_frame_session_at
            [OF mm st mr, where xs = "[100, 100, 100, 100, 100, 100, 100, 100, 100, 100, 100, 100, 100, 100, 100, 130, 135, 140]" and t = "4 / 5"] chk
    by simp
qed

lemma cycle_frame_5:
  "\<exists>h'. snd (process_frame (observe 150 1)
     (session_at [100, 100, 100, 100, 100, 100, 100, 100, 100, 100, 100, 100, 100, 100, 100, 130, 135, 140, 150]
       [Quarter, Quarter, Quarter, Peak] [Quarter] 0 Quarter 0 h)) =
     (session_at [100, 100, 100, 100, 100, 100, 100, 100, 100, 100, 100, 100, 100, 100, 100, 130, 135, 140, 150, 150]
       [Quarter, Quarter, Quarter, Peak, Peak] [Quarter, Peak] 0 Peak 0 h')"
proof -
  have mm: "movement_metrics (frame_with 150) default_thresholds
     (session_at [100, 100, 100, 100, 100, 100, 100, 100, 100, 100, 100, 100, 100, 100, 100, 130, 135, 140, 150, 150]
       [Quarter, Quarter, Quarter, Peak] [Quarter] 0 Quarter 0 h) =
     Some ([50, 0, 0, 0], [5, 0, 0, 0], Peak)"
    by code_simp
  have st: "stabilise Peak default_thresholds
     (session_at [100, 100, 100, 100, 100, 100, 100, 100, 100, 100, 100, 100, 100, 100, 100, 130, 135, 140, 150, 150]
       [Quarter, Quarter, Quarter, Peak] [Quarter] 0 Quarter 0 h) =
     (True, (session_at [100, 100, 100, 100, 100, 100, 100, 100, 100, 100, 100, 100, 100, 100, 100, 130, 135, 140, 150, 150]
       [Quarter, Quarter, Quarter, Peak, Peak] [Quarter, Peak] 0 Peak 0 h))"
    by code_simp
  have mr: "list_max [50, 0, 0, 0] = Some 50"
    by simp
  have chk: "check_rep_completion 1 50 default_thresholds
     (session_at [100, 100, 100, 100, 100, 100, 100, 100, 100, 100, 100, 100, 100, 100, 100, 130, 135, 140, 150, 150]
       [Quarter, Quarter, Quarter, Peak, Peak] [Quarter, Peak] 0 Peak 0 h) = False"
    by code_simp
  show ?thesis
    using process_frame_session_at
            [OF mm st mr, where xs = "[100, 100, 100, 100, 100, 100, 100, 100, 100, 100, 100, 100, 100, 100, 100, 130, 135, 140, 150]" and t = "1"] chk
    by simp
qed

lemma cycle_frame_6:
  "\<exists>h'. snd (process_frame (observe 110 (6 / 5))
     (session_at [100, 100, 100, 100, 100, 100, 100, 100, 100, 100, 100, 100, 100, 100, 100, 130, 135, 140, 150, 150]
       [Quarter, Quarter, Quarter, Peak, Peak] [Quarter, Peak] 0 Peak 0 h)) =
     (session_at [100, 100, 100, 100, 100, 100, 100, 100, 100, 100, 100, 100, 100, 100, 100, 130, 135, 140, 150, 150, 110]
       [Quarter, Quarter, Quarter, Peak, Peak, Return] [Quarter, Peak] 0 Peak 0 h')"
proof -
  have mm: "movement_metrics (frame_with 110) default_thresholds
     (session_at [100, 100, 100, 100, 100, 100, 100, 100, 100, 100, 100, 100, 100, 100, 100, 130, 135, 140, 150, 150, 110]
       [Quarter, Quarter, Quarter, Peak, Peak] [Quarter, Peak] 0 Peak 0 h) =
     Some ([50, 0, 0, 0], [25 / 4, 0, 0, 0], Return)"
    by code_simp
  have st: "stabilise Return default_thresholds
     (session_at [100, 100, 100, 100, 100, 100, 100, 100, 100, 100, 100, 100, 100, 100, 100, 130, 135, 140, 150, 150, 110]
       [Quarter, Quarter, Quarter, Peak, Peak] [Quarter, Peak] 0 Peak 0 h) =
     (True, (session_at [100, 100, 100, 100, 100, 100, 100, 100, 100, 100, 100, 100, 100, 100, 100, 130, 135, 140, 150, 150, 110]
       [Quarter, Quarter, Quarter, Peak, Peak, Return] [Quarter, Peak] 0 Peak 0 h))"
    by code_simp
  have mr: "list_max [50, 0, 0, 0] = Some 50"
    by simp
  have chk: "check_rep_completion (6 / 5) 50 default_thresholds
     (session_at [100, 100, 100, 100, 100, 100, 100, 100, 100, 100, 100, 100, 100, 100, 100, 130, 135, 140, 150, 150, 110]
       [Quarter, Quarter, Quarter, Peak, Peak, Return] [Quarter, Peak] 0 Peak 0 h) = False"
    by code_simp
  show ?thesis
    using process_frame_session_at
            [OF mm st mr, where xs = "[100, 100, 100, 100, 100, 100, 100, 100, 100, 100, 100, 100, 100, 100, 100, 130, 135, 140, 150, 150]" and t = "6 / 5"] chk
    by simp
qed

lemma cycle_frame_7:
  "\<exists>h'. snd (process_frame (observe 105 (7 / 5))
     (session_at [100, 100, 100, 100, 100, 100, 100, 100, 100, 100, 100, 100, 100, 100, 100, 130, 135, 140, 150, 150, 110]
       [Quarter, Quarter, Quarter, Peak, Peak, Return] [Quarter, Peak] 0 Peak 0 h)) =
     (session_at [100, 100, 100, 100, 100, 100, 100, 100, 100, 100, 100, 100, 100, 100, 100, 130, 135, 140, 150, 150, 110, 105]
       [Quarter, Quarter, Quarter, Peak, Peak, Return, Return] [Quarter, Peak, Return] 0 Return 0 h')"
proof -
  have mm: "movement_metrics (frame_with 105) default_thresholds
     (session_at [100, 100, 100, 100, 100, 100, 100, 100, 100, 100, 100, 100, 100, 100, 100, 130, 135, 140, 150, 150, 110, 105]
       [Quarter, Quarter, Quarter, Peak, Peak, Return] [Quarter, Peak] 0 Peak 0 h) =
     Some ([50, 0, 0, 0], [35 / 4, 0, 0, 0], Return)"
    by code_simp
  have st: "stabilise Return default_thresholds
     (session_at [100, 100, 100, 100, 100, 100, 100, 100, 100, 100, 100, 100, 100, 100, 100, 130, 135, 140, 150, 150, 110, 105]
       [Quarter, Quarter, Quarter, Peak, Peak, Return] [Quarter, Peak] 0 Peak 0 h) =
     (True, (session_at [100, 100, 100, 100, 100, 100, 100, 100, 100, 100, 100, 100, 100, 100, 100, 130, 135, 140, 150, 150, 110, 105]
       [Quarter, Quarter, Quarter, Peak, Peak, Return, Return] [Quarter, Peak, Return] 0 Return 0 h))"
    by code_simp
  have mr: "list_max [50, 0, 0, 0] = Some 50"
    by simp
  have chk: "check_rep_completion (7 / 5) 50 default_thresholds
     (session_at [100, 100, 100, 100, 100, 100, 100, 100, 100, 100, 100, 100, 100, 100, 100, 130, 135, 140, 150, 150, 110, 105]
       [Quarter, Quarter, Quarter, Peak, Peak, Return, Return] [Quarter, Peak, Return] 0 Return 0 h) = False"
    by code_simp
  show ?thesis
    using process_frame_session_at
            [OF mm st mr, where xs = "[100, 100, 100, 100, 100, 100, 100, 100, 100, 100, 100, 100, 100, 100, 100, 130, 135, 140, 150, 150, 110]" and t = "7 / 5"] chk
    by simp
qed

lemma cycle_frame_8:
  "\<exists>h'. snd (process_frame (observe 105 (8 / 5))
     (session_at [100, 100, 100, 100, 100, 100, 100, 100, 100, 100, 100, 100, 100, 100, 100, 130, 135, 140, 150, 150, 110, 105]
       [Quarter, Quarter, Quarter, Peak, Peak, Return, Return] [Quarter, Peak, Return] 0 Return 0 h)) =
     (session_at [100, 100, 100, 100, 100, 100, 100, 100, 100, 100, 100, 100, 100, 100, 100, 130, 135, 140, 150, 150, 110, 105, 105]
       [Quarter, Quarter, Quarter, Peak, Peak, Return, Return, Return] [Quarter, Peak, Return] 0 Return 0 h')"
proof -
  have mm: "movement_metrics (frame_with 105) default_thresholds
     (session_at [100, 100, 100, 100, 100, 100, 100, 100, 100, 100, 100, 100, 100, 100, 100, 130, 135, 140, 150, 150, 110, 105, 105]
       [Quarter, Quarter, Quarter, Peak, Peak, Return, Return] [Quarter, Peak, Return] 0 Return 0 h) =
     Some ([50, 0, 0, 0], [45 / 4, 0, 0, 0], Return)"
    by code_simp
  have st: "stabilise Return default_thresholds
     (session_at [100, 100, 100, 100, 100, 100, 100, 100, 100, 100, 100, 100, 100, 100, 100, 130, 135, 140, 150, 150, 110, 105, 105]
       [Quarter, Quarter, Quarter, Peak, Peak, Return, Return] [Quarter, Peak, Return] 0 Return 0 h) =
     (True, (session_at [100, 100, 100, 100, 100, 100, 100, 100, 100, 100, 100, 100, 100, 100, 100, 130, 135, 140, 150, 150, 110, 105, 105]
       [Quarter, Quarter, Quarter, Peak, Peak, Return, Return, Return] [Quarter, Peak, Return] 0 Return 0 h))"
    by code_simp
  have mr: "list_max [50, 0, 0, 0] = Some 50"
    by simp
  have chk: "check_rep_completion (8 / 5) 50 default_thresholds
     (session_at [100, 100, 100, 100, 100, 100, 100, 100, 100, 100, 100, 100, 100, 100, 100, 130, 135, 140, 150, 150, 110, 105, 105]
       [Quarter, Quarter, Quarter, Peak, Peak, Return, Return, Return] [Quarter, Peak, Return] 0 Return 0 h) = False"
    by code_simp
  show ?thesis
    using process_frame_session_at
            [OF mm st mr, where xs = "[100, 100, 100, 100, 100, 100, 100, 100, 100, 100, 100, 100, 100, 100, 100, 130, 135, 140, 150, 150, 110, 105]" and t = "8 / 5"] chk
    by simp
qed

lemma cycle_frame_9:
  "\<exists>h'. snd (process_frame (observe 105 (9 / 5))
     (session_at [100, 100, 100, 100, 100, 100, 100, 100, 100, 100, 100, 100, 100, 100, 100, 130, 135, 140, 150, 150, 110, 105, 105]
       [Quarter, Quarter, Quarter, Peak, Peak, Return, Return, Return] [Quarter, Peak, Return] 0 Return 0 h)) =
     (session_at [100, 100, 100, 100, 100, 100, 100, 100, 100, 100, 100, 100, 100, 100, 100, 130, 135, 140, 150, 150, 110, 105, 105, 105]
       [Quarter, Quarter, Quarter, Peak, Peak, Return, Return, Return, Return] [Quarter, Peak, Return] 0 Return 0 h')"
proof -
  have mm: "movement_metrics (frame_with 105) default_thresholds
     (session_at [100, 100, 100, 100, 100, 100, 100, 100, 100, 100, 100, 100, 100, 100, 100, 130, 135, 140, 150, 150, 110, 105, 105, 105]
       [Quarter, Quarter, Quarter, Peak, Peak, Return, Return, Return] [Quarter, Peak, Return] 0 Return 0 h) =
     Some ([50, 0, 0, 0], [45 / 4, 0, 0, 0], Return)"
    by code_simp
  have st: "stabilise Return default_thresholds
     (session_at [100, 100, 100, 100, 100, 100, 100, 100, 100, 100, 100, 100, 100, 100, 100, 130, 135, 140, 150, 150, 110, 105, 105, 105]
       [Quarter, Quarter, Quarter, Peak, Peak, Return, Return, Return] [Quarter, Peak, Return] 0 Return 0 h) =
     (True, (session_at [100, 100, 100, 100, 100, 100, 100, 100, 100, 100, 100, 100, 100, 100, 100, 130, 135, 140, 150, 150, 110, 105, 105, 105]
       [Quarter, Quarter, Quarter, Peak, Peak, Return, Return, Return, Return] [Quarter, Peak, Return] 0 Return 0 h))"
    by code_simp
  have mr: "list_max [50, 0, 0, 0] = Some 50"
    by simp
  have chk: "check_rep_completion (9 / 5) 50 default_thresholds
     (session_at [100, 100, 100, 100, 100, 100, 100, 100, 100, 100, 100, 100, 100, 100, 100, 130, 135, 140, 150, 150, 110, 105, 105, 105]
       [Quarter, Quarter, Quarter, Peak, Peak, Return, Return, Return, Return] [Quarter, Peak, Return] 0 Return 0 h) = False"
    by code_simp
  show ?thesis
    using process_frame_session_at
            [OF mm st mr, where xs = "[100, 100, 100, 100, 100, 100, 100, 100, 100, 100, 100, 100, 100, 100, 100, 130, 135, 140, 150, 150, 110, 105, 105]" and t = "9 / 5"] chk
    by simp
qed

lemma cycle_frame_10:
  "\<exists>h'. snd (process_frame (observe 108 2)
     (session_at [100, 100, 100, 100, 100, 100, 100, 100, 100, 100, 100, 100, 100, 100, 100, 130, 135, 140, 150, 150, 110, 105, 105, 105]
       [Quarter, Quarter, Quarter, Peak, Peak, Return, Return, Return, Return] [Quarter, Peak, Return] 0 Return 0 h)) =
     (session_at [100, 100, 100, 100, 100, 100, 100, 100, 100, 100, 100, 100, 100, 100, 100, 130, 135, 140, 150, 150, 110, 105, 105, 105, 108]
       [Quarter, Quarter, Quarter, Peak, Peak, Return, Return, Return, Return, End] [Quarter, Peak, Return] 0 Return 0 h')"
proof -
  have mm: "movement_metrics (frame_with 108) default_thresholds
     (session_at [100, 100, 100, 100, 100, 100, 100, 100, 100, 100, 100, 100, 100, 100, 100, 130, 135, 140, 150, 150, 110, 105, 105, 105, 108]
       [Quarter, Quarter, Quarter, Peak, Peak, Return, Return, Return, Return] [Quarter, Peak, Return] 0 Return 0 h) =
     Some ([50, 0, 0, 0], [1 / 2, 0, 0, 0], End)"
    by code_simp
  have st: "stabilise End default_thresholds
     (session_at [100, 100, 100, 100, 100, 100, 100, 100, 100, 100, 100, 100, 100, 100, 100, 130, 135, 140, 150, 150, 110, 105, 105, 105, 108]
       [Quarter, Quarter, Quarter, Peak, Peak, Return, Return, Return, Return] [Quarter, Peak, Return] 0 Return 0 h) =
     (True, (session_at [100, 100, 100, 100, 100, 100, 100, 100, 100, 100, 100, 100, 100, 100, 100, 130, 135, 140, 150, 150, 110, 105, 105, 105, 108]
       [Quarter, Quarter, Quarter, Peak, Peak, Return, Return, Return, Return, End] [Quarter, Peak, Return] 0 Return 0 h))"
    by code_simp
  have mr: "list_max [50, 0, 0, 0] = Some 50"
    by simp
  have chk: "check_rep_completion 2 50 default_thresholds
     (session_at [100, 100, 100, 100, 100, 100, 100, 100, 100, 100, 100, 100, 100, 100, 100, 130, 135, 140, 150, 150, 110, 105, 105, 105, 108]
       [Quarter, Quarter, Quarter, Peak, Peak, Return, Return, Return, Return, End] [Quarter, Peak, Return] 0 Return 0 h) = False"
    by code_simp
  show ?thesis
    using process_frame_session_at
            [OF mm st mr, where xs = "[100, 100, 100, 100, 100, 100, 100, 100, 100, 100, 100, 100, 100, 100, 100, 130, 135, 140, 150, 150, 110, 105, 105, 105]" and t = "2"] chk
    by simp
qed

lemma cycle_frame_11:
  "\<exists>h'. snd (process_frame (observe 105 (11 / 5))
     (session_at [100, 100, 100, 100, 100, 100, 100, 100, 100, 100, 100, 100, 100, 100, 100, 130, 135, 140, 150, 150, 110, 105, 105, 105, 108]
       [Quarter, Quarter, Quarter, Peak, Peak, Return, Return, Return, Return, End] [Quarter, Peak, Return] 0 Return 0 h)) =
     (session_at [100, 100, 100, 100, 100, 100, 100, 100, 100, 100, 100, 100, 100, 100, 100, 130, 135, 140, 150, 150, 110, 105, 105, 105, 108, 105]
       [Quarter, Quarter, Quarter, Peak, Peak, Return, Return, Return, Return, End, End] [Quarter, Peak, Return, End] 1 End (11 / 5) h')"
proof -
  have mm: "movement_metrics (frame_with 105) default_thresholds
     (session_at [100, 100, 100, 100, 100, 100, 100, 100, 100, 100, 100, 100, 100, 100, 100, 130, 135, 140, 150, 150, 110, 105, 105, 105, 108, 105]
       [Quarter, Quarter, Quarter, Peak, Peak, Return, Return, Return, Return, End] [Quarter, Peak, Return] 0 Return 0 h) =
     Some ([50, 0, 0, 0], [0, 0, 0, 0], End)"
    by code_simp
  have st: "stabilise End default_thresholds
     (session_at [100, 100, 100, 100, 100, 100, 100, 100, 100, 100, 100, 100, 100, 100, 100, 130, 135, 140, 150, 150, 110, 105, 105, 105, 108, 105]
       [Quarter, Quarter, Quarter, Peak, Peak, Return, Return, Return, Return, End] [Quarter, Peak, Return] 0 Return 0 h) =
     (True, (session_at [100, 100, 100, 100, 100, 100, 100, 100, 100, 100, 100, 100, 100, 100, 100, 130, 135, 140, 150, 150, 110, 105, 105, 105, 108, 105]
       [Quarter, Quarter, Quarter, Peak, Peak, Return, Return, Return, Return, End, End] [Quarter, Peak, Return, End] 0 End 0 h))"
    by code_simp
  have mr: "list_max [50, 0, 0, 0] = Some 50"
    by simp
  have chk: "check_rep_completion (11 / 5) 50 default_thresholds
     (session_at [100, 100, 100, 100, 100, 100, 100, 100, 100, 100, 100, 100, 100, 100, 100, 130, 135, 140, 150, 150, 110, 105, 105, 105, 108, 105]
       [Quarter, Quarter, Quarter, Peak, Peak, Return, Return, Return, Return, End, End] [Quarter, Peak, Return, End] 0 End 0 h) = True"
    by code_simp
  show ?thesis
    using process_frame_session_at
            [OF mm st mr, where xs = "[100, 100, 100, 100, 100, 100, 100, 100, 100, 100, 100, 100, 100, 100, 100, 130, 135, 140, 150, 150, 110, 105, 105, 105, 108]" and t = "11 / 5"] chk
    by simp
qed

lemma cycle_frame_12:
  "\<exists>h'. snd (process_frame (observe 105 (12 / 5))
     (session_at [100, 100, 100, 100, 100, 100, 100, 100, 100, 100, 100, 100, 100, 100, 100, 130, 135, 140, 150, 150, 110, 105, 105, 105, 108, 105]
       [Quarter, Quarter, Quarter, Peak, Peak, Return, Return, Return, Return, End, End] [Quarter, Peak, Return, End] 1 End (11 / 5) h)) =
     (session_at [100, 100, 100, 100, 100, 100, 100, 100, 100, 100, 100, 100, 100, 100, 100, 130, 135, 140, 150, 150, 110, 105, 105, 105, 108, 105, 105]
       [Quarter, Quarter, Quarter, Peak, Peak, Return, Return, Return, Return, End, End, End] [Quarter, Peak, Return, End] 1 End (11 / 5) h')"
proof -
  have mm: "movement_metrics (frame_with 105) default_thresholds
     (session_at [100, 100, 100, 100, 100, 100, 100, 100, 100, 100, 100, 100, 100, 100, 100, 130, 135, 140, 150, 150, 110, 105, 105, 105, 108, 105, 105]
       [Quarter, Quarter, Quarter, Peak, Peak, Return, Return, Return, Return, End, End] [Quarter, Peak, Return, End] 1 End (11 / 5) h) =
     Some ([50, 0, 0, 0], [0, 0, 0, 0], End)"
    by code_simp
  have st: "stabilise End default_thresholds
     (session_at [100, 100, 100, 100, 100, 100, 100, 100, 100, 100, 100, 100, 100, 100, 100, 130, 135, 140, 150, 150, 110, 105, 105, 105, 108, 105, 105]
       [Quarter, Quarter, Quarter, Peak, Peak, Return, Return, Return, Return, End, End] [Quarter, Peak, Return, End] 1 End (11 / 5) h) =
     (True, (session_at [100, 100, 100, 100, 100, 100, 100, 100, 100, 100, 100, 100, 100, 100, 100, 130, 135, 140, 150, 150, 110, 105, 105, 105, 108, 105, 105]
       [Quarter, Quarter, Quarter, Peak, Peak, Return, Return, Return, Return, End, End, End] [Quarter, Peak, Return, End] 1 End (11 / 5) h))"
    by code_simp
  have mr: "list_max [50, 0, 0, 0] = Some 50"
    by simp
  have chk: "check_rep_completion (12 / 5) 50 default_thresholds
     (session_at [100, 100, 100, 100, 100, 100, 100, 100, 100, 100, 100, 100, 100, 100, 100, 130, 135, 140, 150, 150, 110, 105, 105, 105, 108, 105, 105]
       [Quarter, Quarter, Quarter, Peak, Peak, Return, Return, Return, Return, End, End, End] [Quarter, Peak, Return, End] 1 End (11 / 5) h) = False"
    by code_simp
  show ?thesis
    using process_frame_session_at
            [OF mm st mr, where xs = "[100, 100, 100, 100, 100, 100, 100, 100, 100, 100, 100, 100, 100, 100, 100, 130, 135, 140, 150, 150, 110, 105, 105, 105, 108, 105]" and t = "12 / 5"] chk
    by simp
qed

lemma cycle_frame_13:
  "\<exists>h'. snd (process_frame (observe 105 (13 / 5))
     (session_at [100, 100, 100, 100, 100, 100, 100, 100, 100, 100, 100, 100, 100, 100, 100, 130, 135, 140, 150, 150, 110, 105, 105, 105, 108, 105, 105]
       [Quarter, Quarter, Quarter, Peak, Peak, Return, Return, Return, Return, End, End, End] [Quarter, Peak, Return, End] 1 End (11 / 5) h)) =
     (session_at [100, 100, 100, 100, 100, 100, 100, 100, 100, 100, 100, 100, 100, 100, 100, 130, 135, 140, 150, 150, 110, 105, 105, 105, 108, 105, 105, 105]
       [Quarter, Quarter, Quarter, Peak, Peak, Return, Return, Return, Return, End, End, End, End] [Quarter, Peak, Return, End] 1 End (11 / 5) h')"
proof -
  have mm: "movement_metrics (frame_with 105) default_thresholds
     (session_at [100, 100, 100, 100, 100, 100, 100, 100, 100, 100, 100, 100, 100, 100, 100, 130, 135, 140, 150, 150, 110, 105, 105, 105, 108, 105, 105, 105]
       [Quarter, Quarter, Quarter, Peak, Peak, Return, Return, Return, Return, End, End, End] [Quarter, Peak, Return, End] 1 End (11 / 5) h) =
     Some ([50, 0, 0, 0], [0, 0, 0, 0], End)"
    by code_simp
  have st: "stabilise End default_thresholds
     (session_at [100, 100, 100, 100, 100, 100, 100, 100, 100, 100, 100, 100, 100, 100, 100, 130, 135, 140, 150, 150, 110, 105, 105, 105, 108, 105, 105, 105]
       [Quarter, Quarter, Quarter, Peak, Peak, Return, Return, Return, Return, End, End, End] [Quarter, Peak, Return, End] 1 End (11 / 5) h) =
     (True, (session_at [100, 100, 100, 100, 100, 100, 100, 100, 100, 100, 100, 100, 100, 100, 100, 130, 135, 140, 150, 150, 110, 105, 105, 105, 108, 105, 105, 105]
       [Quarter, Quarter, Quarter, Peak, Peak, Return, Return, Return, Return, End, End, End, End] [Quarter, Peak, Return, End] 1 End (11 / 5) h))"
    by code_simp
  have mr: "list_max [50, 0, 0, 0] = Some 50"
    by simp
  have chk: "check_rep_completion (13 / 5) 50 default_thresholds
     (session_at [100, 100, 100, 100, 100, 100, 100, 100, 100, 100, 100, 100, 100, 100, 100, 130, 135, 140, 150, 150, 110, 105, 105, 105, 108, 105, 105, 105]
       [Quarter, Quarter, Quarter, Peak, Peak, Return, Return, Return, Return, End, End, End, End] [Quarter, Peak, Return, End] 1 End (11 / 5) h) = False"
    by code_simp
  show ?thesis
    using process_frame_session_at
            [OF mm st mr, where xs = "[100, 100, 100, 100, 100, 100, 100, 100, 100, 100, 100, 100, 100, 100, 100, 130, 135, 140, 150, 150, 110, 105, 105, 105, 108, 105, 105]" and t = "13 / 5"] chk
    by simp
qed

lemma cycle_frame_14:
  "\<exists>h'. snd (process_frame (observe 105 (14 / 5))
     (session_at [100, 100, 100, 100, 100, 100, 100, 100, 100, 100, 100, 100, 100, 100, 100, 130, 135, 140, 150, 150, 110, 105, 105, 105, 108, 105, 105, 105]
       [Quarter, Quarter, Quarter, Peak, Peak, Return, Return, Return, Return, End, End, End, End] [Quarter, Peak, Return, End] 1 End (11 / 5) h)) =
     (session_at [100, 100, 100, 100, 100, 100, 100, 100, 100, 100, 100, 100, 100, 100, 100, 130, 135, 140, 150, 150, 110, 105, 105, 105, 108, 105, 105, 105, 105]
       [Quarter, Quarter, Quarter, Peak, Peak, Return, Return, Return, Return, End, End, End, End, End] [Quarter, Peak, Return, End] 1 End (11 / 5) h')"
proof -
  have mm: "movement_metrics (frame_with 105) default_thresholds
     (session_at [100, 100, 100, 100, 100, 100, 100, 100, 100, 100, 100, 100, 100, 100, 100, 130, 135, 140, 150, 150, 110, 105, 105, 105, 108, 105, 105, 105, 105]
       [Quarter, Quarter, Quarter, Peak, Peak, Return, Return, Return, Return, End, End, End, End] [Quarter, Peak, Return, End] 1 End (11 / 5) h) =
     Some ([50, 0, 0, 0], [3 / 4, 0, 0, 0], End)"
    by code_simp
  have st: "stabilise End default_thresholds
     (session_at [100, 100, 100, 100, 100, 100, 100, 100, 100, 100, 100, 100, 100, 100, 100, 130, 135, 140, 150, 150, 110, 105, 105, 105, 108, 105, 105, 105, 105]
       [Quarter, Quarter, Quarter, Peak, Peak, Return, Return, Return, Return, End, End, End, End] [Quarter, Peak, Return, End] 1 End (11 / 5) h) =
     (True, (session_at [100, 100, 100, 100, 100, 100, 100, 100, 100, 100, 100, 100, 100, 100, 100, 130, 135, 140, 150, 150, 110, 105, 105, 105, 108, 105, 105, 105, 105]
       [Quarter, Quarter, Quarter, Peak, Peak, Return, Return, Return, Return, End, End, End, End, End] [Quarter, Peak, Return, End] 1 End (11 / 5) h))"
    by code_simp
  have mr: "list_max [50, 0, 0, 0] = Some 50"
    by simp
  have chk: "check_rep_completion (14 / 5) 50 default_thresholds
     (session_at [100, 100, 100, 100, 100, 100, 100, 100, 100, 100, 100, 100, 100, 100, 100, 130, 135, 140, 150, 150, 110, 105, 105, 105, 108, 105, 105, 105, 105]
       [Quarter, Quarter, Quarter, Peak, Peak, Return, Return, Return, Return, End, End, End, End, End] [Quarter, Peak, Return, End] 1 End (11 / 5) h) = False"
    by code_simp
  show ?thesis
    using process_frame_session_at
            [OF mm st mr, where xs = "[100, 100, 100, 100, 100, 100, 100, 100, 100, 100, 100, 100, 100, 100, 100, 130, 135, 140, 150, 150, 110, 105, 105, 105, 108, 105, 105, 105]" and t = "14 / 5"] chk
    by simp
qed

lemma cycle_frame_15:
  "\<exists>h'. snd (process_frame (observe 105 3)
     (session_at [100, 100, 100, 100, 100, 100, 100, 100, 100, 100, 100, 100, 100, 100, 100, 130, 135, 140, 150, 150, 110, 105, 105, 105, 108, 105, 105, 105, 105]
       [Quarter, Quarter, Quarter, Peak, Peak, Return, Return, Return, Return, End, End, End, End, End] [Quarter, Peak, Return, End] 1 End (11 / 5) h)) =
     (session_at [100, 100, 100, 100, 100, 100, 100, 100, 100, 100, 100, 100, 100, 100, 100, 130, 135, 140, 150, 150, 110, 105, 105, 105, 108, 105, 105, 105, 105, 105]
       [Quarter, Quarter, Quarter, Peak, Peak, Return, Return, Return, Return, End, End, End, End, End, End] [Quarter, Peak, Return, End] 2 End 3 h')"
proof -
  have mm: "movement_metrics (frame_with 105) default_thresholds
     (session_at [100, 100, 100, 100, 100, 100, 100, 100, 100, 100, 100, 100, 100, 100, 100, 130, 135, 140, 150, 150, 110, 105, 105, 105, 108, 105, 105, 105, 105, 105]
       [Quarter, Quarter, Quarter, Peak, Peak, Return, Return, Return, Return, End, End, End, End, End] [Quarter, Peak, Return, End] 1 End (11 / 5) h) =
     Some ([45, 0, 0, 0], [0, 0, 0, 0], End)"
    by code_simp
  have st: "stabilise End default_thresholds
     (session_at [100, 100, 100, 100, 100, 100, 100, 100, 100, 100, 100, 100, 100, 100, 100, 130, 135, 140, 150, 150, 110, 105, 105, 105, 108, 105, 105, 105, 105, 105]
       [Quarter, Quarter, Quarter, Peak, Peak, Return, Return, Return, Return, End, End, End, End, End] [Quarter, Peak, Return, End] 1 End (11 / 5) h) =
     (True, (session_at [100, 100, 100, 100, 100, 100, 100, 100, 100, 100, 100, 100, 100, 100, 100, 130, 135, 140, 150, 150, 110, 105, 105, 105, 108, 105, 105, 105, 105, 105]
       [Quarter, Quarter, Quarter, Peak, Peak, Return, Return, Return, Return, End, End, End, End, End, End] [Quarter, Peak, Return, End] 1 End (11 / 5) h))"
    by code_simp
  have mr: "list_max [45, 0, 0, 0] = Some 45"
    by simp
  have chk: "check_rep_completion 3 45 default_thresholds
     (session_at [100, 100, 100, 100, 100, 100, 100, 100, 100, 100, 100, 100, 100, 100, 100, 130, 135, 140, 150, 150, 110, 105, 105, 105, 108, 105, 105, 105, 105, 105]
       [Quarter, Quarter, Quarter, Peak, Peak, Return, Return, Return, Return, End, End, End, End, End, End] [Quarter, Peak, Return, End] 1 End (11 / 5) h) = True"
    by code_simp
  show ?thesis
    using process_frame_session_at
            [OF mm st mr, where xs = "[100, 100, 100, 100, 100, 100, 100, 100, 100, 100, 100, 100, 100, 100, 100, 130, 135, 140, 150, 150, 110, 105, 105, 105, 108, 105, 105, 105, 105]" and t = "3"] chk
    by simp
qed

subsection \<open>The committed phase\<close>

lemma validate_and_update_phase_edge:
  "validate_and_update_phase c th s = Some s' \<Longrightarrow> allowed_step (current_phase s) (current_phase s')"
  by (auto simp: validate_and_update_phase_def allowed_step_def commit_phase_def Let_def
      split: option.splits if_splits)

lemma stabilise_edge: "allowed_step (current_phase s) (current_phase (snd (stabilise c th s)))"
proof -
  let ?s1 = "s\<lparr>phase_buffer := deque_append 20 (phase_buffer s) c\<rparr>"
  have "current_phase ?s1 = current_phase s" by simp
  then show ?thesis
    using validate_and_update_phase_edge[of c th ?s1]
    by (auto simp: stabilise_def Let_def allowed_step_def split: option.splits)
qed

lemma calculate_movement_quality_phase:
  "current_phase (snd (calculate_movement_quality rs vs th s)) = current_phase s"
  by (simp add: calculate_movement_quality_def Let_def)

lemma rep_detection_body_phase:
  "movement_metrics a th s = None \<Longrightarrow> snd (rep_detection_body a t th s) = s"
  "movement_metrics a th s = Some (rs, vs, c) \<Longrightarrow>
     current_phase (snd (rep_detection_body a t th s)) = current_phase (snd (stabilise c th s))"
  by (auto simp: rep_detection_body_def count_rep_def calculate_movement_quality_def Let_def
      split: option.splits prod.splits bool.splits)

lemma rep_detection_body_edge:
  "allowed_step (current_phase s) (current_phase (snd (rep_detection_body a t th s)))"
proof (cases "movement_metrics a th s")
  case None
  then show ?thesis by (simp add: rep_detection_body_phase(1) allowed_step_def)
next
  case (Some m)
  then obtain rs vs c where "movement_metrics a th s = Some (rs, vs, c)" by (cases m) auto
  then show ?thesis using stabilise_edge[of s c th] by (simp add: rep_detection_body_phase(2))
qed

lemma advanced_rep_detection_edge:
  "allowed_step (current_phase s) (current_phase (snd (advanced_rep_detection a t s)))"
proof -
  let ?s1 = "s\<lparr>angle_buffer := deque_append 60 (angle_buffer s) a\<rparr>"
  have "current_phase ?s1 = current_phase s" by simp
  then show ?thesis
    using rep_detection_body_edge[of ?s1 a t "category_thresholds_of (current_category ?s1)"]
    by (auto simp: advanced_rep_detection_def Let_def allowed_step_def split: option.splits prod.splits)
qed

lemma process_frame_edge:
  "allowed_step (current_phase s) (current_phase (snd (process_frame ob s)))"
proof -
  have "current_phase (update_exercise_context ob s) = current_phase s"
    by (simp add: update_exercise_context_def)
  then show ?thesis
    using advanced_rep_detection_edge[of "update_exercise_context ob s" "pose_features ob" "clock ob"]
    by (auto simp: process_frame_def allowed_step_def)
qed

lemma phase_trace_hd: "hd (phase_trace obs s) = current_phase s"
  by (cases obs) auto

lemma phase_trace_successively: "successively allowed_step (phase_trace obs s)"
proof (induction obs arbitrary: s)
  case Nil
  then show ?case by simp
next
  case (Cons ob obs)
  have "phase_trace obs (snd (process_frame ob s)) \<noteq> []" by (cases obs) auto
  then show ?case
    using Cons.IH[of "snd (process_frame ob s)"] process_frame_edge[of s ob]
      phase_trace_hd[of obs "snd (process_frame ob s)"]
    by (cases "phase_trace obs (snd (process_frame ob s))") (auto simp: successively_Cons)
qed

lemma current_phase_session_at: "current_phase (session_at xs V H r p l h) = p"
  by (simp add: session_at_def)

lemma cycle_phase_trace:
  "phase_trace (obs_from (1 / 5) [130, 135, 140, 150, 150, 110, 105, 105, 105, 108, 105, 105, 105, 105, 105])
     primed_session =
     [Start, Start, Start, Quarter, Quarter, Peak, Peak, Return, Return, Return, Return, End, End, End, End, End]"
proof -
  obtain h1 where f1: "snd (process_frame (observe 130 (1 / 5))
     (session_at [100, 100, 100, 100, 100, 100, 100, 100, 100, 100, 100, 100, 100, 100, 100]
       [] [] 0 Start 0 [])) =
     (session_at [100, 100, 100, 100, 100, 100, 100, 100, 100, 100, 100, 100, 100, 100, 100, 130]
       [Quarter] [] 0 Start 0 h1)"
    using cycle_frame_1[of "[]"] by blast
  obtain h2 where f2: "snd (process_frame (observe 135 (2 / 5))
     (session_at [100, 100, 100, 100, 100, 100, 100, 100, 100, 100, 100, 100, 100, 100, 100, 130]
       [Quarter] [] 0 Start 0 h1)) =
     (session_at [100, 100, 100, 100, 100, 100, 100, 100, 100, 100, 100, 100, 100, 100, 100, 130, 135]
       [Quarter, Quarter] [] 0 Start 0 h2)"
    using cycle_frame_2[of h1] by blast
  obtain h3 where f3: "snd (process_frame (observe 140 (3 / 5))
     (session_at [100, 100, 100, 100, 100, 100, 100, 100, 100, 100, 100, 100, 100, 100, 100, 130, 135]
       [Quarter, Quarter] [] 0 Start 0 h2)) =
     (session_at [100, 100, 100, 100, 100, 100, 100, 100, 100, 100, 100, 100, 100, 100, 100, 130, 135, 140]
       [Quarter, Quarter, Quarter] [Quarter] 0 Quarter 0 h3)"
    using cycle_frame_3[of h2] by blast
  obtain h4 where f4: "snd (process_frame (observe 150 (4 / 5))
     (session_at [100, 100, 100, 100, 100, 100, 100, 100, 100, 100, 100, 100, 100, 100, 100, 130, 135, 140]
       [Quarter, Quarter, Quarter] [Quarter] 0 Quarter 0 h3)) =
     (session_at [100, 100, 100, 100, 100, 100, 100, 100, 100, 100, 100, 100, 100, 100, 100, 130, 135, 140, 150]
       [Quarter, Quarter, Quarter, Peak] [Quarter] 0 Quarter 0 h4)"
    using cycle_frame_4[of h3] by blast
  obtain h5 where f5: "snd (process_frame (observe 150 1)
     (session_at [100, 100, 100, 100, 100, 100, 100, 100, 100, 100, 100, 100, 100, 100, 100, 130, 135, 140, 150]
       [Quarter, Quarter, Quarter, Peak] [Quarter] 0 Quarter 0 h4)) =
     (session_at [100, 100, 100, 100, 100, 100, 100, 100, 100, 100, 100, 100, 100, 100, 100, 130, 135, 140, 150, 150]
       [Quarter, Quarter, Quarter, Peak, Peak] [Quarter, Peak] 0 Peak 0 h5)"
    using cycle_frame_5[of h4] by blast
  obtain h6 where f6: "snd (process_frame (observe 110 (6 / 5))
     (session_at [100, 100, 100, 100, 100, 100, 100, 100, 100, 100, 100, 100, 100, 100, 100, 130, 135, 140, 150, 150]
       [Quarter, Quarter, Quarter, Peak, Peak] [Quarter, Peak] 0 Peak 0 h5)) =
     (session_at [100, 100, 100, 100, 100, 100, 100, 100, 100, 100, 100, 100, 100, 100, 100, 130, 135, 140, 150, 150, 110]
       [Quarter, Quarter, Quarter, Peak, Peak, Return] [Quarter, Peak] 0 Peak 0 h6)"
    using cycle_frame_6[of h5] by blast
  obtain h7 where f7: "snd (process_frame (observe 105 (7 / 5))
     (session_at [100, 100, 100, 100, 100, 100, 100, 100, 100, 100, 100, 100, 100, 100, 100, 130, 135, 140, 150, 150, 110]
       [Quarter, Quarter, Quarter, Peak, Peak, Return] [Quarter, Peak] 0 Peak 0 h6)) =
     (session_at [100, 100, 100, 100, 100, 100, 100, 100, 100, 100, 100, 100, 100, 100, 100, 130, 135, 140, 150, 150, 110, 105]
       [Quarter, Quarter, Quarter, Peak, Peak, Return, Return] [Quarter, Peak, Return] 0 Return 0 h7)"
    using cycle_frame_7[of h6] by blast
  obtain h8 where f8: "snd (process_frame (observe 105 (8 / 5))
     (session_at [100, 100, 100, 100, 100, 100, 100, 100, 100, 100, 100, 100, 100, 100, 100, 130, 135, 140, 150, 150, 110, 105]
       [Quarter, Quarter, Quarter, Peak, Peak, Return, Return] [Quarter, Peak, Return] 0 Return 0 h7)) =
     (session_at [100, 100, 100, 100, 100, 100, 100, 100, 100, 100, 100, 100, 100, 100, 100, 130, 135, 140, 150, 150, 110, 105, 105]
       [Quarter, Quarter, Quarter, Peak, Peak, Return, Return, Return] [Quarter, Peak, Return] 0 Return 0 h8)"
    using cycle_frame_8[of h7] by blast
  obtain h9 where f9: "snd (process_frame (observe 105 (9 / 5))
     (session_at [100, 100, 100, 100, 100, 100, 100, 100, 100, 100, 100, 100, 100, 100, 100, 130, 135, 140, 150, 150, 110, 105, 105]
       [Quarter, Quarter, Quarter, Peak, Peak, Return, Return, Return] [Quarter, Peak, Return] 0 Return 0 h8)) =
     (session_at [100, 100, 100, 100, 100, 100, 100, 100, 100, 100, 100, 100, 100, 100, 100, 130, 135, 140, 150, 150, 110, 105, 105, 105]
       [Quarter, Quarter, Quarter, Peak, Peak, Return, Return, Return, Return] [Quarter, Peak, Return] 0 Return 0 h9)"
    using cycle_frame_9[of h8] by blast
  obtain h10 where f10: "snd (process_frame (observe 108 2)
     (session_at [100, 100, 100, 100, 100, 100, 100, 100, 100, 100, 100, 100, 100, 100, 100, 130, 135, 140, 150, 150, 110, 105, 105, 105]
       [Quarter, Quarter, Quarter, Peak, Peak, Return, Return, Return, Return] [Quarter, Peak, Return] 0 Return 0 h9)) =
     (session_at [100, 100, 100, 100, 100, 100, 100, 100, 100, 100, 100, 100, 100, 100, 100, 130, 135, 140, 150, 150, 110, 105, 105, 105, 108]
       [Quarter, Quarter, Quarter, Peak, Peak, Return, Return, Return, Return, End] [Quarter, Peak, Return] 0 Return 0 h10)"
    using cycle_frame_10[of h9] by blast
  obtain h11 where f11: "snd (process_frame (observe 105 (11 / 5))
     (session_at [100, 100, 100, 100, 100, 100, 100, 100, 100, 100, 100, 100, 100, 100, 100, 130, 135, 140, 150, 150, 110, 105, 105, 105, 108]
       [Quarter, Quarter, Quarter, Peak, Peak, Return, Return, Return, Return, End] [Quarter, Peak, Return] 0 Return 0 h10)) =
     (session_at [100, 100, 100, 100, 100, 100, 100, 100, 100, 100, 100, 100, 100, 100, 100, 130, 135, 140, 150, 150, 110, 105, 105, 105, 108, 105]
       [Quarter, Quarter, Quarter, Peak, Peak, Return, Return, Return, Return, End, End] [Quarter, Peak, Return, End] 1 End (11 / 5) h11)"
    using cycle_frame_11[of h10] by blast
  obtain h12 where f12: "snd (process_frame (observe 105 (12 / 5))
     (session_at [100, 100, 100, 100, 100, 100, 100, 100, 100, 100, 100, 100, 100, 100, 100, 130, 135, 140, 150, 150, 110, 105, 105, 105, 108, 105]
       [Quarter, Quarter, Quarter, Peak, Peak, Return, Return, Return, Return, End, End] [Quarter, Peak, Return, End] 1 End (11 / 5) h11)) =
     (session_at [100, 100, 100, 100, 100, 100, 100, 100, 100, 100, 100, 100, 100, 100, 100, 130, 135, 140, 150, 150, 110, 105, 105, 105, 108, 105, 105]
       [Quarter, Quarter, Quarter, Peak, Peak, Return, Return, Return, Return, End, End, End] [Quarter, Peak, Return, End] 1 End (11 / 5) h12)"
    using cycle_frame_12[of h11] by blast
  obtain h13 where f13: "snd (process_frame (observe 105 (13 / 5))
     (session_at [100, 100, 100, 100, 100, 100, 100, 100, 100, 100, 100, 100, 100, 100, 100, 130, 135, 140, 150, 150, 110, 105, 105, 105, 108, 105, 105]
       [Quarter, Quarter, Quarter, Peak, Peak, Return, Return, Return, Return, End, End, End] [Quarter, Peak, Return, End] 1 End (11 / 5) h12)) =
     (session_at [100, 100, 100, 100, 100, 100, 100, 100, 100, 100, 100, 100, 100, 100, 100, 130, 135, 140, 150, 150, 110, 105, 105, 105, 108, 105, 105, 105]
       [Quarter, Quarter, Quarter, Peak, Peak, Return, Return, Return, Return, End, End, End, End] [Quarter, Peak, Return, End] 1 End (11 / 5) h13)"
    using cycle_frame_13[of h12] by blast
  obtain h14 where f14: "snd (process_frame (observe 105 (14 / 5))
     (session_at [100, 100, 100, 100, 100, 100, 100, 100, 100, 100, 100, 100, 100, 100, 100, 130, 135, 140, 150, 150, 110, 105, 105, 105, 108, 105, 105, 105]
       [Quarter, Quarter, Quarter, Peak, Peak, Return, Return, Return, Return, End, End, End, End] [Quarter, Peak, Return, End] 1 End (11 / 5) h13)) =
     (session_at [100, 100, 100, 100, 100, 100, 100, 100, 100, 100, 100, 100, 100, 100, 100, 130, 135, 140, 150, 150, 110, 105, 105, 105, 108, 105, 105, 105, 105]
       [Quarter, Quarter, Quarter, Peak, Peak, Return, Return, Return, Return, End, End, End, End, End] [Quarter, Peak, Return, End] 1 End (11 / 5) h14)"
    using cycle_frame_14[of h13] by blast
  obtain h15 where f15: "snd (process_frame (observe 105 3)
     (session_at [100, 100, 100, 100, 100, 100, 100, 100, 100, 100, 100, 100, 100, 100, 100, 130, 135, 140, 150, 150, 110, 105, 105, 105, 108, 105, 105, 105, 105]
       [Quarter, Quarter, Quarter, Peak, Peak, Return, Return, Return, Return, End, End, End, End, End] [Quarter, Peak, Return, End] 1 End (11 / 5) h14)) =
     (session_at [100, 100, 100, 100, 100, 100, 100, 100, 100, 100, 100, 100, 100, 100, 100, 130, 135, 140, 150, 150, 110, 105, 105, 105, 108, 105, 105, 105, 105, 105]
       [Quarter, Quarter, Quarter, Peak, Peak, Return, Return, Return, Return, End, End, End, End, End, End] [Quarter, Peak, Return, End] 2 End 3 h15)"
    using cycle_frame_15[of h14] by blast
  show ?thesis
    unfolding primed_session_def
    by (simp add: f1 f2 f3 f4 f5 f6 f7 f8 f9 f10 f11 f12 f13 f14 f15 current_phase_session_at)
qed

text \<open>
  C1, for the comprehensive engine. From every session state, one frame through
  \<open>process_frame\<close> or \<open>advanced_rep_detection\<close>, and one call of
  \<open>validate_and_update_phase\<close>, leave the committed phase where it was or move it along an
  edge of the transition table; so along every sequence of frames each change of the
  committed phase is such an edge. Start to peak is not an edge: the committed phase never
  goes from start to peak without being quarter in between.
\<close>

theorem committed_phase_follows_table:
  "allowed_step (current_phase s) (current_phase (snd (process_frame ob s))) \<and>
   allowed_step (current_phase s) (current_phase (snd (advanced_rep_detection a t s))) \<and>
   (validate_and_update_phase c th s = Some s' \<longrightarrow>
      allowed_step (current_phase s) (current_phase s')) \<and>
   successively allowed_step (phase_trace obs s) \<and>
   \<not> allowed_step Start Peak"
  using process_frame_edge[of s ob] advanced_rep_detection_edge[of s a t]
    validate_and_update_phase_edge[of c th s s'] phase_trace_successively[of obs s]
  by (auto simp: allowed_step_def valid_transitions_def)

theorem committed_phase_follows_table_witness:
  "validate_and_update_phase Quarter default_thresholds
     (session_at [] [Quarter, Quarter, Quarter] [] 0 Start 0 []) =
     Some (session_at [] [Quarter, Quarter, Quarter] [Quarter] 0 Quarter 0 []) \<and>
   allowed_step Start Quarter \<and>
   current_phase (snd (process_frame (observe 140 (3 / 5))
     (session_at [100, 100, 100, 100, 100, 100, 100, 100, 100, 100, 100, 100, 100, 100, 100, 130, 135]
       [Quarter, Quarter] [] 0 Start 0 []))) = Quarter \<and>
   phase_trace (obs_from (1 / 5) [130, 135, 140, 150, 150, 110, 105, 105, 105, 108, 105, 105, 105, 105, 105])
     primed_session =
     [Start, Start, Start, Quarter, Quarter, Peak, Peak, Return, Return, Return, Return, End, End, End, End, End] \<and>
   successively allowed_step
     [Start, Start, Start, Quarter, Quarter, Peak, Peak, Return, Return, Return, Return, End, End, End, End, End]"
proof -
  let ?v = "session_at [] [Quarter, Quarter, Quarter] [] 0 Start 0 []"
  let ?v' = "session_at [] [Quarter, Quarter, Quarter] [Quarter] 0 Quarter 0 []"
  let ?s = "(session_at [100, 100, 100, 100, 100, 100, 100, 100, 100, 100, 100, 100, 100, 100, 100, 130, 135]
       [Quarter, Quarter] [] 0 Start 0 [])"
  let ?obs = "obs_from (1 / 5) [130, 135, 140, 150, 150, 110, 105, 105, 105, 108, 105, 105, 105, 105, 105]"
  have v: "validate_and_update_phase Quarter default_thresholds ?v = Some ?v'"
    by code_simp
  obtain h where f: "snd (process_frame (observe 140 (3 / 5)) ?s) =
      (session_at [100, 100, 100, 100, 100, 100, 100, 100, 100, 100, 100, 100, 100, 100, 100, 130, 135, 140]
       [Quarter, Quarter, Quarter] [Quarter] 0 Quarter 0 h)"
    using cycle_frame_3[of "[]"] by blast
  have p: "current_phase ?v = Start" "current_phase ?v' = Quarter" "current_phase ?s = Start"
    by (simp_all add: current_phase_session_at)
  show ?thesis
    using committed_phase_follows_table
            [where s = ?v and c = Quarter and th = default_thresholds and s' = ?v']
          committed_phase_follows_table
            [where s = ?s and ob = "observe 140 (3 / 5)"]
          committed_phase_follows_table [where s = primed_session and obs = ?obs]
          v f p cycle_phase_trace
    by (simp add: current_phase_session_at)
qed

text \<open>
  C1 as stated fails for \<open>universal_rep_detection\<close> of the professional engine, which
  commits the most frequent vote and has no transition table: with both elbows bent to 60
  degrees from the first frame on, the committed phase is start after eleven frames and
  peak after the twelfth, and the committed history is peak alone. (The vote buffer holds
  peak three times, so the order in which Python iterates the set of votes plays no part.)
\<close>

theorem universal_commits_start_to_peak:
  "pro_phase (pro_run remdups (flexed_frames 11) curl_session) = Start \<and>
   pro_phase (pro_run remdups (flexed_frames 12) curl_session) = Peak \<and>
   phase_history (pro_run remdups (flexed_frames 12) curl_session) = [Peak] \<and>
   \<not> allowed_step Start Peak"
  unfolding curl_after_12 curl_after_11
  by (simp add: curl_session_def set_target_exercise_def pro_init_def allowed_step_def
      valid_transitions_def)

subsection \<open>The consensus gate\<close>




subsection \<open>When a repetition is counted\<close>

lemma pro_run_append: "pro_run ord (xs @ ys) s = pro_run ord ys (pro_run ord xs s)"
  by (induction ord xs s rule: pro_run.induct) auto

lemma curl_frames_append:
  "curl_frames t (xs @ ys) = curl_frames t xs @ curl_frames (t + real (length xs) / 30) ys"
proof (induction xs arbitrary: t)
  case Nil
  show ?case by simp
next
  case (Cons a xs)
  show ?case using Cons[of "t + 1 / 30"] by (simp add: add_divide_distrib add.assoc)
qed

lemma curl_run_append:
  "length xs = n \<Longrightarrow>
   pro_run ord (curl_frames t (xs @ ys)) s =
     pro_run ord (curl_frames (t + real n / 30) ys) (pro_run ord (curl_frames t xs) s)"
  by (auto simp: curl_frames_append pro_run_append)

lemmas curl_eval = pro_eval curl_angles_def

lemma curl_segment_1:
  "pro_run remdups (curl_frames t [170, 170, 170, 170, 170])
     (curl_session\<lparr>pro_angle_buffer := [],
       pro_phase_buffer := [], phase_history := [],
       pro_phase := Start, confidence_scores := []\<rparr>) =
     curl_session\<lparr>pro_angle_buffer := [170, 170, 170, 170, 170],
       pro_phase_buffer := [], phase_history := [],
       pro_phase := Start, confidence_scores := []\<rparr>"
  by (simp add: curl_eval)

lemma curl_segment_2:
  "pro_run remdups (curl_frames t [170, 170, 170, 170])
     (curl_session\<lparr>pro_angle_buffer := [170, 170, 170, 170, 170],
       pro_phase_buffer := [], phase_history := [],
       pro_phase := Start, confidence_scores := []\<rparr>) =
     curl_session\<lparr>pro_angle_buffer := [170, 170, 170, 170, 170, 170, 170, 170, 170],
       pro_phase_buffer := [], phase_history := [],
       pro_phase := Start, confidence_scores := []\<rparr>"
  by (simp add: curl_eval)

lemma curl_segment_3:
  "pro_run remdups (curl_frames t [130, 130, 130, 130, 130])
     (curl_session\<lparr>pro_angle_buffer := [170, 170, 170, 170, 170, 170, 170, 170, 170],
       pro_phase_buffer := [], phase_history := [],
       pro_phase := Start, confidence_scores := []\<rparr>) =
     curl_session\<lparr>pro_angle_buffer := [170, 170, 170, 170, 170, 170, 170, 170, 170, 130, 130, 130, 130, 130],
       pro_phase_buffer := [Quarter, Quarter, Quarter, Quarter, Quarter], phase_history := [Quarter],
       pro_phase := Quarter, confidence_scores := [1 / 2, 1 / 2, 1 / 2, 1 / 2, 1 / 2]\<rparr>"
  by (simp add: curl_eval)

lemma curl_segment_4:
  "pro_run remdups (curl_frames t [100])
     (curl_session\<lparr>pro_angle_buffer := [170, 170, 170, 170, 170, 170, 170, 170, 170, 130, 130, 130, 130, 130],
       pro_phase_buffer := [Quarter, Quarter, Quarter, Quarter, Quarter], phase_history := [Quarter],
       pro_phase := Quarter, confidence_scores := [1 / 2, 1 / 2, 1 / 2, 1 / 2, 1 / 2]\<rparr>) =
     curl_session\<lparr>pro_angle_buffer := [170, 170, 170, 170, 170, 170, 170, 170, 170, 130, 130, 130, 130, 130, 100],
       pro_phase_buffer := [Quarter, Quarter, Quarter, Quarter, Quarter, Return], phase_history := [Quarter],
       pro_phase := Quarter, confidence_scores := [1 / 2, 1 / 2, 1 / 2, 1 / 2, 1 / 2, 7 / 8]\<rparr>"
  by (simp add: curl_eval)

lemma curl_segment_5:
  "pro_run remdups (curl_frames t [60, 60, 60, 60, 60])
     (curl_session\<lparr>pro_angle_buffer := [170, 170, 170, 170, 170, 170, 170, 170, 170, 130, 130, 130, 130, 130, 100],
       pro_phase_buffer := [Quarter, Quarter, Quarter, Quarter, Quarter, Return], phase_history := [Quarter],
       pro_phase := Quarter, confidence_scores := [1 / 2, 1 / 2, 1 / 2, 1 / 2, 1 / 2, 7 / 8]\<rparr>) =
     curl_session\<lparr>pro_angle_buffer := [170, 170, 170, 170, 170, 170, 170, 170, 170, 130, 130, 130, 130, 130, 100, 60, 60, 60, 60, 60],
       pro_phase_buffer := [Quarter, Quarter, Quarter, Quarter, Return, Peak, Peak, Peak, Peak, Peak], phase_history := [Quarter, Peak],
       pro_phase := Peak, confidence_scores := [1 / 2, 1 / 2, 1 / 2, 1 / 2, 1 / 2, 7 / 8, 1, 1, 1, 7 / 8, 7 / 8]\<rparr>"
  by (simp add: curl_eval)

lemma curl_segment_6:
  "pro_run remdups (curl_frames t [100])
     (curl_session\<lparr>pro_angle_buffer := [170, 170, 170, 170, 170, 170, 170, 170, 170, 130, 130, 130, 130, 130, 100, 60, 60, 60, 60, 60],
       pro_phase_buffer := [Quarter, Quarter, Quarter, Quarter, Return, Peak, Peak, Peak, Peak, Peak], phase_history := [Quarter, Peak],
       pro_phase := Peak, confidence_scores := [1 / 2, 1 / 2, 1 / 2, 1 / 2, 1 / 2, 7 / 8, 1, 1, 1, 7 / 8, 7 / 8]\<rparr>) =
     curl_session\<lparr>pro_angle_buffer := [170, 170, 170, 170, 170, 170, 170, 170, 170, 130, 130, 130, 130, 130, 100, 60, 60, 60, 60, 60, 100],
       pro_phase_buffer := [Quarter, Quarter, Quarter, Return, Peak, Peak, Peak, Peak, Peak, Return], phase_history := [Quarter, Peak],
       pro_phase := Peak, confidence_scores := [1 / 2, 1 / 2, 1 / 2, 1 / 2, 1 / 2, 7 / 8, 1, 1, 1, 7 / 8, 7 / 8, 7 / 8]\<rparr>"
  by (simp add: curl_eval)

lemma curl_segment_7:
  "pro_run remdups (curl_frames t [170, 170, 170, 170])
     (curl_session\<lparr>pro_angle_buffer := [170, 170, 170, 170, 170, 170, 170, 170, 170, 130, 130, 130, 130, 130, 100, 60, 60, 60, 60, 60, 100],
       pro_phase_buffer := [Quarter, Quarter, Quarter, Return, Peak, Peak, Peak, Peak, Peak, Return], phase_history := [Quarter, Peak],
       pro_phase := Peak, confidence_scores := [1 / 2, 1 / 2, 1 / 2, 1 / 2, 1 / 2, 7 / 8, 1, 1, 1, 7 / 8, 7 / 8, 7 / 8]\<rparr>) =
     curl_session\<lparr>pro_angle_buffer := [170, 170, 170, 170, 170, 170, 170, 170, 170, 130, 130, 130, 130, 130, 100, 60, 60, 60, 60, 60, 100, 170, 170, 170, 170],
       pro_phase_buffer := [Peak, Peak, Peak, Peak, Peak, Return, Start, Start, Start, Start], phase_history := [Quarter, Peak],
       pro_phase := Peak, confidence_scores := [1 / 2, 1 / 2, 1 / 2, 1 / 2, 1 / 2, 7 / 8, 1, 1, 1, 7 / 8, 7 / 8, 7 / 8, 1, 1, 1, 1]\<rparr>"
  by (simp add: curl_eval)

lemma curl_segment_8:
  "pro_run remdups (curl_frames t [170])
     (curl_session\<lparr>pro_angle_buffer := [170, 170, 170, 170, 170, 170, 170, 170, 170, 130, 130, 130, 130, 130, 100, 60, 60, 60, 60, 60, 100, 170, 170, 170, 170],
       pro_phase_buffer := [Peak, Peak, Peak, Peak, Peak, Return, Start, Start, Start, Start], phase_history := [Quarter, Peak],
       pro_phase := Peak, confidence_scores := [1 / 2, 1 / 2, 1 / 2, 1 / 2, 1 / 2, 7 / 8, 1, 1, 1, 7 / 8, 7 / 8, 7 / 8, 1, 1, 1, 1]\<rparr>) =
     curl_session\<lparr>pro_angle_buffer := [170, 170, 170, 170, 170, 170, 170, 170, 170, 130, 130, 130, 130, 130, 100, 60, 60, 60, 60, 60, 100, 170, 170, 170, 170, 170],
       pro_phase_buffer := [Peak, Peak, Peak, Peak, Return, Start, Start, Start, Start, Start], phase_history := [Quarter, Peak, Start],
       pro_phase := Start, confidence_scores := [1 / 2, 1 / 2, 1 / 2, 1 / 2, 1 / 2, 7 / 8, 1, 1, 1, 7 / 8, 7 / 8, 7 / 8, 1, 1, 1, 1]\<rparr>"
  by (simp add: curl_eval)

lemma curl_segment_9:
  "pro_run remdups (curl_frames t [100])
     (curl_session\<lparr>pro_angle_buffer := [170, 170, 170, 170, 170, 170, 170, 170, 170, 130, 130, 130, 130, 130, 100, 60, 60, 60, 60, 60, 100, 170, 170, 170, 170, 170],
       pro_phase_buffer := [Peak, Peak, Peak, Peak, Return, Start, Start, Start, Start, Start], phase_history := [Quarter, Peak, Start],
       pro_phase := Start, confidence_scores := [1 / 2, 1 / 2, 1 / 2, 1 / 2, 1 / 2, 7 / 8, 1, 1, 1, 7 / 8, 7 / 8, 7 / 8, 1, 1, 1, 1]\<rparr>) =
     curl_session\<lparr>pro_angle_buffer := [170, 170, 170, 170, 170, 170, 170, 170, 170, 130, 130, 130, 130, 130, 100, 60, 60, 60, 60, 60, 100, 170, 170, 170, 170, 170, 100],
       pro_phase_buffer := [Peak, Peak, Peak, Return, Start, Start, Start, Start, Start, Return], phase_history := [Quarter, Peak, Start],
       pro_phase := Start, confidence_scores := [1 / 2, 1 / 2, 1 / 2, 1 / 2, 1 / 2, 7 / 8, 1, 1, 1, 7 / 8, 7 / 8, 7 / 8, 1, 1, 1, 1]\<rparr>"
  by (simp add: curl_eval)

lemma curl_segment_10:
  "pro_run remdups (curl_frames t [60, 60, 60, 60, 60])
     (curl_session\<lparr>pro_angle_buffer := [170, 170, 170, 170, 170, 170, 170, 170, 170, 130, 130, 130, 130, 130, 100, 60, 60, 60, 60, 60, 100, 170, 170, 170, 170, 170, 100],
       pro_phase_buffer := [Peak, Peak, Peak, Return, Start, Start, Start, Start, Start, Return], phase_history := [Quarter, Peak, Start],
       pro_phase := Start, confidence_scores := [1 / 2, 1 / 2, 1 / 2, 1 / 2, 1 / 2, 7 / 8, 1, 1, 1, 7 / 8, 7 / 8, 7 / 8, 1, 1, 1, 1]\<rparr>) =
     curl_session\<lparr>pro_angle_buffer := [170, 170, 170, 170, 170, 170, 170, 170, 170, 130, 130, 130, 130, 130, 100, 60, 60, 60, 60, 60, 100, 170, 170, 170, 170, 170, 100, 60, 60, 60, 60, 60],
       pro_phase_buffer := [Start, Start, Start, Start, Return, Peak, Peak, Peak, Peak, Peak], phase_history := [Quarter, Peak, Start, Peak],
       pro_phase := Peak, confidence_scores := [1 / 2, 1 / 2, 1 / 2, 1 / 2, 1 / 2, 7 / 8, 1, 1, 1, 7 / 8, 7 / 8, 7 / 8, 1, 1, 1, 1]\<rparr>"
  by (simp add: curl_eval)

lemma curl_segment_11:
  "pro_run remdups (curl_frames t [100])
     (curl_session\<lparr>pro_angle_buffer := [170, 170, 170, 170, 170, 170, 170, 170, 170, 130, 130, 130, 130, 130, 100, 60, 60, 60, 60, 60, 100, 170, 170, 170, 170, 170, 100, 60, 60, 60, 60, 60],
       pro_phase_buffer := [Start, Start, Start, Start, Return, Peak, Peak, Peak, Peak, Peak], phase_history := [Quarter, Peak, Start, Peak],
       pro_phase := Peak, confidence_scores := [1 / 2, 1 / 2, 1 / 2, 1 / 2, 1 / 2, 7 / 8, 1, 1, 1, 7 / 8, 7 / 8, 7 / 8, 1, 1, 1, 1]\<rparr>) =
     curl_session\<lparr>pro_angle_buffer := [170, 170, 170, 170, 170, 170, 170, 170, 170, 130, 130, 130, 130, 130, 100, 60, 60, 60, 60, 60, 100, 170, 170, 170, 170, 170, 100, 60, 60, 60, 60, 60, 100],
       pro_phase_buffer := [Start, Start, Start, Return, Peak, Peak, Peak, Peak, Peak, Return], phase_history := [Quarter, Peak, Start, Peak],
       pro_phase := Peak, confidence_scores := [1 / 2, 1 / 2, 1 / 2, 1 / 2, 1 / 2, 7 / 8, 1, 1, 1, 7 / 8, 7 / 8, 7 / 8, 1, 1, 1, 1]\<rparr>"
  by (simp add: curl_eval)

lemma curl_segment_12:
  "pro_run remdups (curl_frames t [170, 170, 170, 170, 170])
     (curl_session\<lparr>pro_angle_buffer := [170, 170, 170, 170, 170, 170, 170, 170, 170, 130, 130, 130, 130, 130, 100, 60, 60, 60, 60, 60, 100, 170, 170, 170, 170, 170, 100, 60, 60, 60, 60, 60, 100],
       pro_phase_buffer := [Start, Start, Start, Return, Peak, Peak, Peak, Peak, Peak, Return], phase_history := [Quarter, Peak, Start, Peak],
       pro_phase := Peak, confidence_scores := [1 / 2, 1 / 2, 1 / 2, 1 / 2, 1 / 2, 7 / 8, 1, 1, 1, 7 / 8, 7 / 8, 7 / 8, 1, 1, 1, 1]\<rparr>) =
     curl_session\<lparr>pro_angle_buffer := [170, 170, 170, 170, 170, 170, 170, 170, 170, 130, 130, 130, 130, 130, 100, 60, 60, 60, 60, 60, 100, 170, 170, 170, 170, 170, 100, 60, 60, 60, 60, 60, 100, 170, 170, 170, 170, 170],
       pro_phase_buffer := [Peak, Peak, Peak, Peak, Return, Start, Start, Start, Start, Start], phase_history := [Quarter, Peak, Start, Peak, Start],
       pro_phase := Start, confidence_scores := [1 / 2, 1 / 2, 1 / 2, 1 / 2, 1 / 2, 7 / 8, 1, 1, 1, 7 / 8, 7 / 8, 7 / 8, 1, 1, 1, 1]\<rparr>"
  by (simp add: curl_eval)

lemma curl_after_segment_1:
  "pro_run remdups (curl_frames t [170, 170, 170, 170, 170]) curl_session =
     curl_session\<lparr>pro_angle_buffer := [170, 170, 170, 170, 170],
       pro_phase_buffer := [], phase_history := [],
       pro_phase := Start, confidence_scores := []\<rparr>"
  using curl_segment_1[of t] by (simp add: curl_session_def set_target_exercise_def pro_init_def)

lemma curl_after_segment_2:
  "pro_run remdups (curl_frames t [170, 170, 170, 170, 170, 170, 170, 170, 170]) curl_session =
     curl_session\<lparr>pro_angle_buffer := [170, 170, 170, 170, 170, 170, 170, 170, 170],
       pro_phase_buffer := [], phase_history := [],
       pro_phase := Start, confidence_scores := []\<rparr>"
proof -
  have n: "length ([170, 170, 170, 170, 170] :: real list) = 5" by simp
  have "pro_run remdups (curl_frames t ([170, 170, 170, 170, 170] @ [170, 170, 170, 170])) curl_session =
      pro_run remdups (curl_frames (t + real 5 / 30) [170, 170, 170, 170])
        (pro_run remdups (curl_frames t [170, 170, 170, 170, 170]) curl_session)"
    by (rule curl_run_append[OF n])
  also have "\<dots> = curl_session\<lparr>pro_angle_buffer := [170, 170, 170, 170, 170, 170, 170, 170, 170],
       pro_phase_buffer := [], phase_history := [],
       pro_phase := Start, confidence_scores := []\<rparr>"
    unfolding curl_after_segment_1 by (rule curl_segment_2)
  finally show ?thesis by (simp only: append.simps)
qed

lemma curl_after_segment_3:
  "pro_run remdups (curl_frames t [170, 170, 170, 170, 170, 170, 170, 170, 170, 130, 130, 130, 130, 130]) curl_session =
     curl_session\<lparr>pro_angle_buffer := [170, 170, 170, 170, 170, 170, 170, 170, 170, 130, 130, 130, 130, 130],
       pro_phase_buffer := [Quarter, Quarter, Quarter, Quarter, Quarter], phase_history := [Quarter],
       pro_phase := Quarter, confidence_scores := [1 / 2, 1 / 2, 1 / 2, 1 / 2, 1 / 2]\<rparr>"
proof -
  have n: "length ([170, 170, 170, 170, 170, 170, 170, 170, 170] :: real list) = 9" by simp
  have "pro_run remdups (curl_frames t ([170, 170, 170, 170, 170, 170, 170, 170, 170] @ [130, 130, 130, 130, 130])) curl_session =
      pro_run remdups (curl_frames (t + real 9 / 30) [130, 130, 130, 130, 130])
        (pro_run remdups (curl_frames t [170, 170, 170, 170, 170, 170, 170, 170, 170]) curl_session)"
    by (rule curl_run_append[OF n])
  also have "\<dots> = curl_session\<lparr>pro_angle_buffer := [170, 170, 170, 170, 170, 170, 170, 170, 170, 130, 130, 130, 130, 130],
       pro_phase_buffer := [Quarter, Quarter, Quarter, Quarter, Quarter], phase_history := [Quarter],
       pro_phase := Quarter, confidence_scores := [1 / 2, 1 / 2, 1 / 2, 1 / 2, 1 / 2]\<rparr>"
    unfolding curl_after_segment_2 by (rule curl_segment_3)
  finally show ?thesis by (simp only: append.simps)
qed

lemma curl_after_segment_4:
  "pro_run remdups (curl_frames t [170, 170, 170, 170, 170, 170, 170, 170, 170, 130, 130, 130, 130, 130, 100]) curl_session =
     curl_session\<lparr>pro_angle_buffer := [170, 170, 170, 170, 170, 170, 170, 170, 170, 130, 130, 130, 130, 130, 100],
       pro_phase_buffer := [Quarter, Quarter, Quarter, Quarter, Quarter, Return], phase_history := [Quarter],
       pro_phase := Quarter, confidence_scores := [1 / 2, 1 / 2, 1 / 2, 1 / 2, 1 / 2, 7 / 8]\<rparr>"
proof -
  have n: "length ([170, 170, 170, 170, 170, 170, 170, 170, 170, 130, 130, 130, 130, 130] :: real list) = 14" by simp
  have "pro_run remdups (curl_frames t ([170, 170, 170, 170, 170, 170, 170, 170, 170, 130, 130, 130, 130, 130] @ [100])) curl_session =
      pro_run remdups (curl_frames (t + real 14 / 30) [100])
        (pro_run remdups (curl_frames t [170, 170, 170, 170, 170, 170, 170, 170, 170, 130, 130, 130, 130, 130]) curl_session)"
    by (rule curl_run_append[OF n])
  also have "\<dots> = curl_session\<lparr>pro_angle_buffer := [170, 170, 170, 170, 170, 170, 170, 170, 170, 130, 130, 130, 130, 130, 100],
       pro_phase_buffer := [Quarter, Quarter, Quarter, Quarter, Quarter, Return], phase_history := [Quarter],
       pro_phase := Quarter, confidence_scores := [1 / 2, 1 / 2, 1 / 2, 1 / 2, 1 / 2, 7 / 8]\<rparr>"
    unfolding curl_after_segment_3 by (rule curl_segment_4)
  finally show ?thesis by (simp only: append.simps)
qed

lemma curl_after_segment_5:
  "pro_run remdups (curl_frames t [170, 170, 170, 170, 170, 170, 170, 170, 170, 130, 130, 130, 130, 130, 100, 60, 60, 60, 60, 60]) curl_session =
     curl_session\<lparr>pro_angle_buffer := [170, 170, 170, 170, 170, 170, 170, 170, 170, 130, 130, 130, 130, 130, 100, 60, 60, 60, 60, 60],
       pro_phase_buffer := [Quarter, Quarter, Quarter, Quarter, Return, Peak, Peak, Peak, Peak, Peak], phase_history := [Quarter, Peak],
       pro_phase := Peak, confidence_scores := [1 / 2, 1 / 2, 1 / 2, 1 / 2, 1 / 2, 7 / 8, 1, 1, 1, 7 / 8, 7 / 8]\<rparr>"
proof -
  have n: "length ([170, 170, 170, 170, 170, 170, 170, 170, 170, 130, 130, 130, 130, 130, 100] :: real list) = 15" by simp
  have "pro_run remdups (curl_frames t ([170, 170, 170, 170, 170, 170, 170, 170, 170, 130, 130, 130, 130, 130, 100] @ [60, 60, 60, 60, 60])) curl_session =
      pro_run remdups (curl_frames (t + real 15 / 30) [60, 60, 60, 60, 60])
        (pro_run remdups (curl_frames t [170, 170, 170, 170, 170, 170, 170, 170, 170, 130, 130, 130, 130, 130, 100]) curl_session)"
    by (rule curl_run_append[OF n])
  also have "\<dots> = curl_session\<lparr>pro_angle_buffer := [170, 170, 170, 170, 170, 170, 170, 170, 170, 130, 130, 130, 130, 130, 100, 60, 60, 60, 60, 60],
       pro_phase_buffer := [Quarter, Quarter, Quarter, Quarter, Return, Peak, Peak, Peak, Peak, Peak], phase_history := [Quarter, Peak],
       pro_phase := Peak, confidence_scores := [1 / 2, 1 / 2, 1 / 2, 1 / 2, 1 / 2, 7 / 8, 1, 1, 1, 7 / 8, 7 / 8]\<rparr>"
    unfolding curl_after_segment_4 by (rule curl_segment_5)
  finally show ?thesis by (simp only: append.simps)
qed

lemma curl_after_segment_6:
  "pro_run remdups (curl_frames t [170, 170, 170, 170, 170, 170, 170, 170, 170, 130, 130, 130, 130, 130, 100, 60, 60, 60, 60, 60, 100]) curl_session =
     curl_session\<lparr>pro_angle_buffer := [170, 170, 170, 170, 170, 170, 170, 170, 170, 130, 130, 130, 130, 130, 100, 60, 60, 60, 60, 60, 100],
       pro_phase_buffer := [Quarter, Quarter, Quarter, Return, Peak, Peak, Peak, Peak, Peak, Return], phase_history := [Quarter, Peak],
       pro_phase := Peak, confidence_scores := [1 / 2, 1 / 2, 1 / 2, 1 / 2, 1 / 2, 7 / 8, 1, 1, 1, 7 / 8, 7 / 8, 7 / 8]\<rparr>"
proof -
  have n: "length ([170, 170, 170, 170, 170, 170, 170, 170, 170, 130, 130, 130, 130, 130, 100, 60, 60, 60, 60, 60] :: real list) = 20" by simp
  have "pro_run remdups (curl_frames t ([170, 170, 170, 170, 170, 170, 170, 170, 170, 130, 130, 130, 130, 130, 100, 60, 60, 60, 60, 60] @ [100])) curl_session =
      pro_run remdups (curl_frames (t + real 20 / 30) [100])
        (pro_run remdups (curl_frames t [170, 170, 170, 170, 170, 170, 170, 170, 170, 130, 130, 130, 130, 130, 100, 60, 60, 60, 60, 60]) curl_session)"
    by (rule curl_run_append[OF n])
  also have "\<dots> = curl_session\<lparr>pro_angle_buffer := [170, 170, 170, 170, 170, 170, 170, 170, 170, 130, 130, 130, 130, 130, 100, 60, 60, 60, 60, 60, 100],
       pro_phase_buffer := [Quarter, Quarter, Quarter, Return, Peak, Peak, Peak, Peak, Peak, Return], phase_history := [Quarter, Peak],
       pro_phase := Peak, confidence_scores := [1 / 2, 1 / 2, 1 / 2, 1 / 2, 1 / 2, 7 / 8, 1, 1, 1, 7 / 8, 7 / 8, 7 / 8]\<rparr>"
    unfolding curl_after_segment_5 by (rule curl_segment_6)
  finally show ?thesis by (simp only: append.simps)
qed

lemma curl_after_segment_7:
  "pro_run remdups (curl_frames t [170, 170, 170, 170, 170, 170, 170, 170, 170, 130, 130, 130, 130, 130, 100, 60, 60, 60, 60, 60, 100, 170, 170, 170, 170]) curl_session =
     curl_session\<lparr>pro_angle_buffer := [170, 170, 170, 170, 170, 170, 170, 170, 170, 130, 130, 130, 130, 130, 100, 60, 60, 60, 60, 60, 100, 170, 170, 170, 170],
       pro_phase_buffer := [Peak, Peak, Peak, Peak, Peak, Return, Start, Start, Start, Start], phase_history := [Quarter, Peak],
       pro_phase := Peak, confidence_scores := [1 / 2, 1 / 2, 1 / 2, 1 / 2, 1 / 2, 7 / 8, 1, 1, 1, 7 / 8, 7 / 8, 7 / 8, 1, 1, 1, 1]\<rparr>"
proof -
  have n: "length ([170, 170, 170, 170, 170, 170, 170, 170, 170, 130, 130, 130, 130, 130, 100, 60, 60, 60, 60, 60, 100] :: real list) = 21" by simp
  have "pro_run remdups (curl_frames t ([170, 170, 170, 170, 170, 170, 170, 170, 170, 130, 130, 130, 130, 130, 100, 60, 60, 60, 60, 60, 100] @ [170, 170, 170, 170])) curl_session =
      pro_run remdups (curl_frames (t + real 21 / 30) [170, 170, 170, 170])
        (pro_run remdups (curl_frames t [170, 170, 170, 170, 170, 170, 170, 170, 170, 130, 130, 130, 130, 130, 100, 60, 60, 60, 60, 60, 100]) curl_session)"
    by (rule curl_run_append[OF n])
  also have "\<dots> = curl_session\<lparr>pro_angle_buffer := [170, 170, 170, 170, 170, 170, 170, 170, 170, 130, 130, 130, 130, 130, 100, 60, 60, 60, 60, 60, 100, 170, 170, 170, 170],
       pro_phase_buffer := [Peak, Peak, Peak, Peak, Peak, Return, Start, Start, Start, Start], phase_history := [Quarter, Peak],
       pro_phase := Peak, confidence_scores := [1 / 2, 1 / 2, 1 / 2, 1 / 2, 1 / 2, 7 / 8, 1, 1, 1, 7 / 8, 7 / 8, 7 / 8, 1, 1, 1, 1]\<rparr>"
    unfolding curl_after_segment_6 by (rule curl_segment_7)
  finally show ?thesis by (simp only: append.simps)
qed

lemma curl_after_segment_8:
  "pro_run remdups (curl_frames t [170, 170, 170, 170, 170, 170, 170, 170, 170, 130, 130, 130, 130, 130, 100, 60, 60, 60, 60, 60, 100, 170, 170, 170, 170, 170]) curl_session =
     curl_session\<lparr>pro_angle_buffer := [170, 170, 170, 170, 170, 170, 170, 170, 170, 130, 130, 130, 130, 130, 100, 60, 60, 60, 60, 60, 100, 170, 170, 170, 170, 170],
       pro_phase_buffer := [Peak, Peak, Peak, Peak, Return, Start, Start, Start, Start, Start], phase_history := [Quarter, Peak, Start],
       pro_phase := Start, confidence_scores := [1 / 2, 1 / 2, 1 / 2, 1 / 2, 1 / 2, 7 / 8, 1, 1, 1, 7 / 8, 7 / 8, 7 / 8, 1, 1, 1, 1]\<rparr>"
proof -
  have n: "length ([170, 170, 170, 170, 170, 170, 170, 170, 170, 130, 130, 130, 130, 130, 100, 60, 60, 60, 60, 60, 100, 170, 170, 170, 170] :: real list) = 25" by simp
  have "pro_run remdups (curl_frames t ([170, 170, 170, 170, 170, 170, 170, 170, 170, 130, 130, 130, 130, 130, 100, 60, 60, 60, 60, 60, 100, 170, 170, 170, 170] @ [170])) curl_session =
      pro_run remdups (curl_frames (t + real 25 / 30) [170])
        (pro_run remdups (curl_frames t [170, 170, 170, 170, 170, 170, 170, 170, 170, 130, 130, 130, 130, 130, 100, 60, 60, 60, 60, 60, 100, 170, 170, 170, 170]) curl_session)"
    by (rule curl_run_append[OF n])
  also have "\<dots> = curl_session\<lparr>pro_angle_buffer := [170, 170, 170, 170, 170, 170, 170, 170, 170, 130, 130, 130, 130, 130, 100, 60, 60, 60, 60, 60, 100, 170, 170, 170, 170, 170],
       pro_phase_buffer := [Peak, Peak, Peak, Peak, Return, Start, Start, Start, Start, Start], phase_history := [Quarter, Peak, Start],
       pro_phase := Start, confidence_scores := [1 / 2, 1 / 2, 1 / 2, 1 / 2, 1 / 2, 7 / 8, 1, 1, 1, 7 / 8, 7 / 8, 7 / 8, 1, 1, 1, 1]\<rparr>"
    unfolding curl_after_segment_7 by (rule curl_segment_8)
  finally show ?thesis by (simp only: append.simps)
qed

lemma curl_after_segment_9:
  "pro_run remdups (curl_frames t [170, 170, 170, 170, 170, 170, 170, 170, 170, 130, 130, 130, 130, 130, 100, 60, 60, 60, 60, 60, 100, 170, 170, 170, 170, 170, 100]) curl_session =
     curl_session\<lparr>pro_angle_buffer := [170, 170, 170, 170, 170, 170, 170, 170, 170, 130, 130, 130, 130, 130, 100, 60, 60, 60, 60, 60, 100, 170, 170, 170, 170, 170, 100],
       pro_phase_buffer := [Peak, Peak, Peak, Return, Start, Start, Start, Start, Start, Return], phase_history := [Quarter, Peak, Start],
       pro_phase := Start, confidence_scores := [1 / 2, 1 / 2, 1 / 2, 1 / 2, 1 / 2, 7 / 8, 1, 1, 1, 7 / 8, 7 / 8, 7 / 8, 1, 1, 1, 1]\<rparr>"
proof -
  have n: "length ([170, 170, 170, 170, 170, 170, 170, 170, 170, 130, 130, 130, 130, 130, 100, 60, 60, 60, 60, 60, 100, 170, 170, 170, 170, 170] :: real list) = 26" by simp
  have "pro_run remdups (curl_frames t ([170, 170, 170, 170, 170, 170, 170, 170, 170, 130, 130, 130, 130, 130, 100, 60, 60, 60, 60, 60, 100, 170, 170, 170, 170, 170] @ [100])) curl_session =
      pro_run remdups (curl_frames (t + real 26 / 30) [100])
        (pro_run remdups (curl_frames t [170, 170, 170, 170, 170, 170, 170, 170, 170, 130, 130, 130, 130, 130, 100, 60, 60, 60, 60, 60, 100, 170, 170, 170, 170, 170]) curl_session)"
    by (rule curl_run_append[OF n])
  also have "\<dots> = curl_session\<lparr>pro_angle_buffer := [170, 170, 170, 170, 170, 170, 170, 170, 170, 130, 130, 130, 130, 130, 100, 60, 60, 60, 60, 60, 100, 170, 170, 170, 170, 170, 100],
       pro_phase_buffer := [Peak, Peak, Peak, Return, Start, Start, Start, Start, Start, Return], phase_history := [Quarter, Peak, Start],
       pro_phase := Start, confidence_scores := [1 / 2, 1 / 2, 1 / 2, 1 / 2, 1 / 2, 7 / 8, 1, 1, 1, 7 / 8, 7 / 8, 7 / 8, 1, 1, 1, 1]\<rparr>"
    unfolding curl_after_segment_8 by (rule curl_segment_9)
  finally show ?thesis by (simp only: append.simps)
qed

lemma curl_after_segment_10:
  "pro_run remdups (curl_frames t [170, 170, 170, 170, 170, 170, 170, 170, 170, 130, 130, 130, 130, 130, 100, 60, 60, 60, 60, 60, 100, 170, 170, 170, 170, 170, 100, 60, 60, 60, 60, 60]) curl_session =
     curl_session\<lparr>pro_angle_buffer := [170, 170, 170, 170, 170, 170, 170, 170, 170, 130, 130, 130, 130, 130, 100, 60, 60, 60, 60, 60, 100, 170, 170, 170, 170, 170, 100, 60, 60, 60, 60, 60],
       pro_phase_buffer := [Start, Start, Start, Start, Return, Peak, Peak, Peak, Peak, Peak], phase_history := [Quarter, Peak, Start, Peak],
       pro_phase := Peak, confidence_scores := [1 / 2, 1 / 2, 1 / 2, 1 / 2, 1 / 2, 7 / 8, 1, 1, 1, 7 / 8, 7 / 8, 7 / 8, 1, 1, 1, 1]\<rparr>"
proof -
  have n: "length ([170, 170, 170, 170, 170, 170, 170, 170, 170, 130, 130, 130, 130, 130, 100, 60, 60, 60, 60, 60, 100, 170, 170, 170, 170, 170, 100] :: real list) = 27" by simp
  have "pro_run remdups (curl_frames t ([170, 170, 170, 170, 170, 170, 170, 170, 170, 130, 130, 130, 130, 130, 100, 60, 60, 60, 60, 60, 100, 170, 170, 170, 170, 170, 100] @ [60, 60, 60, 60, 60])) curl_session =
      pro_run remdups (curl_frames (t + real 27 / 30) [60, 60, 60, 60, 60])
        (pro_run remdups (curl_frames t [170, 170, 170, 170, 170, 170, 170, 170, 170, 130, 130, 130, 130, 130, 100, 60, 60, 60, 60, 60, 100, 170, 170, 170, 170, 170, 100]) curl_session)"
    by (rule curl_run_append[OF n])
  also have "\<dots> = curl_session\<lparr>pro_angle_buffer := [170, 170, 170, 170, 170, 170, 170, 170, 170, 130, 130, 130, 130, 130, 100, 60, 60, 60, 60, 60, 100, 170, 170, 170, 170, 170, 100, 60, 60, 60, 60, 60],
       pro_phase_buffer := [Start, Start, Start, Start, Return, Peak, Peak, Peak, Peak, Peak], phase_history := [Quarter, Peak, Start, Peak],
       pro_phase := Peak, confidence_scores := [1 / 2, 1 / 2, 1 / 2, 1 / 2, 1 / 2, 7 / 8, 1, 1, 1, 7 / 8, 7 / 8, 7 / 8, 1, 1, 1, 1]\<rparr>"
    unfolding curl_after_segment_9 by (rule curl_segment_10)
  finally show ?thesis by (simp only: append.simps)
qed

lemma curl_after_segment_11:
  "pro_run remdups (curl_frames t [170, 170, 170, 170, 170, 170, 170, 170, 170, 130, 130, 130, 130, 130, 100, 60, 60, 60, 60, 60, 100, 170, 170, 170, 170, 170, 100, 60, 60, 60, 60, 60, 100]) curl_session =
     curl_session\<lparr>pro_angle_buffer := [170, 170, 170, 170, 170, 170, 170, 170, 170, 130, 130, 130, 130, 130, 100, 60, 60, 60, 60, 60, 100, 170, 170, 170, 170, 170, 100, 60, 60, 60, 60, 60, 100],
       pro_phase_buffer := [Start, Start, Start, Return, Peak, Peak, Peak, Peak, Peak, Return], phase_history := [Quarter, Peak, Start, Peak],
       pro_phase := Peak, confidence_scores := [1 / 2, 1 / 2, 1 / 2, 1 / 2, 1 / 2, 7 / 8, 1, 1, 1, 7 / 8, 7 / 8, 7 / 8, 1, 1, 1, 1]\<rparr>"
proof -
  have n: "length ([170, 170, 170, 170, 170, 170, 170, 170, 170, 130, 130, 130, 130, 130, 100, 60, 60, 60, 60, 60, 100, 170, 170, 170, 170, 170, 100, 60, 60, 60, 60, 60] :: real list) = 32" by simp
  have "pro_run remdups (curl_frames t ([170, 170, 170, 170, 170, 170, 170, 170, 170, 130, 130, 130, 130, 130, 100, 60, 60, 60, 60, 60, 100, 170, 170, 170, 170, 170, 100, 60, 60, 60, 60, 60] @ [100])) curl_session =
      pro_run remdups (curl_frames (t + real 32 / 30) [100])
        (pro_run remdups (curl_frames t [170, 170, 170, 170, 170, 170, 170, 170, 170, 130, 130, 130, 130, 130, 100, 60, 60, 60, 60, 60, 100, 170, 170, 170, 170, 170, 100, 60, 60, 60, 60, 60]) curl_session)"
    by (rule curl_run_append[OF n])
  also have "\<dots> = curl_session\<lparr>pro_angle_buffer := [170, 170, 170, 170, 170, 170, 170, 170, 170, 130, 130, 130, 130, 130, 100, 60, 60, 60, 60, 60, 100, 170, 170, 170, 170, 170, 100, 60, 60, 60, 60, 60, 100],
       pro_phase_buffer := [Start, Start, Start, Return, Peak, Peak, Peak, Peak, Peak, Return], phase_history := [Quarter, Peak, Start, Peak],
       pro_phase := Peak, confidence_scores := [1 / 2, 1 / 2, 1 / 2, 1 / 2, 1 / 2, 7 / 8, 1, 1, 1, 7 / 8, 7 / 8, 7 / 8, 1, 1, 1, 1]\<rparr>"
    unfolding curl_after_segment_10 by (rule curl_segment_11)
  finally show ?thesis by (simp only: append.simps)
qed

lemma curl_after_segment_12:
  "pro_run remdups (curl_frames t [170, 170, 170, 170, 170, 170, 170, 170, 170, 130, 130, 130, 130, 130, 100, 60, 60, 60, 60, 60, 100, 170, 170, 170, 170, 170, 100, 60, 60, 60, 60, 60, 100, 170, 170, 170, 170, 170]) curl_session =
     curl_session\<lparr>pro_angle_buffer := [170, 170, 170, 170, 170, 170, 170, 170, 170, 130, 130, 130, 130, 130, 100, 60, 60, 60, 60, 60, 100, 170, 170, 170, 170, 170, 100, 60, 60, 60, 60, 60, 100, 170, 170, 170, 170, 170],
       pro_phase_buffer := [Peak, Peak, Peak, Peak, Return, Start, Start, Start, Start, Start], phase_history := [Quarter, Peak, Start, Peak, Start],
       pro_phase := Start, confidence_scores := [1 / 2, 1 / 2, 1 / 2, 1 / 2, 1 / 2, 7 / 8, 1, 1, 1, 7 / 8, 7 / 8, 7 / 8, 1, 1, 1, 1]\<rparr>"
proof -
  have n: "length ([170, 170, 170, 170, 170, 170, 170, 170, 170, 130, 130, 130, 130, 130, 100, 60, 60, 60, 60, 60, 100, 170, 170, 170, 170, 170, 100, 60, 60, 60, 60, 60, 100] :: real list) = 33" by simp
  have "pro_run remdups (curl_frames t ([170, 170, 170, 170, 170, 170, 170, 170, 170, 130, 130, 130, 130, 130, 100, 60, 60, 60, 60, 60, 100, 170, 170, 170, 170, 170, 100, 60, 60, 60, 60, 60, 100] @ [170, 170, 170, 170, 170])) curl_session =
      pro_run remdups (curl_frames (t + real 33 / 30) [170, 170, 170, 170, 170])
        (pro_run remdups (curl_frames t [170, 170, 170, 170, 170, 170, 170, 170, 170, 130, 130, 130, 130, 130, 100, 60, 60, 60, 60, 60, 100, 170, 170, 170, 170, 170, 100, 60, 60, 60, 60, 60, 100]) curl_session)"
    by (rule curl_run_append[OF n])
  also have "\<dots> = curl_session\<lparr>pro_angle_buffer := [170, 170, 170, 170, 170, 170, 170, 170, 170, 130, 130, 130, 130, 130, 100, 60, 60, 60, 60, 60, 100, 170, 170, 170, 170, 170, 100, 60, 60, 60, 60, 60, 100, 170, 170, 170, 170, 170],
       pro_phase_buffer := [Peak, Peak, Peak, Peak, Return, Start, Start, Start, Start, Start], phase_history := [Quarter, Peak, Start, Peak, Start],
       pro_phase := Start, confidence_scores := [1 / 2, 1 / 2, 1 / 2, 1 / 2, 1 / 2, 7 / 8, 1, 1, 1, 7 / 8, 7 / 8, 7 / 8, 1, 1, 1, 1]\<rparr>"
    unfolding curl_after_segment_11 by (rule curl_segment_12)
  finally show ?thesis by (simp only: append.simps)
qed

lemma deque_append_length: "length (deque_append n xs x) = min (Suc (length xs)) n"
  by (simp add: deque_append_def)

lemma vote_phase_keeps_long_history:
  assumes "vote_phase ord c s = Some s'" "3 \<le> length (phase_history s)"
  shows "3 \<le> length (phase_history s')" "pro_angle_buffer s' = pro_angle_buffer s"
  using assms
  by (auto simp: vote_phase_def Let_def deque_append_length split: option.splits if_splits)

lemma universal_raises_on_long_history:
  assumes ready: "f \<noteq> []" "angles \<noteq> Map.empty"
    and buffered: "9 \<le> length (pro_angle_buffer s)"
    and long: "3 \<le> length (phase_history s)"
  shows "fst (universal_rep_detection ord f angles t s) = None"
    and "3 \<le> length (phase_history (snd (universal_rep_detection ord f angles t s)))"
    and "9 \<le> length (pro_angle_buffer (snd (universal_rep_detection ord f angles t s)))"
proof -
  obtain pa th where pm: "primary_movement angles s = (pa, th)"
    by (cases "primary_movement angles s") auto
  define s1 where "s1 = s\<lparr>pro_angle_buffer := deque_append 45 (pro_angle_buffer s) pa\<rparr>"
  have b1: "10 \<le> length (pro_angle_buffer s1)"
    using buffered by (simp add: s1_def deque_append_length)
  have h1: "3 \<le> length (phase_history s1)" using long by (simp add: s1_def)
  have unfold0: "universal_rep_detection ord f angles t s =
     (if length (pro_angle_buffer s1) < 10 then (Some (pro_rep_count s1, pro_phase s1, 0.5), s1)
      else case channel_range (last_n 10 (pro_angle_buffer s1)) of
        None \<Rightarrow> (None, s1)
      | Some angle_range \<Rightarrow>
          (case vote_phase ord (classify_angle pa th) s1 of
             None \<Rightarrow> (None, s1\<lparr>pro_phase_buffer :=
                        deque_append 10 (pro_phase_buffer s1) (classify_angle pa th)\<rparr>)
           | Some s2 \<Rightarrow>
               (case cycle_complete s2 of
                  None \<Rightarrow> (None, s2)
                | Some cycle \<Rightarrow>
                    let is_good_rep =
                          (cycle \<and> t - pro_last_rep_time s2 > 0.8 \<and> angle_range > 35);
                        s3 = (if is_good_rep
                              then s2\<lparr>pro_rep_count := pro_rep_count s2 + 1,
                                      pro_last_rep_time := t,
                                      rep_flash_timer := t,
                                      phase_history := []\<rparr>
                              else s2);
                        confidence =
                          (if angle_range > 0 then min 1 (angle_range / 80) else 0.5);
                        s4 = s3\<lparr>confidence_scores :=
                                  deque_append 30 (confidence_scores s3) confidence\<rparr>
                    in (Some (pro_rep_count s4, pro_phase s4, confidence), s4))))"
    unfolding universal_rep_detection_def s1_def Let_def using ready pm by simp
  have unfold: "universal_rep_detection ord f angles t s =
     (case channel_range (last_n 10 (pro_angle_buffer s1)) of
        None \<Rightarrow> (None, s1)
      | Some angle_range \<Rightarrow>
          (case vote_phase ord (classify_angle pa th) s1 of
             None \<Rightarrow> (None, s1\<lparr>pro_phase_buffer :=
                        deque_append 10 (pro_phase_buffer s1) (classify_angle pa th)\<rparr>)
           | Some s2 \<Rightarrow>
               (case cycle_complete s2 of
                  None \<Rightarrow> (None, s2)
                | Some cycle \<Rightarrow>
                    let is_good_rep =
                          (cycle \<and> t - pro_last_rep_time s2 > 0.8 \<and> angle_range > 35);
                        s3 = (if is_good_rep
                              then s2\<lparr>pro_rep_count := pro_rep_count s2 + 1,
                                      pro_last_rep_time := t,
                                      rep_flash_timer := t,
                                      phase_history := []\<rparr>
                              else s2);
                        confidence =
                          (if angle_range > 0 then min 1 (angle_range / 80) else 0.5);
                        s4 = s3\<lparr>confidence_scores :=
                                  deque_append 30 (confidence_scores s3) confidence\<rparr>
                    in (Some (pro_rep_count s4, pro_phase s4, confidence), s4))))"
    using b1 by (simp only: unfold0 not_less[symmetric] if_False)
  have all: "fst (universal_rep_detection ord f angles t s) = None \<and>
     3 \<le> length (phase_history (snd (universal_rep_detection ord f angles t s))) \<and>
     9 \<le> length (pro_angle_buffer (snd (universal_rep_detection ord f angles t s)))"
  proof (cases "channel_range (last_n 10 (pro_angle_buffer s1))")
    case None
    then show ?thesis using b1 h1 by (simp add: unfold)
  next
    case (Some angle_range)
    show ?thesis
    proof (cases "vote_phase ord (classify_angle pa th) s1")
      case None
      then show ?thesis using Some b1 h1 by (simp add: unfold)
    next
      case voted: (Some s2)
      have h2: "3 \<le> length (phase_history s2)" and b2: "pro_angle_buffer s2 = pro_angle_buffer s1"
        using vote_phase_keeps_long_history[OF voted h1] by simp_all
      have "cycle_complete s2 = None"
        using h2 by (simp add: cycle_complete_def deque_slice_last_def)
      then show ?thesis using Some voted h2 b2 b1 by (simp add: unfold)
    qed
  qed
  show "fst (universal_rep_detection ord f angles t s) = None"
    and "3 \<le> length (phase_history (snd (universal_rep_detection ord f angles t s)))"
    and "9 \<le> length (pro_angle_buffer (snd (universal_rep_detection ord f angles t s)))"
    using all by simp_all
qed

text \<open>
  C2. \<open>universal_rep_detection\<close> tests the three conditions of the claim in lines 442-452,
  but its test for a peak, \<open>'peak' in self.phase_history[-5:]\<close>, slices a deque, which
  Python refuses with a TypeError; \<open>and\<close> reaches that test exactly when the committed
  history holds three entries. So a completed curl is not counted, and from that frame on
  every call raises (\<open>universal_raises_on_long_history\<close>).

  Two curls, thirty frames per second, from a clock at ten seconds: both elbows rest at 170
  degrees, go through 130 and 100 to 60 and come back, twice. The votes never tie, so the
  order in which Python iterates a set plays no part. After 25 frames quarter and peak are
  committed. The 26th frame commits start: the cycle is complete, the history holds a peak,
  no repetition was counted before and the range of the last ten angles is 110 degrees; the
  call raises and nothing is counted. The second curl is complete at the 38th frame, 0.4
  seconds later, and the count is still 0.
\<close>

theorem completed_curls_never_counted:
  "pro_phase (pro_run remdups (curl_frames 10
      [170, 170, 170, 170, 170, 170, 170, 170, 170, 130, 130, 130, 130, 130, 100, 60, 60, 60, 60, 60, 100, 170, 170, 170, 170])
      curl_session) = Peak \<and>
   phase_history (pro_run remdups (curl_frames 10
      [170, 170, 170, 170, 170, 170, 170, 170, 170, 130, 130, 130, 130, 130, 100, 60, 60, 60, 60, 60, 100, 170, 170, 170, 170])
      curl_session) = [Quarter, Peak] \<and>
   fst (universal_rep_detection remdups [170, 170, 20, 20, 170, 170, 175, 175] (curl_angles 170)
      (10 + 25 / 30)
      (pro_run remdups (curl_frames 10
         [170, 170, 170, 170, 170, 170, 170, 170, 170, 130, 130, 130, 130, 130, 100, 60, 60, 60, 60, 60, 100, 170, 170, 170, 170])
         curl_session)) = None \<and>
   pro_phase (pro_run remdups (curl_frames 10
      [170, 170, 170, 170, 170, 170, 170, 170, 170, 130, 130, 130, 130, 130, 100, 60, 60, 60, 60, 60, 100, 170, 170, 170, 170, 170])
      curl_session) = Start \<and>
   phase_history (pro_run remdups (curl_frames 10
      [170, 170, 170, 170, 170, 170, 170, 170, 170, 130, 130, 130, 130, 130, 100, 60, 60, 60, 60, 60, 100, 170, 170, 170, 170, 170])
      curl_session) = [Quarter, Peak, Start] \<and>
   channel_range (last_n 10 (pro_angle_buffer (pro_run remdups (curl_frames 10
      [170, 170, 170, 170, 170, 170, 170, 170, 170, 130, 130, 130, 130, 130, 100, 60, 60, 60, 60, 60, 100, 170, 170, 170, 170, 170])
      curl_session))) = Some 110 \<and>
   pro_last_rep_time (pro_run remdups (curl_frames 10
      [170, 170, 170, 170, 170, 170, 170, 170, 170, 130, 130, 130, 130, 130, 100, 60, 60, 60, 60, 60, 100, 170, 170, 170, 170, 170])
      curl_session) = 0 \<and>
   pro_rep_count (pro_run remdups (curl_frames 10
      [170, 170, 170, 170, 170, 170, 170, 170, 170, 130, 130, 130, 130, 130, 100, 60, 60, 60, 60, 60, 100, 170, 170, 170, 170, 170])
      curl_session) = 0 \<and>
   pro_phase (pro_run remdups (curl_frames 10
      [170, 170, 170, 170, 170, 170, 170, 170, 170, 130, 130, 130, 130, 130, 100, 60, 60, 60, 60, 60, 100, 170, 170, 170, 170, 170, 100, 60, 60, 60, 60, 60, 100, 170, 170, 170, 170, 170])
      curl_session) = Start \<and>
   phase_history (pro_run remdups (curl_frames 10
      [170, 170, 170, 170, 170, 170, 170, 170, 170, 130, 130, 130, 130, 130, 100, 60, 60, 60, 60, 60, 100, 170, 170, 170, 170, 170, 100, 60, 60, 60, 60, 60, 100, 170, 170, 170, 170, 170])
      curl_session) = [Quarter, Peak, Start, Peak, Start] \<and>
   pro_rep_count (pro_run remdups (curl_frames 10
      [170, 170, 170, 170, 170, 170, 170, 170, 170, 130, 130, 130, 130, 130, 100, 60, 60, 60, 60, 60, 100, 170, 170, 170, 170, 170, 100, 60, 60, 60, 60, 60, 100, 170, 170, 170, 170, 170])
      curl_session) = 0"
proof -
  have raised: "fst (universal_rep_detection remdups [170, 170, 20, 20, 170, 170, 175, 175]
      (curl_angles 170) (10 + 25 / 30)
      (pro_run remdups (curl_frames 10
         [170, 170, 170, 170, 170, 170, 170, 170, 170, 130, 130, 130, 130, 130, 100, 60, 60, 60, 60, 60, 100, 170, 170, 170, 170])
         curl_session)) = None"
    unfolding curl_after_segment_7 by (simp add: curl_eval)
  show ?thesis
    unfolding curl_after_segment_7 curl_after_segment_8 curl_after_segment_12
    using raised[unfolded curl_after_segment_7]
    by (simp add: curl_session_def set_target_exercise_def pro_init_def last_n_def
        channel_range_def)
qed

end
